(* ===== verification/JsValue.thy ===== *)
theory JsValue
  imports Prelude
begin

text \<open>
  The part of the JavaScript (Deno/V8) runtime that the three handlers exercise: the values
  that \<open>JSON.parse\<close> produces, truthiness (\<open>!x\<close>, \<open>x || d\<close>), property access
  \<open>x.k\<close> and \<open>x[k]\<close> with its \<open>TypeError\<close> on \<open>undefined\<close> and \<open>null\<close>,
  the inherited members of \<open>Object.prototype\<close>, the numeric coercions behind \<open>/\<close>,
  \<open>>=\<close> and \<open>Math.pow\<close>, object spread, and the serialisation that
  \<open>JSON.stringify\<close> applies before a row is sent to the database.

  JavaScript numbers are IEEE doubles; here they are the extended reals \<open>jsnum\<close>
  (a real, the two infinities, NaN) and arithmetic is exact. Rounding of doubles, the sign
  of zero and integers beyond 2^53 are therefore not modelled. Strings are byte strings.
\<close>

datatype jsnum = Num real | PosInf | NegInf | NaN

datatype jsval =
    JUndef
  | JNull
  | JBool bool
  | JNumber jsnum
  | JStr string
  | JArr "jsval list"
  | JObj "(string \<times> jsval) list"
  | JBuiltin string \<comment> \<open>a built-in function or object reached through a prototype\<close>

subsection \<open>Truthiness\<close>

fun js_truthy :: "jsval \<Rightarrow> bool" where
  "js_truthy JUndef = False"
| "js_truthy JNull = False"
| "js_truthy (JBool b) = b"
| "js_truthy (JNumber (Num q)) = (q \<noteq> 0)"
| "js_truthy (JNumber NaN) = False"
| "js_truthy (JNumber PosInf) = True"
| "js_truthy (JNumber NegInf) = True"
| "js_truthy (JStr s) = (s \<noteq> [])"
| "js_truthy (JArr xs) = True"
| "js_truthy (JObj kvs) = True"
| "js_truthy (JBuiltin n) = True"

text \<open>\<open>a || b\<close>: the left operand when it is truthy, else the right one.\<close>

definition js_or :: "jsval \<Rightarrow> jsval \<Rightarrow> jsval" where
  "js_or a b = (if js_truthy a then a else b)"

subsection \<open>Property access\<close>

text \<open>
  The members every object inherits from \<open>Object.prototype\<close>. A plain object, such as
  the handlers' lookup table, answers a read of any of these names with a built-in
  function (or, for \<open>__proto__\<close>, with \<open>Object.prototype\<close> itself).
\<close>

definition object_proto_keys :: "string list" where
  "object_proto_keys =
     [''constructor'', ''__defineGetter__'', ''__defineSetter__'', ''hasOwnProperty'',
      ''__lookupGetter__'', ''__lookupSetter__'', ''isPrototypeOf'', ''propertyIsEnumerable'',
      ''toString'', ''valueOf'', ''__proto__'', ''toLocaleString'']"

definition proto_get :: "string \<Rightarrow> jsval" where
  "proto_get k = (if k \<in> set object_proto_keys then JBuiltin k else JUndef)"

text \<open>
  \<open>js_lookup v k\<close> is \<open>v[k]\<close> for a base that is neither \<open>undefined\<close> nor
  \<open>null\<close>: own properties first (for arrays and strings their indices and \<open>length\<close>),
  then the inherited ones. Of the prototypes of arrays, strings, numbers and functions only
  the members they share with \<open>Object.prototype\<close> are modelled: the handlers read no
  other inherited name.
\<close>

fun js_lookup :: "jsval \<Rightarrow> string \<Rightarrow> jsval" where
  "js_lookup (JObj kvs) k = (case map_of kvs k of Some v \<Rightarrow> v | None \<Rightarrow> proto_get k)"
| "js_lookup (JArr xs) k =
     (if k = ''length'' then JNumber (Num (of_nat (length xs)))
      else (case array_index k of
              Some i \<Rightarrow> (if i < length xs then xs ! i else proto_get k)
            | None \<Rightarrow> proto_get k))"
| "js_lookup (JStr s) k =
     (if k = ''length'' then JNumber (Num (of_nat (length s)))
      else (case array_index k of
              Some i \<Rightarrow> (if i < length s then JStr [s ! i] else proto_get k)
            | None \<Rightarrow> proto_get k))"
| "js_lookup v k = proto_get k"

definition js_nullish :: "jsval \<Rightarrow> bool" where
  "js_nullish v \<longleftrightarrow> v = JUndef \<or> v = JNull"

definition js_quote :: "string \<Rightarrow> string" where
  "js_quote k = CHR 0x27 # k @ [CHR 0x27]"

text \<open>V8's message for a property read on \<open>undefined\<close> or \<open>null\<close>.\<close>

definition type_error_read :: "string \<Rightarrow> string \<Rightarrow> string" where
  "type_error_read base k =
     ''Cannot read properties of '' @ base @ '' (reading '' @ js_quote k @ '')''"

definition not_a_function :: "string \<Rightarrow> string" where
  "not_a_function expr = expr @ '' is not a function''"

definition js_get :: "jsval \<Rightarrow> string \<Rightarrow> jsval js" where
  "js_get v k =
     (case v of
        JUndef \<Rightarrow> Inl (type_error_read ''undefined'' k)
      | JNull \<Rightarrow> Inl (type_error_read ''null'' k)
      | _ \<Rightarrow> Inr (js_lookup v k))"

subsection \<open>Numbers\<close>

definition js_ws :: "char \<Rightarrow> bool" where
  "js_ws c \<longleftrightarrow> c \<in> set [CHR '' '', CHR 0x09, CHR 0x0A, CHR 0x0B, CHR 0x0C, CHR 0x0D]"

definition js_trim :: "string \<Rightarrow> string" where
  "js_trim s = rev (dropWhile js_ws (rev (dropWhile js_ws s)))"

text \<open>
  The value of a decimal literal with integer digits \<open>ip\<close>, fraction digits \<open>fp\<close> and
  exponent \<open>e\<close>.
\<close>

definition decimal_value :: "string \<Rightarrow> string \<Rightarrow> int \<Rightarrow> real" where
  "decimal_value ip fp e = of_nat (digits_value 0 (ip @ fp)) * 10 powi (e - int (length fp))"

text \<open>An optional exponent part \<open>(e|E)[+-]?digits\<close> that must end the literal.\<close>

definition exponent_part :: "string \<Rightarrow> int option" where
  "exponent_part s =
     (case s of
        [] \<Rightarrow> Some 0
      | c # r \<Rightarrow>
          (if c = CHR ''e'' \<or> c = CHR ''E'' then
             (let (neg, ds) = (case r of
                                 d # r' \<Rightarrow> (if d = CHR ''-'' then (True, r')
                                            else if d = CHR ''+'' then (False, r') else (False, r))
                               | [] \<Rightarrow> (False, r))
              in if ds \<noteq> [] \<and> list_all is_digit ds
                 then Some (if neg then - int (digits_value 0 ds) else int (digits_value 0 ds))
                 else None)
           else None))"

text \<open>\<open>StrUnsignedDecimalLiteral\<close> of the ECMAScript grammar.\<close>

definition unsigned_decimal :: "string \<Rightarrow> real option" where
  "unsigned_decimal s =
     (let ip = takeWhile is_digit s; r1 = dropWhile is_digit s
      in (case r1 of
            c # r2 \<Rightarrow>
              (if c = CHR ''.'' then
                 (let fp = takeWhile is_digit r2; r3 = dropWhile is_digit r2
                  in if ip = [] \<and> fp = [] then None
                     else map_option (decimal_value ip fp) (exponent_part r3))
               else if ip = [] then None
               else map_option (decimal_value ip []) (exponent_part r1))
          | [] \<Rightarrow> (if ip = [] then None else Some (decimal_value ip [] 0))))"

text \<open>
  \<open>StringToNumber\<close>: surrounding white space is ignored, the empty string is 0, a sign
  may precede \<open>Infinity\<close> or a decimal literal; anything else is NaN. (The prefixed
  literals \<open>0x\<close>, \<open>0o\<close>, \<open>0b\<close> are not modelled and read as NaN.)
\<close>

definition str_to_number :: "string \<Rightarrow> jsnum" where
  "str_to_number s0 =
     (let s = js_trim s0 in
      if s = [] then Num 0
      else
        (let (neg, t) = (if hd s = CHR ''-'' then (True, tl s)
                         else if hd s = CHR ''+'' then (False, tl s) else (False, s))
         in if t = ''Infinity'' then (if neg then NegInf else PosInf)
            else (case unsigned_decimal t of
                    Some q \<Rightarrow> Num (if neg then - q else q)
                  | None \<Rightarrow> NaN)))"

text \<open>
  \<open>ToNumber\<close>. An array converts through its string form: \<open>[]\<close> is 0, a
  one-element array converts like its element (\<open>null\<close> giving 0), a longer array
  contains a comma and is NaN; objects and functions are NaN.
\<close>

fun js_to_number :: "jsval \<Rightarrow> jsnum" where
  "js_to_number JUndef = NaN"
| "js_to_number JNull = Num 0"
| "js_to_number (JBool b) = Num (if b then 1 else 0)"
| "js_to_number (JNumber n) = n"
| "js_to_number (JStr s) = str_to_number s"
| "js_to_number (JArr []) = Num 0"
| "js_to_number (JArr [x]) =
     (case x of
        JNull \<Rightarrow> Num 0
      | JUndef \<Rightarrow> Num 0
      | JBool b \<Rightarrow> NaN
      | _ \<Rightarrow> js_to_number x)"
| "js_to_number (JArr (x # y # zs)) = NaN"
| "js_to_number (JObj kvs) = NaN"
| "js_to_number (JBuiltin n) = NaN"

text \<open>The division operator on numbers.\<close>

fun js_div :: "jsnum \<Rightarrow> jsnum \<Rightarrow> jsnum" where
  "js_div (Num a) (Num b) =
     (if b = 0 then (if a = 0 then NaN else if 0 < a then PosInf else NegInf)
      else Num (a / b))"
| "js_div NaN y = NaN"
| "js_div x NaN = NaN"
| "js_div PosInf (Num b) = (if b < 0 then NegInf else PosInf)"
| "js_div NegInf (Num b) = (if b < 0 then PosInf else NegInf)"
| "js_div (Num a) PosInf = Num 0"
| "js_div (Num a) NegInf = Num 0"
| "js_div x y = NaN"

text \<open>The relational operator \<open>a >= b\<close> on numbers: false whenever NaN is involved.\<close>

fun js_ge :: "jsnum \<Rightarrow> jsnum \<Rightarrow> bool" where
  "js_ge NaN y = False"
| "js_ge x NaN = False"
| "js_ge PosInf y = True"
| "js_ge x NegInf = True"
| "js_ge NegInf y = False"
| "js_ge x PosInf = False"
| "js_ge (Num a) (Num b) = (b \<le> a)"

text \<open>\<open>Math.pow(10, x)\<close> for a number \<open>x\<close>.\<close>

fun js_pow10 :: "jsnum \<Rightarrow> jsnum" where
  "js_pow10 (Num x) = Num (10 powr x)"
| "js_pow10 PosInf = PosInf"
| "js_pow10 NegInf = Num 0"
| "js_pow10 NaN = NaN"

text \<open>Strict equality \<open>v === n\<close> against a number literal.\<close>

fun js_eq_num :: "jsval \<Rightarrow> real \<Rightarrow> bool" where
  "js_eq_num (JNumber (Num q)) n = (q = n)"
| "js_eq_num v n = False"

subsection \<open>Property keys\<close>

definition string_of_int :: "int \<Rightarrow> string" where
  "string_of_int i = (if i < 0 then CHR ''-'' # string_of_nat (nat (- i)) else string_of_nat (nat i))"

text \<open>
  \<open>Number.prototype.toString\<close> where its result is determined here: integers below
  10^21 in decimal, the infinities and NaN. Other numbers have no modelled string form.
\<close>

fun num_to_string :: "jsnum \<Rightarrow> string option" where
  "num_to_string (Num q) =
     (if q = of_int \<lfloor>q\<rfloor> \<and> \<bar>q\<bar> < 10 ^ 21 then Some (string_of_int \<lfloor>q\<rfloor>) else None)"
| "num_to_string PosInf = Some ''Infinity''"
| "num_to_string NegInf = Some ''-Infinity''"
| "num_to_string NaN = Some ''NaN''"

text \<open>
  \<open>ToPropertyKey\<close>, i.e. the string a value is converted to when it is used as
  \<open>obj[v]\<close>; arrays are joined with commas, \<open>null\<close> and \<open>undefined\<close> elements
  giving the empty string. \<open>None\<close> where the string is not modelled.
\<close>

fun js_to_key :: "jsval \<Rightarrow> string option" and js_join_key :: "jsval list \<Rightarrow> string option" where
  "js_to_key JUndef = Some ''undefined''"
| "js_to_key JNull = Some ''null''"
| "js_to_key (JBool b) = Some (if b then ''true'' else ''false'')"
| "js_to_key (JNumber n) = num_to_string n"
| "js_to_key (JStr s) = Some s"
| "js_to_key (JArr xs) = js_join_key xs"
| "js_to_key (JObj kvs) = Some ''[object Object]''"
| "js_to_key (JBuiltin n) = None"
| "js_join_key [] = Some []"
| "js_join_key (x # xs) =
     (let sx = (if x = JUndef \<or> x = JNull then Some [] else js_to_key x)
      in (case (sx, xs) of
            (None, _) \<Rightarrow> None
          | (Some a, []) \<Rightarrow> Some a
          | (Some a, _) \<Rightarrow> map_option (\<lambda>b. a @ CHR '','' # b) (js_join_key xs)))"

definition js_index :: "jsval \<Rightarrow> jsval \<Rightarrow> jsval" where
  "js_index obj key = (case js_to_key key of Some k \<Rightarrow> js_lookup obj k | None \<Rightarrow> JUndef)"

subsection \<open>Object spread and JSON serialisation\<close>

text \<open>The own enumerable properties that \<open>{...v}\<close> copies.\<close>

fun js_own_entries :: "jsval \<Rightarrow> (string \<times> jsval) list" where
  "js_own_entries (JObj kvs) = kvs"
| "js_own_entries (JArr xs) = map (\<lambda>i. (string_of_nat i, xs ! i)) [0..<length xs]"
| "js_own_entries (JStr s) = map (\<lambda>i. (string_of_nat i, JStr [s ! i])) [0..<length s]"
| "js_own_entries v = []"

text \<open>\<open>{...v, k: x}\<close>.\<close>

definition js_spread_with :: "jsval \<Rightarrow> string \<Rightarrow> jsval \<Rightarrow> jsval" where
  "js_spread_with v k x = JObj (AList.update k x (js_own_entries v))"

text \<open>
  What \<open>JSON.stringify\<close> keeps of a value: properties whose value is \<open>undefined\<close>
  or a function are dropped (inside arrays they become \<open>null\<close>), non-finite numbers
  become \<open>null\<close>, \<open>Object.prototype\<close> serialises as \<open>{}\<close>.
\<close>

definition json_omitted :: "jsval \<Rightarrow> bool" where
  "json_omitted v \<longleftrightarrow> v = JUndef \<or> (\<exists>n. v = JBuiltin n \<and> n \<noteq> ''__proto__'')"

fun json_clean :: "jsval \<Rightarrow> jsval" where
  "json_clean (JNumber (Num q)) = JNumber (Num q)"
| "json_clean (JNumber n) = JNull"
| "json_clean (JArr xs) = JArr (map (\<lambda>x. if json_omitted x then JNull else json_clean x) xs)"
| "json_clean (JObj kvs) =
     JObj (map (\<lambda>kv. (fst kv, json_clean (snd kv))) (filter (\<lambda>kv. \<not> json_omitted (snd kv)) kvs))"
| "json_clean (JBuiltin n) = JObj []"
| "json_clean JUndef = JNull"
| "json_clean v = v"

subsection \<open>Characteristic lemmas\<close>

lemmas js_proto [js_eval] = proto_get_def object_proto_keys_def

lemma js_truthy_not_nullish: "js_truthy v \<Longrightarrow> \<not> js_nullish v"
  by (auto simp: js_nullish_def)

lemma js_get_lookup [js_eval]:
  "\<not> js_nullish v \<Longrightarrow> js_get v k = Inr (js_lookup v k)"
  by (cases v) (auto simp: js_get_def js_nullish_def)

lemma js_get_truthy [simp]:
  "js_truthy v \<Longrightarrow> js_get v k = Inr (js_lookup v k)"
  by (simp add: js_get_lookup js_truthy_not_nullish)

lemma js_get_undef [simp]: "js_get JUndef k = Inl (type_error_read ''undefined'' k)"
  by (simp add: js_get_def)

lemma js_get_null [simp]: "js_get JNull k = Inl (type_error_read ''null'' k)"
  by (simp add: js_get_def)

lemma js_get_obj [simp]: "js_get (JObj kvs) k = Inr (js_lookup (JObj kvs) k)"
  by (simp add: js_get_def)

lemma js_get_arr [simp]: "js_get (JArr xs) k = Inr (js_lookup (JArr xs) k)"
  by (simp add: js_get_def)

lemma js_lookup_own [simp]:
  "map_of kvs k = Some v \<Longrightarrow> js_lookup (JObj kvs) k = v"
  by simp

lemma js_lookup_arr_index [simp]:
  "i < length xs \<Longrightarrow> js_lookup (JArr xs) (string_of_nat i) = xs ! i"
proof -
  assume "i < length xs"
  moreover have "string_of_nat i \<noteq> ''length''"
    using string_of_nat_digits [of i] by (auto simp: is_digit_def)
  ultimately show ?thesis by (simp add: array_index_string_of_nat)
qed

lemma js_lookup_arr_0 [simp]:
  "js_lookup (JArr (x # xs)) ''0'' = x"
  using js_lookup_arr_index [of 0 "x # xs"] by (simp add: string_of_nat_zero)

lemma js_lookup_arr_nil_0 [simp]:
  "js_lookup (JArr []) ''0'' = JUndef"
  by (simp add: array_index_def is_digit_def digits_value.simps proto_get_def object_proto_keys_def)

lemma js_div_by_pos [js_eval]:
  "0 < b \<Longrightarrow> js_div (Num a) (Num b) = Num (a / b)"
  by simp

lemma js_ge_num_iff [js_eval]:
  "js_ge x (Num b) \<longleftrightarrow> (x = PosInf \<or> (\<exists>a. x = Num a \<and> b \<le> a))"
  by (cases x) auto

lemma js_or_truthy [simp]: "js_truthy a \<Longrightarrow> js_or a b = a"
  by (simp add: js_or_def)

lemma js_or_falsy [simp]: "\<not> js_truthy a \<Longrightarrow> js_or a b = b"
  by (simp add: js_or_def)

lemma map_of_json_clean:
  "distinct (map fst kvs) \<Longrightarrow>
   map_of (map (\<lambda>kv. (fst kv, json_clean (snd kv))) (filter (\<lambda>kv. \<not> json_omitted (snd kv)) kvs)) k =
     (case map_of kvs k of None \<Rightarrow> None | Some v \<Rightarrow> if json_omitted v then None else Some (json_clean v))"
proof (induction kvs)
  case Nil
  then show ?case by simp
next
  case (Cons kv kvs)
  then show ?case
    by (cases kv) (auto simp: map_of_eq_None_iff image_iff split: option.splits)
qed

end
