(* ===== verification/Webhook.thy ===== *)
theory Webhook
  imports JsValue
begin

text \<open>
  The shape the three handlers share (each \<open>src/supabase/functions/*/index.ts\<close> is a
  \<open>Deno.serve(async (req) => { try { ... } catch (err) { ... } })\<close>):
  \<^item> a handler answers with \<open>new Response(body, { status })\<close>, the datatype
    \<open>response\<close>;
  \<^item> the request body is decoded by \<open>JSON.parse\<close> (directly, or through
    \<open>req.json()\<close>), an interface \<open>json_parser\<close>: \<open>Inl m\<close> is the
    \<open>SyntaxError\<close> it throws;
  \<^item> the only effect is \<open>supabase.from(t).insert(v)\<close>, an interface \<open>'d sink\<close> over
    an arbitrary database state \<open>'d\<close>: it returns the \<open>error\<close> of the call
    (\<open>None\<close> when there is none) and the database after the call;
  \<^item> \<open>try_catch\<close> is the common \<open>catch\<close> block that turns any exception into a 500
    response carrying the message, and \<open>insert_then_ok\<close> the common tail that
    inserts, rethrows a database error and otherwise answers 200.
  The handlers' lemmas are stated for every parser and every sink; the database of
  theory \<open>Store\<close> is one sink.
\<close>

datatype response = Response string nat

fun resp_status :: "response \<Rightarrow> nat" where
  "resp_status (Response b s) = s"

fun resp_body :: "response \<Rightarrow> string" where
  "resp_body (Response b s) = b"

type_synonym json_parser = "string \<Rightarrow> jsval js"

type_synonym 'd sink = "string \<Rightarrow> jsval \<Rightarrow> 'd \<Rightarrow> string option \<times> 'd"

definition ok_message :: string where
  "ok_message = ''Webhook processed successfully!''"

definition fail_message :: "string \<Rightarrow> string" where
  "fail_message m = ''Webhook processing failed: '' @ m"

text \<open>
  \<^verbatim>\<open>const { error } = await supabase.from(t).insert(v);
if (error) { throw new Error(error.message); }
return new Response("Webhook processed successfully!", { status: 200 });\<close>
\<close>

definition insert_then_ok :: "'d sink \<Rightarrow> string \<Rightarrow> jsval \<Rightarrow> 'd \<Rightarrow> response js \<times> 'd" where
  "insert_then_ok sink t v db =
     (case sink t v db of
        (Some m, db') \<Rightarrow> (Inl m, db')
      | (None, db') \<Rightarrow> (Inr (Response ok_message 200), db'))"

text \<open>\<^verbatim>\<open>catch (err) { return new Response(`Webhook processing failed: ${err.message}`, { status: 500 }); }\<close>\<close>

definition try_catch :: "response js \<times> 'd \<Rightarrow> response \<times> 'd" where
  "try_catch r =
     (case r of
        (Inr resp, db) \<Rightarrow> (resp, db)
      | (Inl m, db) \<Rightarrow> (Response (fail_message m) 500, db))"

text \<open>
  A handler reads nothing from the database: it computes an answer or one insert from
  the request alone, then makes that insert. \<open>probe\<close> is the sink that records the
  insert it is asked for and changes nothing; \<open>replay\<close> performs a recorded insert on
  a real sink. Each handler's lemma \<open>*_try_replay\<close> shows that running it on any sink
  and database is replaying what it asked of the probe.
\<close>

definition probe :: "(string \<times> jsval) option sink" where
  "probe t v u = (None, Some (t, v))"

definition replay :: "'d sink \<Rightarrow> response js \<times> (string \<times> jsval) option \<Rightarrow> 'd \<Rightarrow> response js \<times> 'd" where
  "replay sink p d =
     (case p of
        (x, None) \<Rightarrow> (x, d)
      | (x, Some (t, v)) \<Rightarrow> insert_then_ok sink t v d)"

text \<open>
  \<^verbatim>\<open>const supabase = createClient(Deno.env.get('SUPABASE_URL')!, Deno.env.get('SUPABASE_ANON_KEY')!);\<close>
  runs inside the \<open>try\<close> block right before the insert. The environment is a partial map;
  \<open>!\<close> is a TypeScript assertion without run-time effect, and the client constructor of
  \<open>supabase-js\<close> throws when the URL or the key is missing or empty. \<open>with_client\<close> is
  the client construction followed by the insert: a construction error is thrown before any
  effect, as an insert error would be.
\<close>

type_synonym env = "string \<Rightarrow> string option"

definition create_client :: "env \<Rightarrow> unit js" where
  "create_client env =
     (if env ''SUPABASE_URL'' = None \<or> env ''SUPABASE_URL'' = Some [] then Inl ''supabaseUrl is required.''
      else if env ''SUPABASE_ANON_KEY'' = None \<or> env ''SUPABASE_ANON_KEY'' = Some []
      then Inl ''supabaseKey is required.''
      else Inr ())"

definition with_client :: "env \<Rightarrow> 'd sink \<Rightarrow> 'd sink" where
  "with_client env sink t v d = (case create_client env of Inl e \<Rightarrow> (Some e, d) | Inr _ \<Rightarrow> sink t v d)"

lemma try_catch_simps [simp]:
  "try_catch (Inr resp, db) = (resp, db)"
  "try_catch (Inl m, db) = (Response (fail_message m) 500, db)"
  by (simp_all add: try_catch_def)

lemma insert_then_ok_ok [simp]:
  "sink t v db = (None, db') \<Longrightarrow> insert_then_ok sink t v db = (Inr (Response ok_message 200), db')"
  by (simp add: insert_then_ok_def)

lemma insert_then_ok_err [simp]:
  "sink t v db = (Some m, db') \<Longrightarrow> insert_then_ok sink t v db = (Inl m, db')"
  by (simp add: insert_then_ok_def)

lemma try_catch_insert:
  "try_catch (insert_then_ok sink t v db) =
     (case sink t v db of
        (Some m, db') \<Rightarrow> (Response (fail_message m) 500, db')
      | (None, db') \<Rightarrow> (Response ok_message 200, db'))"
  by (simp add: insert_then_ok_def split: prod.splits option.splits)

lemma snd_try_catch [simp]: "snd (try_catch x) = snd x"
  by (auto simp: try_catch_def split: prod.split sum.split)

lemma snd_insert_then_ok [simp]: "snd (insert_then_ok sink t v d) = snd (sink t v d)"
  by (auto simp: insert_then_ok_def split: prod.split option.split)

lemma replay_None [simp]: "replay sink (x, None) d = (x, d)"
  by (simp add: replay_def)

lemma replay_Some [simp]: "replay sink (x, Some (t, v)) d = insert_then_ok sink t v d"
  by (simp add: replay_def)

lemma insert_then_ok_probe [simp]:
  "insert_then_ok probe t v u = (Inr (Response ok_message 200), Some (t, v))"
  by (simp add: insert_then_ok_def probe_def)

end
