(* ===== verification/Whale.thy ===== *)
theory Whale
  imports Webhook
begin

text \<open>
  The whale watcher, \<open>src/supabase/functions/Whale-watcher-handler/index.ts\<close>: it reads
  the body as text, rejects an empty one, parses it, takes the first notification, converts
  every native transfer from lamports to SOL, keeps those of at least
  \<open>WHALE_THRESHOLD_SOL\<close> and inserts one \<open>sol_transfers\<close> row per kept transfer.
  \<open>whale_with_sol\<close>, \<open>is_whale\<close> and \<open>whale_row\<close> are the three arrow callbacks,
  \<open>whale_transfers\<close> the \<open>map\<close>/\<open>filter\<close> chain, \<open>whale_try\<close> the body of the
  \<open>try\<close> block and \<open>whale_handler\<close> the whole request handler.

  The lemmas give the handler's answer on each branch (empty body, parse error, missing
  first element, missing transfers, a throwing callback, no whale, insert error, success),
  the threshold in lamports, and a refinement: on a well-formed notification, encoded by
  \<open>enc_whale_payload\<close> from the spec's abstract transfers, the handler inserts exactly the
  encoding of the abstract result \<open>whale_spec\<close>.
\<close>

definition WHALE_THRESHOLD_SOL :: real where
  "WHALE_THRESHOLD_SOL = 1000"

definition LAMPORTS_PER_SOL :: real where
  "LAMPORTS_PER_SOL = 1000000000"

text \<open>\<open>t => ({ ...t, amount_sol: t.amount / 1_000_000_000 })\<close>\<close>

definition whale_with_sol :: "jsval \<Rightarrow> jsval js" where
  "whale_with_sol t =
     (case js_get t ''amount'' of
        Inl e \<Rightarrow> Inl e
      | Inr a \<Rightarrow> Inr (js_spread_with t ''amount_sol''
                       (JNumber (js_div (js_to_number a) (Num LAMPORTS_PER_SOL)))))"

text \<open>\<open>t => t.amount_sol >= WHALE_THRESHOLD_SOL\<close>\<close>

definition is_whale :: "jsval \<Rightarrow> bool" where
  "is_whale t = js_ge (js_to_number (js_lookup t ''amount_sol'')) (Num WHALE_THRESHOLD_SOL)"

text \<open>\<open>transferData.nativeTransfers.map(...).filter(...)\<close>\<close>

definition whale_transfers :: "jsval \<Rightarrow> jsval list js" where
  "whale_transfers nts =
     (case nts of
        JArr xs \<Rightarrow> (case js_map whale_with_sol xs of
                      Inl e \<Rightarrow> Inl e
                    | Inr ys \<Rightarrow> Inr (filter is_whale ys))
      | _ \<Rightarrow> Inl (not_a_function ''transferData.nativeTransfers.map''))"

text \<open>\<open>t => ({ signature: transferData.signature, sender: ..., receiver: ..., amount_sol: ... })\<close>\<close>

definition whale_row :: "jsval \<Rightarrow> jsval \<Rightarrow> jsval" where
  "whale_row sig t =
     JObj [(''signature'', sig),
           (''sender'', js_lookup t ''fromUserAccount''),
           (''receiver'', js_lookup t ''toUserAccount''),
           (''amount_sol'', js_lookup t ''amount_sol'')]"

definition whale_try :: "'d sink \<Rightarrow> json_parser \<Rightarrow> string \<Rightarrow> 'd \<Rightarrow> response js \<times> 'd" where
  "whale_try sink parse bodyText db =
     (if \<not> js_truthy (JStr bodyText) then (Inr (Response ''Request body is empty'' 400), db)
      else (case parse bodyText of
              Inl e \<Rightarrow> (Inl e, db)
            | Inr payloadArray \<Rightarrow>
                (case js_get payloadArray ''0'' of
                   Inl e \<Rightarrow> (Inl e, db)
                 | Inr transferData \<Rightarrow>
                     (if \<not> js_truthy transferData
                         \<or> \<not> js_truthy (js_lookup transferData ''nativeTransfers'')
                      then (Inr (Response ''Invalid payload'' 400), db)
                      else (case whale_transfers (js_lookup transferData ''nativeTransfers'') of
                              Inl e \<Rightarrow> (Inl e, db)
                            | Inr whales \<Rightarrow>
                                (if whales = []
                                 then (Inr (Response ''No whale transfers found'' 200), db)
                                 else insert_then_ok sink ''sol_transfers''
                                        (JArr (map (whale_row (js_lookup transferData ''signature''))
                                                   whales)) db))))))"

definition whale_handler :: "'d sink \<Rightarrow> json_parser \<Rightarrow> string \<Rightarrow> 'd \<Rightarrow> response \<times> 'd" where
  "whale_handler sink parse bodyText db = try_catch (whale_try sink parse bodyText db)"

subsection \<open>The spec's view of a native-transfer notification\<close>

text \<open>
  A native transfer as the spec describes it: sender, receiver and an integer amount of
  lamports; its JSON encoding is the object Helius sends.
\<close>

type_synonym native_transfer = "string \<times> string \<times> int"

fun enc_native_transfer :: "native_transfer \<Rightarrow> jsval" where
  "enc_native_transfer (f, t, a) =
     JObj [(''fromUserAccount'', JStr f), (''toUserAccount'', JStr t), (''amount'', JNumber (Num (of_int a)))]"

definition enc_whale_payload :: "string \<Rightarrow> native_transfer list \<Rightarrow> jsval" where
  "enc_whale_payload sig ts =
     JArr [JObj [(''signature'', JStr sig), (''nativeTransfers'', JArr (map enc_native_transfer ts))]]"

text \<open>The abstract result: one record (signature, sender, receiver, SOL) per whale.\<close>

type_synonym sol_record = "string \<times> string \<times> string \<times> real"

fun whale_spec :: "string \<Rightarrow> native_transfer list \<Rightarrow> sol_record list" where
  "whale_spec sig [] = []"
| "whale_spec sig ((f, t, a) # ts) =
     (if WHALE_THRESHOLD_SOL \<le> of_int a / LAMPORTS_PER_SOL
      then (sig, f, t, of_int a / LAMPORTS_PER_SOL) # whale_spec sig ts
      else whale_spec sig ts)"

fun enc_sol_record :: "sol_record \<Rightarrow> jsval" where
  "enc_sol_record (sig, f, t, q) =
     JObj [(''signature'', JStr sig), (''sender'', JStr f), (''receiver'', JStr t),
           (''amount_sol'', JNumber (Num q))]"

subsection \<open>Lemmas\<close>

lemma whale_with_sol_enc:
  "whale_with_sol (JObj [(''fromUserAccount'', JStr f), (''toUserAccount'', JStr t), (''amount'', JNumber (Num (of_int a)))]) =
     Inr (JObj [(''fromUserAccount'', JStr f), (''toUserAccount'', JStr t), (''amount'', JNumber (Num (of_int a))),
                (''amount_sol'', JNumber (Num (of_int a / LAMPORTS_PER_SOL)))])"
  by (simp add: whale_with_sol_def js_spread_with_def LAMPORTS_PER_SOL_def)

lemma whale_threshold_real:
  "WHALE_THRESHOLD_SOL \<le> of_int a / LAMPORTS_PER_SOL \<longleftrightarrow> 1000000000000 \<le> a"
  by (simp add: WHALE_THRESHOLD_SOL_def LAMPORTS_PER_SOL_def)

lemma whale_transfers_enc:
  "\<exists>ws. whale_transfers (JArr (map enc_native_transfer ts)) = Inr ws
      \<and> map (whale_row (JStr sig)) ws = map enc_sol_record (whale_spec sig ts)"
proof -
  let ?obj = "\<lambda>x. case x of (f, t, a) \<Rightarrow>
     JObj [(''fromUserAccount'', JStr f), (''toUserAccount'', JStr t), (''amount'', JNumber (Num (of_int a))),
           (''amount_sol'', JNumber (Num (of_int a / LAMPORTS_PER_SOL)))]"
  have m: "js_map whale_with_sol (map enc_native_transfer ts) = Inr (map ?obj ts)"
    by (induction ts) (auto simp: whale_with_sol_enc)
  have "map (whale_row (JStr sig)) (filter is_whale (map ?obj ts)) = map enc_sol_record (whale_spec sig ts)"
    by (induction ts) (auto simp: is_whale_def whale_row_def js_proto)
  with m show ?thesis by (simp add: whale_transfers_def)
qed

lemma whale_try_payload:
  assumes "bodyText \<noteq> []" and "parse bodyText = Inr (enc_whale_payload sig ts)"
  shows "whale_try sink parse bodyText db =
     (case whale_transfers (JArr (map enc_native_transfer ts)) of
        Inl e \<Rightarrow> (Inl e, db)
      | Inr whales \<Rightarrow>
          (if whales = [] then (Inr (Response ''No whale transfers found'' 200), db)
           else insert_then_ok sink ''sol_transfers'' (JArr (map (whale_row (JStr sig)) whales)) db))"
  using assms by (simp add: whale_try_def enc_whale_payload_def split: sum.split)

text \<open>
  C1. Refinement of the whale watcher: on a non-empty body that parses to a well-formed
  native-transfer notification, the handler answers 200 "No whale transfers found"
  without touching the database when the abstract result \<open>whale_spec\<close> is empty;
  otherwise it inserts into \<open>sol_transfers\<close> exactly the encoding of \<open>whale_spec\<close>,
  one row per transfer of at least 1000 SOL with amount = lamports / 10^9, in input order,
  and answers 200 on success and 500 with the database's message on an insert error.
\<close>

theorem whale_handler_refines:
  assumes "bodyText \<noteq> []" and "parse bodyText = Inr (enc_whale_payload sig ts)"
  shows "whale_handler sink parse bodyText db =
     (if whale_spec sig ts = [] then (Response ''No whale transfers found'' 200, db)
      else (case sink ''sol_transfers'' (JArr (map enc_sol_record (whale_spec sig ts))) db of
              (Some m, db') \<Rightarrow> (Response (fail_message m) 500, db')
            | (None, db') \<Rightarrow> (Response ok_message 200, db')))"
proof -
  obtain ws where ws: "whale_transfers (JArr (map enc_native_transfer ts)) = Inr ws"
    and rows: "map (whale_row (JStr sig)) ws = map enc_sol_record (whale_spec sig ts)"
    using whale_transfers_enc by blast
  from rows have "ws = [] \<longleftrightarrow> whale_spec sig ts = []"
    by (metis Nil_is_map_conv)
  with ws rows assms show ?thesis
    by (simp add: whale_handler_def whale_try_payload try_catch_insert)
qed

theorem whale_handler_refines_witness:
  "whale_handler (\<lambda>t v d. (None, v # d)) (\<lambda>_. Inr (enc_whale_payload ''sig1'' [(''A'', ''B'', 2000000000000)])) ''x'' []
     = (Response ok_message 200, [JArr [enc_sol_record (''sig1'', ''A'', ''B'', 2000)]])"
proof -
  have "whale_spec ''sig1'' [(''A'', ''B'', 2000000000000)] = [(''sig1'', ''A'', ''B'', 2000)]"
    by (simp add: WHALE_THRESHOLD_SOL_def LAMPORTS_PER_SOL_def)
  then show ?thesis
    using whale_handler_refines [of "''x''" "\<lambda>_. Inr (enc_whale_payload ''sig1'' [(''A'', ''B'', 2000000000000)])"
        "''sig1''" "[(''A'', ''B'', 2000000000000)]" "\<lambda>t v d. (None, v # d)" "[]"]
    by simp
qed

lemma whale_spec_filter:
  "whale_spec sig ts =
     map (\<lambda>(f, t, a). (sig, f, t, of_int a / LAMPORTS_PER_SOL))
         (filter (\<lambda>(f, t, a). 1000000000000 \<le> a) ts)"
  by (induction sig ts rule: whale_spec.induct) (simp_all add: whale_threshold_real)

text \<open>
  C22. A native transfer qualifies as a whale exactly when its integer amount is at least
  10^12 lamports (1000 SOL): the comparison in SOL of \<open>is_whale\<close> after the conversion
  of \<open>whale_with_sol\<close> is the comparison of the raw amount with 10^12.
\<close>

theorem whale_threshold_lamports:
  "\<exists>w. whale_with_sol (enc_native_transfer (f, t, a)) = Inr w
       \<and> (is_whale w \<longleftrightarrow> 1000000000000 \<le> a)"
  by (simp add: whale_with_sol_enc is_whale_def js_proto
      whale_threshold_real [symmetric])

text \<open>
  C23. When no transfer of a well-formed notification reaches 10^12 lamports the handler
  answers 200 "No whale transfers found" and leaves the database as it was: the sink is
  not called, whatever it is.
\<close>

theorem whale_below_threshold_no_insert:
  assumes "bodyText \<noteq> []" and "parse bodyText = Inr (enc_whale_payload sig ts)"
    and "\<forall>(f, t, a) \<in> set ts. a < 1000000000000"
  shows "whale_handler sink parse bodyText db = (Response ''No whale transfers found'' 200, db)"
proof -
  from assms(3) have "filter (\<lambda>(f, t, a). 1000000000000 \<le> a) ts = []"
    by (auto simp: filter_empty_conv)
  then have "whale_spec sig ts = []" by (simp add: whale_spec_filter)
  with assms(1,2) show ?thesis by (simp add: whale_handler_refines)
qed

theorem whale_below_threshold_no_insert_witness:
  "whale_handler (\<lambda>t v d. (None, Suc d)) (\<lambda>_. Inr (enc_whale_payload ''s'' [(''A'', ''B'', 999999999999)]))
     ''[]'' (0::nat) = (Response ''No whale transfers found'' 200, 0)"
  by (rule whale_below_threshold_no_insert) auto

text \<open>
  An empty request body is rejected with 400 before anything is parsed or stored.
\<close>

theorem whale_empty_body:
  "whale_handler sink parse [] db = (Response ''Request body is empty'' 400, db)"
  by (simp add: whale_handler_def whale_try_def)

text \<open>
  C27. A non-empty body that is not JSON makes \<open>JSON.parse\<close> throw; the handler answers
  500 with the parser's message (the spec classifies such a body as a malformed payload,
  answered with 400).
\<close>

theorem whale_parse_error_500:
  assumes "bodyText \<noteq> []" and "parse bodyText = Inl m"
  shows "whale_handler sink parse bodyText db = (Response (fail_message m) 500, db)"
  using assms by (simp add: whale_handler_def whale_try_def)

theorem whale_parse_error_500_witness:
  "whale_handler (\<lambda>t v d. (None, d)) (\<lambda>_. Inl ''Unexpected token'') ''{'' (0::nat)
     = (Response (fail_message ''Unexpected token'') 500, 0)"
  by (rule whale_parse_error_500) auto

text \<open>
  A JSON array without a first element is an invalid payload: 400, nothing stored.
\<close>

theorem whale_empty_array_400:
  assumes "bodyText \<noteq> []" and "parse bodyText = Inr (JArr [])"
  shows "whale_handler sink parse bodyText db = (Response ''Invalid payload'' 400, db)"
  using assms by (simp add: whale_handler_def whale_try_def js_proto)

theorem whale_empty_array_400_witness:
  "whale_handler (\<lambda>t v d. (None, Suc d)) (\<lambda>_. Inr (JArr [])) ''[]'' (0::nat)
     = (Response ''Invalid payload'' 400, 0)"
  by (rule whale_empty_array_400) auto

text \<open>
  C29. A \<open>null\<close> entry among the native transfers, after well-formed ones, makes the
  \<open>map\<close> callback throw a \<open>TypeError\<close> on \<open>t.amount\<close>: the handler answers 500 and
  stores nothing, although the spec would call the payload incomplete (400).
\<close>

theorem whale_null_transfer_500:
  assumes "bodyText \<noteq> []"
    and "parse bodyText = Inr (JArr [JObj [(''signature'', JStr sig),
                                         (''nativeTransfers'', JArr (map enc_native_transfer ts @ JNull # rest))]])"
  shows "whale_handler sink parse bodyText db =
           (Response (fail_message (type_error_read ''null'' ''amount'')) 500, db)"
proof -
  have "js_map whale_with_sol (map enc_native_transfer ts @ JNull # rest) =
          Inl (type_error_read ''null'' ''amount'')"
    by (rule js_map_append_Inl) (auto simp: whale_with_sol_enc whale_with_sol_def)
  with assms show ?thesis
    by (simp add: whale_handler_def whale_try_def whale_transfers_def)
qed

theorem whale_null_transfer_500_witness:
  "whale_handler (\<lambda>t v d. (None, Suc d))
     (\<lambda>_. Inr (JArr [JObj [(''signature'', JStr ''s''),
                            (''nativeTransfers'', JArr (map enc_native_transfer [(''A'', ''B'', 5000000000000)] @ JNull # []))]]))
     ''x'' (0::nat)
   = (Response (fail_message (type_error_read ''null'' ''amount'')) 500, 0)"
  by (rule whale_null_transfer_500 [where ts = "[(''A'', ''B'', 5000000000000)]" and rest = "[]"]) auto

lemma whale_transfers_shape:
  assumes "whale_transfers nts = Inr ws"
  shows "\<forall>w \<in> set ws. is_whale w \<and> (\<exists>t n. w = js_spread_with t ''amount_sol'' (JNumber n))"
proof -
  obtain xs ys where m: "js_map whale_with_sol xs = Inr ys" and ws: "ws = filter is_whale ys"
    using assms by (auto simp: whale_transfers_def split: jsval.splits sum.splits)
  have "\<forall>y \<in> set ys. \<exists>t n. y = js_spread_with t ''amount_sol'' (JNumber n)"
    by (rule js_map_Inr_all [OF m]) (auto simp: whale_with_sol_def split: sum.splits)
  with ws show ?thesis by auto
qed

lemma whale_try_replay:
  "whale_try sink parse body d = replay sink (whale_try probe parse body None) d"
  unfolding whale_try_def by (simp split: sum.split)

lemma whale_try_probe:
  assumes "whale_try probe parse body None = (x, p)"
  shows "(p = None \<and> x \<noteq> Inr (Response ok_message 200))
       \<or> (\<exists>sig nts ws. whale_transfers nts = Inr ws \<and> ws \<noteq> []
            \<and> x = Inr (Response ok_message 200) \<and> p = Some (''sol_transfers'', JArr (map (whale_row sig) ws)))"
  using assms unfolding whale_try_def by (auto simp: ok_message_def split: sum.splits if_splits)

end
