(* ===== verification/Sale.thy ===== *)
theory Sale
  imports Webhook
begin

text \<open>
  The NFT sale handler, \<open>src/supabase/functions/nft-sale-handler/index.ts\<close>: it parses the
  body with \<open>req.json()\<close>, takes the first notification, checks
  \<open>!saleData || !saleData.events.nft || !saleData.signature\<close>, builds \<open>cleanSale\<close>
  from the sale event (the price converted from lamports, the first NFT's mint, the
  collection or "Unknown") and inserts it into \<open>nft_sales\<close>. \<open>sale_mint\<close>,
  \<open>sale_price_sol\<close> and \<open>sale_collection\<close> are the three computed fields,
  \<open>clean_sale\<close> the object literal, \<open>sale_try\<close> the \<open>try\<close> block and
  \<open>sale_handler\<close> the handler.

  The read \<open>saleData.events.nft\<close> throws when \<open>events\<close> is missing, and
  \<open>nfts[0].mint\<close> throws when \<open>nfts\<close> is missing or empty: both reach the
  \<open>catch\<close> block (500), not the 400 branch. The lemmas state this, the 400 branches,
  and a refinement of the spec's sale record \<open>sale_spec\<close>.
\<close>

text \<open>\<open>saleData.events.nft.nfts[0].mint\<close> (with \<open>nft\<close> = \<open>saleData.events.nft\<close>)\<close>

definition sale_mint :: "jsval \<Rightarrow> jsval js" where
  "sale_mint nft =
     (case js_get (js_lookup nft ''nfts'') ''0'' of
        Inl e \<Rightarrow> Inl e
      | Inr first \<Rightarrow> js_get first ''mint'')"

text \<open>\<open>saleData.events.nft.amount / 1_000_000_000\<close>\<close>

definition sale_price_sol :: "jsval \<Rightarrow> jsval" where
  "sale_price_sol nft = JNumber (js_div (js_to_number (js_lookup nft ''amount'')) (Num 1000000000))"

text \<open>\<open>saleData.collection || "Unknown"\<close>\<close>

definition sale_collection :: "jsval \<Rightarrow> jsval" where
  "sale_collection saleData = js_or (js_lookup saleData ''collection'') (JStr ''Unknown'')"

text \<open>The object literal \<open>cleanSale\<close>; only the \<open>mint_address\<close> field can throw.\<close>

definition clean_sale :: "jsval \<Rightarrow> jsval \<Rightarrow> jsval js" where
  "clean_sale saleData nft =
     (case sale_mint nft of
        Inl e \<Rightarrow> Inl e
      | Inr m \<Rightarrow>
          Inr (JObj [(''signature'', js_lookup saleData ''signature''),
                     (''buyer'', js_lookup nft ''buyer''),
                     (''seller'', js_lookup nft ''seller''),
                     (''price_sol'', sale_price_sol nft),
                     (''mint_address'', m),
                     (''collection'', sale_collection saleData)]))"

definition sale_try :: "'d sink \<Rightarrow> json_parser \<Rightarrow> string \<Rightarrow> 'd \<Rightarrow> response js \<times> 'd" where
  "sale_try sink parse body db =
     (case parse body of
        Inl e \<Rightarrow> (Inl e, db)
      | Inr payloadArray \<Rightarrow>
          (case js_get payloadArray ''0'' of
             Inl e \<Rightarrow> (Inl e, db)
           | Inr saleData \<Rightarrow>
               (if \<not> js_truthy saleData then (Inr (Response ''Incomplete payload'' 400), db)
                else (case js_get (js_lookup saleData ''events'') ''nft'' of
                        Inl e \<Rightarrow> (Inl e, db)
                      | Inr nft \<Rightarrow>
                          (if \<not> js_truthy nft \<or> \<not> js_truthy (js_lookup saleData ''signature'')
                           then (Inr (Response ''Incomplete payload'' 400), db)
                           else (case clean_sale saleData nft of
                                   Inl e \<Rightarrow> (Inl e, db)
                                 | Inr cleanSale \<Rightarrow> insert_then_ok sink ''nft_sales'' cleanSale db))))))"

definition sale_handler :: "'d sink \<Rightarrow> json_parser \<Rightarrow> string \<Rightarrow> 'd \<Rightarrow> response \<times> 'd" where
  "sale_handler sink parse body db = try_catch (sale_try sink parse body db)"

subsection \<open>The spec's view of a sale notification\<close>

text \<open>
  A sale as the spec describes it: signature, seller, buyer, integer price in lamports, the
  mints of the NFTs sold, and an optional collection. Its encoding is Helius's JSON.
\<close>

record sale_event =
  sale_sig :: string
  sale_seller :: string
  sale_buyer :: string
  sale_amount :: int
  sale_mints :: "string list"
  sale_coll :: "string option"

definition enc_sale_payload :: "sale_event \<Rightarrow> jsval" where
  "enc_sale_payload e =
     JArr [JObj ([(''signature'', JStr (sale_sig e)),
                  (''events'', JObj [(''nft'', JObj [(''seller'', JStr (sale_seller e)),
                                                    (''buyer'', JStr (sale_buyer e)),
                                                    (''amount'', JNumber (Num (of_int (sale_amount e)))),
                                                    (''nfts'', JArr (map (\<lambda>m. JObj [(''mint'', JStr m)]) (sale_mints e)))])])]
                 @ (case sale_coll e of None \<Rightarrow> [] | Some c \<Rightarrow> [(''collection'', JStr c)]))]"

text \<open>The abstract record: signature, buyer, seller, SOL price, mint, collection.\<close>

type_synonym sale_record = "string \<times> string \<times> string \<times> real \<times> string \<times> string"

definition sale_spec :: "sale_event \<Rightarrow> sale_record" where
  "sale_spec e =
     (sale_sig e, sale_buyer e, sale_seller e, of_int (sale_amount e) / 1000000000, hd (sale_mints e),
      (case sale_coll e of Some c \<Rightarrow> (if c = [] then ''Unknown'' else c) | None \<Rightarrow> ''Unknown''))"

fun enc_sale_record :: "sale_record \<Rightarrow> jsval" where
  "enc_sale_record (sig, buyer, seller, price, mint, coll) =
     JObj [(''signature'', JStr sig), (''buyer'', JStr buyer), (''seller'', JStr seller),
           (''price_sol'', JNumber (Num price)), (''mint_address'', JStr mint),
           (''collection'', JStr coll)]"

subsection \<open>Lemmas\<close>

lemma sale_try_event:
  assumes "parse body = Inr (enc_sale_payload e)"
  shows "sale_try sink parse body db =
    (if sale_sig e = [] then (Inr (Response ''Incomplete payload'' 400), db)
     else if sale_mints e = [] then (Inl (type_error_read ''undefined'' ''mint''), db)
     else insert_then_ok sink ''nft_sales'' (enc_sale_record (sale_spec e)) db)"
  using assms
  by (cases "sale_mints e"; cases "sale_coll e")
     (auto simp: sale_try_def enc_sale_payload_def clean_sale_def sale_mint_def sale_price_sol_def
       sale_collection_def sale_spec_def js_proto js_or_def)

text \<open>
  C3. Refinement of the NFT sale handler: on a notification with a non-empty signature and
  at least one NFT, the handler inserts into \<open>nft_sales\<close> exactly the encoding of the
  abstract record \<open>sale_spec\<close> (first NFT's mint, price = lamports / 10^9, collection
  or "Unknown") and answers 200, or 500 with the database's message.
\<close>

theorem sale_handler_refines:
  assumes "parse body = Inr (enc_sale_payload e)" and "sale_sig e \<noteq> []" and "sale_mints e \<noteq> []"
  shows "sale_handler sink parse body db =
     (case sink ''nft_sales'' (enc_sale_record (sale_spec e)) db of
        (Some m, db') \<Rightarrow> (Response (fail_message m) 500, db')
      | (None, db') \<Rightarrow> (Response ok_message 200, db'))"
  using assms by (simp add: sale_handler_def sale_try_event try_catch_insert)

theorem sale_handler_refines_witness:
  "sale_handler (\<lambda>t v d. (None, v # d))
     (\<lambda>_. Inr (enc_sale_payload \<lparr>sale_sig = ''sig1'', sale_seller = ''S'', sale_buyer = ''B'',
                  sale_amount = 2500000000, sale_mints = [''X'', ''Y''], sale_coll = None\<rparr>)) ''body'' []
   = (Response ok_message 200,
      [enc_sale_record (''sig1'', ''B'', ''S'', 5 / 2, ''X'', ''Unknown'')])"
proof -
  let ?e = "\<lparr>sale_sig = ''sig1'', sale_seller = ''S'', sale_buyer = ''B'',
             sale_amount = 2500000000, sale_mints = [''X'', ''Y''], sale_coll = None\<rparr>"
  have "sale_spec ?e = (''sig1'', ''B'', ''S'', 5 / 2, ''X'', ''Unknown'')"
    by (simp add: sale_spec_def)
  then show ?thesis
    using sale_handler_refines [of "\<lambda>_. Inr (enc_sale_payload ?e)" "''body''" ?e "\<lambda>t v d. (None, v # d)" "[]"]
    by simp
qed

text \<open>
  C25. A sale event with an empty \<open>nfts\<close> list passes the payload check, then
  \<open>nfts[0].mint\<close> throws: the handler answers 500 with V8's \<open>TypeError\<close> message and
  stores nothing, where the spec requires at least one NFT and a 400 answer.
\<close>

theorem sale_no_nfts_500:
  assumes "parse body = Inr (enc_sale_payload e)" and "sale_sig e \<noteq> []" and "sale_mints e = []"
  shows "sale_handler sink parse body db =
           (Response (fail_message (type_error_read ''undefined'' ''mint'')) 500, db)"
  using assms by (simp add: sale_handler_def sale_try_event)

theorem sale_no_nfts_500_witness:
  "sale_handler (\<lambda>t v d. (None, Suc d))
     (\<lambda>_. Inr (enc_sale_payload \<lparr>sale_sig = ''s'', sale_seller = ''S'', sale_buyer = ''B'',
                  sale_amount = 1, sale_mints = [], sale_coll = Some ''C''\<rparr>)) ''body'' (0::nat)
   = (Response (fail_message (type_error_read ''undefined'' ''mint'')) 500, 0)"
  by (rule sale_no_nfts_500 [where e = "\<lparr>sale_sig = ''s'', sale_seller = ''S'', sale_buyer = ''B'',
                  sale_amount = 1, sale_mints = [], sale_coll = Some ''C''\<rparr>"]) simp_all

text \<open>
  A sale event without a signature (or with an empty one) is an incomplete payload:
  400, nothing stored.
\<close>

theorem sale_no_signature_400:
  assumes "parse body = Inr (enc_sale_payload e)" and "sale_sig e = []"
  shows "sale_handler sink parse body db = (Response ''Incomplete payload'' 400, db)"
  using assms by (simp add: sale_handler_def sale_try_event)

theorem sale_no_signature_400_witness:
  "sale_handler (\<lambda>t v d. (None, Suc d))
     (\<lambda>_. Inr (enc_sale_payload \<lparr>sale_sig = [], sale_seller = ''S'', sale_buyer = ''B'',
                  sale_amount = 1, sale_mints = [''X''], sale_coll = None\<rparr>)) ''body'' (0::nat)
   = (Response ''Incomplete payload'' 400, 0)"
  by (rule sale_no_signature_400 [where e = "\<lparr>sale_sig = [], sale_seller = ''S'', sale_buyer = ''B'',
                  sale_amount = 1, sale_mints = [''X''], sale_coll = None\<rparr>"]) simp_all

text \<open>
  C26. A first notification that is an object without \<open>events\<close> makes the check
  \<open>!saleData.events.nft\<close> itself throw: 500 with "Cannot read properties of undefined
  (reading 'nft')", where the spec calls the payload incomplete (400).
\<close>

theorem sale_missing_events_500:
  assumes "parse body = Inr (JArr (JObj kvs # rest))" and "map_of kvs ''events'' = None"
  shows "sale_handler sink parse body db =
           (Response (fail_message (type_error_read ''undefined'' ''nft'')) 500, db)"
  using assms by (simp add: sale_handler_def sale_try_def js_proto)

theorem sale_missing_events_500_witness:
  "sale_handler (\<lambda>t v d. (None, Suc d)) (\<lambda>_. Inr (JArr [JObj [(''signature'', JStr ''s'')]])) ''body'' (0::nat)
   = (Response (fail_message (type_error_read ''undefined'' ''nft'')) 500, 0)"
  by (rule sale_missing_events_500 [where kvs = "[(''signature'', JStr ''s'')]" and rest = "[]"]) simp_all

text \<open>
  C28. A body that \<open>req.json()\<close> cannot parse, the empty body included, is answered with
  500 and the parser's message; nothing is stored (the spec answers 400).
\<close>

theorem sale_parse_error_500:
  assumes "parse body = Inl m"
  shows "sale_handler sink parse body db = (Response (fail_message m) 500, db)"
  using assms by (simp add: sale_handler_def sale_try_def)

theorem sale_parse_error_500_witness:
  "sale_handler (\<lambda>t v d. (None, Suc d)) (\<lambda>s. if s = [] then Inl ''Unexpected end of JSON input'' else Inr JNull)
     [] (0::nat)
   = (Response (fail_message ''Unexpected end of JSON input'') 500, 0)"
  by (rule sale_parse_error_500) simp

lemma sale_try_replay:
  "sale_try sink parse body d = replay sink (sale_try probe parse body None) d"
  unfolding sale_try_def by (simp split: sum.split)

lemma sale_try_probe:
  assumes "sale_try probe parse body None = (x, p)"
  shows "(p = None \<and> x \<noteq> Inr (Response ok_message 200))
       \<or> (\<exists>sd nft v. x = Inr (Response ok_message 200) \<and> p = Some (''nft_sales'', v) \<and> clean_sale sd nft = Inr v)"
  using assms unfolding sale_try_def by (auto simp: ok_message_def split: sum.splits if_splits)

end
