(* ===== verification/Token.thy ===== *)
theory Token
  imports Webhook
begin

text \<open>
  The token transfer handler, \<open>src/supabase/functions/token-transfer-handler/index.ts\<close>:
  it parses the body with \<open>req.json()\<close>, takes the first notification, rejects a
  missing or empty \<open>tokenTransfers\<close>, selects with \<open>find\<close> the first transfer whose
  \<open>mint\<close> indexes a truthy entry of the object \<open>TOKEN_LOOKUP\<close>, and inserts one
  \<open>token_transfers\<close> row with the symbol and the amount divided by
  \<open>10 ** decimals\<close>. \<open>token_info\<close> is the index \<open>TOKEN_LOOKUP[m]\<close>,
  \<open>token_relevant\<close> the \<open>find\<close> callback, \<open>token_find\<close> the call of \<open>find\<close>,
  \<open>clean_token_transfer\<close> the object literal, \<open>token_try\<close> the \<open>try\<close> block and
  \<open>token_handler\<close> the handler.

  \<open>TOKEN_LOOKUP\<close> is a plain object, so \<open>TOKEN_LOOKUP[m]\<close> also finds the members of
  \<open>Object.prototype\<close>: a transfer whose mint is \<open>"constructor"\<close> or
  \<open>"toString"\<close> is "relevant" to \<open>find\<close>. The refinement below therefore assumes that
  no mint is such a name; the root theory shows what happens when one is.
\<close>

definition TOKEN_LOOKUP :: jsval where
  "TOKEN_LOOKUP =
     JObj [(''EPjFWdd5AufqSSqeM2qN1xzybapC8G4wEGGkZwyTDt1v'',
            JObj [(''symbol'', JStr ''USDC''), (''decimals'', JNumber (Num 6))]),
           (''Es9vMFrzaCERmJfrF4H2FYD4KCoNkY11McCe8BenwNYB'',
            JObj [(''symbol'', JStr ''USDT''), (''decimals'', JNumber (Num 6))])]"

text \<open>\<open>TOKEN_LOOKUP[m]\<close>\<close>

definition token_info :: "jsval \<Rightarrow> jsval" where
  "token_info m = js_index TOKEN_LOOKUP m"

text \<open>\<open>t => TOKEN_LOOKUP[t.mint]\<close>, as the truth value \<open>find\<close> takes of it\<close>

definition token_relevant :: "jsval \<Rightarrow> bool js" where
  "token_relevant t =
     (case js_get t ''mint'' of
        Inl e \<Rightarrow> Inl e
      | Inr m \<Rightarrow> Inr (js_truthy (token_info m)))"

text \<open>\<open>transferData.tokenTransfers.find(...)\<close>\<close>

definition token_find :: "jsval \<Rightarrow> jsval option js" where
  "token_find tts =
     (case tts of
        JArr xs \<Rightarrow> js_find token_relevant xs
      | _ \<Rightarrow> Inl (not_a_function ''transferData.tokenTransfers.find''))"

text \<open>\<open>tokenInfo = TOKEN_LOOKUP[primaryTransfer.mint]\<close> and the object \<open>cleanTransfer\<close>\<close>

definition clean_token_transfer :: "jsval \<Rightarrow> jsval \<Rightarrow> jsval" where
  "clean_token_transfer transferData pt =
     (let tokenInfo = token_info (js_lookup pt ''mint'')
      in JObj [(''signature'', js_lookup transferData ''signature''),
               (''token_mint'', js_lookup pt ''mint''),
               (''token_symbol'', js_lookup tokenInfo ''symbol''),
               (''sender'', js_lookup pt ''fromUserAccount''),
               (''receiver'', js_lookup pt ''toUserAccount''),
               (''amount'', JNumber (js_div (js_to_number (js_lookup pt ''tokenAmount''))
                                           (js_pow10 (js_to_number (js_lookup tokenInfo ''decimals'')))))])"

definition token_try :: "'d sink \<Rightarrow> json_parser \<Rightarrow> string \<Rightarrow> 'd \<Rightarrow> response js \<times> 'd" where
  "token_try sink parse body db =
     (case parse body of
        Inl e \<Rightarrow> (Inl e, db)
      | Inr payloadArray \<Rightarrow>
          (case js_get payloadArray ''0'' of
             Inl e \<Rightarrow> (Inl e, db)
           | Inr transferData \<Rightarrow>
               (if \<not> js_truthy transferData
                   \<or> \<not> js_truthy (js_lookup transferData ''tokenTransfers'')
                   \<or> js_eq_num (js_lookup (js_lookup transferData ''tokenTransfers'') ''length'') 0
                then (Inr (Response ''Incomplete payload'' 400), db)
                else (case token_find (js_lookup transferData ''tokenTransfers'') of
                        Inl e \<Rightarrow> (Inl e, db)
                      | Inr None \<Rightarrow> (Inr (Response ''No relevant token transfer found'' 200), db)
                      | Inr (Some primaryTransfer) \<Rightarrow>
                          insert_then_ok sink ''token_transfers''
                            (clean_token_transfer transferData primaryTransfer) db))))"

definition token_handler :: "'d sink \<Rightarrow> json_parser \<Rightarrow> string \<Rightarrow> 'd \<Rightarrow> response \<times> 'd" where
  "token_handler sink parse body db = try_catch (token_try sink parse body db)"

subsection \<open>The spec's view of a token transfer notification\<close>

text \<open>
  A token transfer as the spec describes it: mint, sender, receiver and an integer raw
  amount; the spec's lookup table maps a mint to its symbol and decimals.
\<close>

type_synonym token_transfer = "string \<times> string \<times> string \<times> int"

fun enc_token_transfer :: "token_transfer \<Rightarrow> jsval" where
  "enc_token_transfer (m, f, t, a) =
     JObj [(''fromUserAccount'', JStr f), (''toUserAccount'', JStr t), (''mint'', JStr m),
           (''tokenAmount'', JNumber (Num (of_int a)))]"

definition enc_token_payload :: "string \<Rightarrow> token_transfer list \<Rightarrow> jsval" where
  "enc_token_payload sig ts =
     JArr [JObj [(''signature'', JStr sig), (''tokenTransfers'', JArr (map enc_token_transfer ts))]]"

definition known_tokens :: "(string \<times> string \<times> nat) list" where
  "known_tokens =
     [(''EPjFWdd5AufqSSqeM2qN1xzybapC8G4wEGGkZwyTDt1v'', ''USDC'', 6),
      (''Es9vMFrzaCERmJfrF4H2FYD4KCoNkY11McCe8BenwNYB'', ''USDT'', 6)]"

type_synonym token_record = "string \<times> string \<times> string \<times> string \<times> string \<times> real"

text \<open>The abstract result: the record of the first transfer of a known mint, if any.\<close>

definition token_spec :: "string \<Rightarrow> token_transfer list \<Rightarrow> token_record option" where
  "token_spec sig ts =
     (case find (\<lambda>tr. fst tr \<in> fst ` set known_tokens) ts of
        None \<Rightarrow> None
      | Some (m, f, t, a) \<Rightarrow>
          (case map_of known_tokens m of
             None \<Rightarrow> None
           | Some (symb, dec) \<Rightarrow> Some (sig, m, symb, f, t, of_int a / 10 ^ dec)))"

fun enc_token_record :: "token_record \<Rightarrow> jsval" where
  "enc_token_record (sig, m, symb, f, t, q) =
     JObj [(''signature'', JStr sig), (''token_mint'', JStr m), (''token_symbol'', JStr symb),
           (''sender'', JStr f), (''receiver'', JStr t), (''amount'', JNumber (Num q))]"

subsection \<open>Lemmas\<close>

lemma token_info_truthy:
  "js_truthy (token_info (JStr m)) \<longleftrightarrow> m \<in> fst ` set known_tokens \<or> m \<in> set object_proto_keys"
  by (auto simp: token_info_def js_index_def TOKEN_LOOKUP_def known_tokens_def proto_get_def)

lemma token_info_known:
  assumes "map_of known_tokens m = Some (symb, dec)"
  shows "js_lookup (token_info (JStr m)) ''symbol'' = JStr symb
       \<and> js_to_number (js_lookup (token_info (JStr m)) ''decimals'') = Num (of_nat dec)"
  using assms
  by (auto simp: token_info_def js_index_def TOKEN_LOOKUP_def known_tokens_def split: if_splits)

lemma token_symbol_cases:
  "js_lookup (token_info mv) ''symbol'' \<in> {JStr ''USDC'', JStr ''USDT'', JUndef}"
  by (auto simp: token_info_def js_index_def TOKEN_LOOKUP_def js_proto split: option.splits)

lemma js_pow10_nat [simp]: "js_pow10 (Num (of_nat n)) = Num (10 ^ n)"
  by (simp add: powr_realpow)

lemma token_info_proto: "m \<in> set object_proto_keys \<Longrightarrow> token_info (JStr m) = JBuiltin m"
  by (auto simp: token_info_def js_index_def TOKEN_LOOKUP_def js_proto)

lemma token_relevant_enc:
  "token_relevant (enc_token_transfer x) =
     Inr (fst x \<in> fst ` set known_tokens \<or> fst x \<in> set object_proto_keys)"
  by (cases x) (simp add: token_relevant_def token_info_truthy [symmetric])

lemma token_find_enc:
  assumes "\<forall>x \<in> set ts. fst x \<notin> set object_proto_keys"
  shows "token_find (JArr (map enc_token_transfer ts)) =
           Inr (map_option enc_token_transfer (find (\<lambda>x. fst x \<in> fst ` set known_tokens) ts))"
  using assms
proof (induction ts)
  case Nil
  then show ?case by (simp add: token_find_def)
next
  case (Cons x ts)
  then show ?case by (simp add: token_find_def token_relevant_enc)
qed

lemma clean_token_transfer_enc:
  assumes "map_of known_tokens m = Some (symb, dec)"
  shows "clean_token_transfer (JObj [(''signature'', JStr sig), (''tokenTransfers'', tts)])
           (JObj [(''fromUserAccount'', JStr f), (''toUserAccount'', JStr t), (''mint'', JStr m),
                  (''tokenAmount'', JNumber (Num (of_int a)))])
         = enc_token_record (sig, m, symb, f, t, of_int a / 10 ^ dec)"
  using token_info_known [OF assms] by (simp add: clean_token_transfer_def Let_def powr_realpow)

lemma token_try_payload:
  assumes "parse body = Inr (enc_token_payload sig ts)" and "ts \<noteq> []"
    and "\<forall>x \<in> set ts. fst x \<notin> set object_proto_keys"
  shows "token_try sink parse body db =
     (case find (\<lambda>tr. fst tr \<in> fst ` set known_tokens) ts of
        None \<Rightarrow> (Inr (Response ''No relevant token transfer found'' 200), db)
      | Some x \<Rightarrow> insert_then_ok sink ''token_transfers''
                   (clean_token_transfer (JObj [(''signature'', JStr sig), (''tokenTransfers'', JArr (map enc_token_transfer ts))])
                      (enc_token_transfer x)) db)"
  using assms by (simp add: token_try_def enc_token_payload_def token_find_enc split: option.split)

text \<open>
  C2. Refinement of the token transfer handler: on a notification with at least one token
  transfer and no mint named like a member of \<open>Object.prototype\<close>, the handler answers
  200 "No relevant token transfer found" without touching the database when no mint is in
  the lookup table; otherwise it inserts into \<open>token_transfers\<close> exactly the encoding of
  the abstract record \<open>token_spec\<close> (the first transfer of a known mint, its symbol, amount
  = raw / 10^decimals) and answers 200, or 500 with the database's message.
\<close>

theorem token_handler_refines:
  assumes "parse body = Inr (enc_token_payload sig ts)" and "ts \<noteq> []"
    and "\<forall>x \<in> set ts. fst x \<notin> set object_proto_keys"
  shows "token_handler sink parse body db =
     (case token_spec sig ts of
        None \<Rightarrow> (Response ''No relevant token transfer found'' 200, db)
      | Some r \<Rightarrow> (case sink ''token_transfers'' (enc_token_record r) db of
                    (Some m, db') \<Rightarrow> (Response (fail_message m) 500, db')
                  | (None, db') \<Rightarrow> (Response ok_message 200, db')))"
proof (cases "find (\<lambda>tr. fst tr \<in> fst ` set known_tokens) ts")
  case None
  with assms show ?thesis
    by (simp add: token_handler_def token_try_payload token_spec_def)
next
  case (Some x)
  obtain m f t a where x: "x = (m, f, t, a)" by (cases x)
  from find_Some_props [OF Some] x have "m \<in> fst ` set known_tokens" by simp
  then obtain symb dec where k: "map_of known_tokens m = Some (symb, dec)"
    by (cases "map_of known_tokens m") (auto simp: map_of_eq_None_iff)
  with assms Some x show ?thesis
    by (simp add: token_handler_def token_try_payload token_spec_def clean_token_transfer_enc try_catch_insert)
qed

theorem token_handler_refines_witness:
  "token_handler (\<lambda>t v d. (None, v # d))
     (\<lambda>_. Inr (enc_token_payload ''sig1''
                 [(''Unknown1111'', ''A'', ''B'', 7),
                  (''EPjFWdd5AufqSSqeM2qN1xzybapC8G4wEGGkZwyTDt1v'', ''A'', ''B'', 2500000),
                  (''Es9vMFrzaCERmJfrF4H2FYD4KCoNkY11McCe8BenwNYB'', ''C'', ''D'', 9000000)])) ''body'' []
   = (Response ok_message 200,
      [enc_token_record (''sig1'', ''EPjFWdd5AufqSSqeM2qN1xzybapC8G4wEGGkZwyTDt1v'', ''USDC'', ''A'', ''B'', 5 / 2)])"
proof -
  let ?ts = "[(''Unknown1111'', ''A'', ''B'', 7),
              (''EPjFWdd5AufqSSqeM2qN1xzybapC8G4wEGGkZwyTDt1v'', ''A'', ''B'', 2500000),
              (''Es9vMFrzaCERmJfrF4H2FYD4KCoNkY11McCe8BenwNYB'', ''C'', ''D'', 9000000)] :: token_transfer list"
  have np: "\<forall>x \<in> set ?ts. fst x \<notin> set object_proto_keys" by (simp add: object_proto_keys_def)
  have sp: "token_spec ''sig1'' ?ts =
      Some (''sig1'', ''EPjFWdd5AufqSSqeM2qN1xzybapC8G4wEGGkZwyTDt1v'', ''USDC'', ''A'', ''B'', 5 / 2)"
    by (simp add: token_spec_def known_tokens_def)
  show ?thesis
    using token_handler_refines [of "\<lambda>_. Inr (enc_token_payload ''sig1'' ?ts)" "''body''" "''sig1''" ?ts,
        OF _ _ np, of "\<lambda>t v d. (None, v # d)" "[]"] sp
    by simp
qed

text \<open>
  C21. First match: when the transfers are \<open>xs @ [x] @ ys\<close>, no mint of \<open>xs\<close> is
  known and the mint of \<open>x\<close> is, the one row the handler inserts is the record of
  \<open>x\<close>, whatever \<open>ys\<close> holds (a later known mint is never recorded).
\<close>

theorem token_first_known_mint:
  assumes "parse body = Inr (enc_token_payload sig (xs @ (m, f, t, a) # ys))"
    and "\<forall>x \<in> set (xs @ (m, f, t, a) # ys). fst x \<notin> set object_proto_keys"
    and "\<forall>x \<in> set xs. fst x \<notin> fst ` set known_tokens"
    and "map_of known_tokens m = Some (symb, dec)"
  shows "token_handler sink parse body db =
     (case sink ''token_transfers'' (enc_token_record (sig, m, symb, f, t, of_int a / 10 ^ dec)) db of
        (Some e, db') \<Rightarrow> (Response (fail_message e) 500, db')
      | (None, db') \<Rightarrow> (Response ok_message 200, db'))"
proof -
  from map_of_SomeD [OF assms(4)] have "m \<in> fst ` set known_tokens" by force
  with assms(3) have "find (\<lambda>tr. fst tr \<in> fst ` set known_tokens) (xs @ (m, f, t, a) # ys) = Some (m, f, t, a)"
    by (intro find_append_first) (auto simp: list_ex_iff)
  with assms(4) have "token_spec sig (xs @ (m, f, t, a) # ys) = Some (sig, m, symb, f, t, of_int a / 10 ^ dec)"
    by (simp add: token_spec_def)
  with assms(1,2) show ?thesis by (simp add: token_handler_refines)
qed

theorem token_first_known_mint_witness:
  "token_handler (\<lambda>t v d. (None, v # d))
     (\<lambda>_. Inr (enc_token_payload ''s''
                 ([(''Other'', ''A'', ''B'', 1)] @ (''Es9vMFrzaCERmJfrF4H2FYD4KCoNkY11McCe8BenwNYB'', ''C'', ''D'', 3000000)
                   # [(''EPjFWdd5AufqSSqeM2qN1xzybapC8G4wEGGkZwyTDt1v'', ''E'', ''F'', 5)]))) ''body'' []
   = (Response ok_message 200,
      [enc_token_record (''s'', ''Es9vMFrzaCERmJfrF4H2FYD4KCoNkY11McCe8BenwNYB'', ''USDT'', ''C'', ''D'', of_int 3000000 / 10 ^ 6)])"
proof -
  have k: "map_of known_tokens ''Es9vMFrzaCERmJfrF4H2FYD4KCoNkY11McCe8BenwNYB'' = Some (''USDT'', 6)"
    by (simp add: known_tokens_def)
  show ?thesis
    using token_first_known_mint [where xs = "[(''Other'', ''A'', ''B'', 1)]"
        and ys = "[(''EPjFWdd5AufqSSqeM2qN1xzybapC8G4wEGGkZwyTDt1v'', ''E'', ''F'', 5)]"
        and f = "''C''" and t = "''D''" and a = 3000000 and sig = "''s''" and body = "''body''"
        and parse = "\<lambda>_. Inr (enc_token_payload ''s''
                 ([(''Other'', ''A'', ''B'', 1)] @ (''Es9vMFrzaCERmJfrF4H2FYD4KCoNkY11McCe8BenwNYB'', ''C'', ''D'', 3000000)
                   # [(''EPjFWdd5AufqSSqeM2qN1xzybapC8G4wEGGkZwyTDt1v'', ''E'', ''F'', 5)]))"
        and sink = "\<lambda>t v d. (None, v # d)" and db = "[]", OF _ _ _ k]
    by (simp add: object_proto_keys_def known_tokens_def)
qed

text \<open>
  C24. A notification whose transfers all have unknown mints is a success without effect:
  200 "No relevant token transfer found", the sink not called.
\<close>

theorem token_no_known_mint_200:
  assumes "parse body = Inr (enc_token_payload sig ts)" and "ts \<noteq> []"
    and "\<forall>x \<in> set ts. fst x \<notin> set object_proto_keys \<and> fst x \<notin> fst ` set known_tokens"
  shows "token_handler sink parse body db = (Response ''No relevant token transfer found'' 200, db)"
proof -
  from assms(3) have "find (\<lambda>tr. fst tr \<in> fst ` set known_tokens) ts = None"
    by (auto simp: find_None_iff' list_ex_iff)
  then have "token_spec sig ts = None" by (simp add: token_spec_def)
  with assms show ?thesis by (simp add: token_handler_refines)
qed

theorem token_no_known_mint_200_witness:
  "token_handler (\<lambda>t v d. (None, Suc d)) (\<lambda>_. Inr (enc_token_payload ''s'' [(''Other'', ''A'', ''B'', 1)])) ''body'' (0::nat)
   = (Response ''No relevant token transfer found'' 200, 0)"
  by (rule token_no_known_mint_200 [where sig = "''s''" and ts = "[(''Other'', ''A'', ''B'', 1)]"])
     (simp_all add: object_proto_keys_def known_tokens_def)

text \<open>
  An empty \<open>tokenTransfers\<close> list is rejected as an incomplete payload (400), while
  a non-empty list without a known mint is a 200: the spec does not tell the two apart.
\<close>

theorem token_empty_transfers_400:
  assumes "parse body = Inr (enc_token_payload sig [])"
  shows "token_handler sink parse body db = (Response ''Incomplete payload'' 400, db)"
  using assms by (simp add: token_handler_def token_try_def enc_token_payload_def)

theorem token_empty_transfers_400_witness:
  "token_handler (\<lambda>t v d. (None, Suc d)) (\<lambda>_. Inr (enc_token_payload ''s'' [])) ''body'' (0::nat)
   = (Response ''Incomplete payload'' 400, 0)"
  by (rule token_empty_transfers_400 [where sig = "''s''"]) simp

lemma token_try_replay:
  "token_try sink parse body d = replay sink (token_try probe parse body None) d"
  unfolding token_try_def by (simp split: sum.split option.split)

lemma token_try_probe:
  assumes "token_try probe parse body None = (x, p)"
  shows "(p = None \<and> x \<noteq> Inr (Response ok_message 200))
       \<or> (\<exists>td pt. x = Inr (Response ok_message 200) \<and> p = Some (''token_transfers'', clean_token_transfer td pt))"
  using assms unfolding token_try_def by (auto simp: ok_message_def split: sum.splits if_splits option.splits)

end
