(* ===== verification/Helius.thy ===== *)
theory Helius
  imports Whale Sale Token "HOL-Library.Monad_Syntax"
begin

text \<open>
  The payload interfaces the handlers declare (\<open>HeliusNativeTransferPayload\<close>,
  \<open>HeliusSalePayload\<close>, \<open>HeliusTransferPayload\<close>) as decoders in the option monad: a
  decoder reads from a parsed JSON value exactly the fields its interface declares, as own
  properties, and fails (\<open>None\<close>) when a field is missing or has another type. Helius
  sends many more fields than the interfaces name, in any order; the decoders ignore them.

  The lemmas characterise what a decoded payload is and strengthen the handlers'
  refinements from the spec-level encodings of theories \<open>Whale\<close>, \<open>Sale\<close> and
  \<open>Token\<close> to every payload that decodes. The last
  section compares the token handler's \<open>find\<close> with a reference that consults only the
  own entries of \<open>TOKEN_LOOKUP\<close>.
\<close>

subsection \<open>Reading declared fields\<close>

text \<open>The own property \<open>k\<close> of an object, as a field declared by an interface is read.\<close>

definition own_field :: "string \<Rightarrow> jsval \<Rightarrow> jsval option" where
  "own_field k v = (case v of JObj kvs \<Rightarrow> map_of kvs k | _ \<Rightarrow> None)"

fun dec_str :: "jsval \<Rightarrow> string option" where
  "dec_str (JStr s) = Some s"
| "dec_str _ = None"

text \<open>A \<open>number\<close> field carrying an integer amount (lamports, raw token units).\<close>

fun dec_int :: "jsval \<Rightarrow> int option" where
  "dec_int (JNumber (Num q)) = (if q = of_int \<lfloor>q\<rfloor> then Some \<lfloor>q\<rfloor> else None)"
| "dec_int _ = None"

fun dec_arr :: "jsval \<Rightarrow> jsval list option" where
  "dec_arr (JArr xs) = Some xs"
| "dec_arr _ = None"

definition str_field :: "string \<Rightarrow> jsval \<Rightarrow> string option" where
  "str_field k v = own_field k v \<bind> dec_str"

definition int_field :: "string \<Rightarrow> jsval \<Rightarrow> int option" where
  "int_field k v = own_field k v \<bind> dec_int"

definition arr_field :: "string \<Rightarrow> jsval \<Rightarrow> jsval list option" where
  "arr_field k v = own_field k v \<bind> dec_arr"

text \<open>\<open>payloadArray[0]\<close> of a payload typed as an array of notifications.\<close>

definition first_notification :: "jsval \<Rightarrow> jsval option" where
  "first_notification v = (case v of JArr (x # _) \<Rightarrow> Some x | _ \<Rightarrow> None)"

subsection \<open>\<open>HeliusNativeTransferPayload\<close>\<close>

definition dec_native_transfer :: "jsval \<Rightarrow> native_transfer option" where
  "dec_native_transfer t = do {
     f \<leftarrow> str_field ''fromUserAccount'' t;
     to \<leftarrow> str_field ''toUserAccount'' t;
     a \<leftarrow> int_field ''amount'' t;
     Some (f, to, a)
   }"

definition dec_whale_payload :: "jsval \<Rightarrow> (string \<times> native_transfer list) option" where
  "dec_whale_payload v = do {
     x \<leftarrow> first_notification v;
     sig \<leftarrow> str_field ''signature'' x;
     nts \<leftarrow> arr_field ''nativeTransfers'' x;
     ts \<leftarrow> those (map dec_native_transfer nts);
     Some (sig, ts)
   }"

subsection \<open>\<open>HeliusTransferPayload\<close>\<close>

definition dec_token_transfer :: "jsval \<Rightarrow> token_transfer option" where
  "dec_token_transfer t = do {
     f \<leftarrow> str_field ''fromUserAccount'' t;
     to \<leftarrow> str_field ''toUserAccount'' t;
     m \<leftarrow> str_field ''mint'' t;
     a \<leftarrow> int_field ''tokenAmount'' t;
     Some (m, f, to, a)
   }"

definition dec_token_payload :: "jsval \<Rightarrow> (string \<times> token_transfer list) option" where
  "dec_token_payload v = do {
     x \<leftarrow> first_notification v;
     sig \<leftarrow> str_field ''signature'' x;
     tts \<leftarrow> arr_field ''tokenTransfers'' x;
     ts \<leftarrow> those (map dec_token_transfer tts);
     Some (sig, ts)
   }"

subsection \<open>\<open>HeliusSalePayload\<close>\<close>

text \<open>The optional field \<open>collection?: string\<close>.\<close>

definition opt_str_field :: "string \<Rightarrow> jsval \<Rightarrow> string option option" where
  "opt_str_field k v = (case own_field k v of None \<Rightarrow> Some None | Some s \<Rightarrow> map_option Some (dec_str s))"

definition dec_sale_payload :: "jsval \<Rightarrow> sale_event option" where
  "dec_sale_payload v = do {
     x \<leftarrow> first_notification v;
     sig \<leftarrow> str_field ''signature'' x;
     events \<leftarrow> own_field ''events'' x;
     nft \<leftarrow> own_field ''nft'' events;
     seller \<leftarrow> str_field ''seller'' nft;
     buyer \<leftarrow> str_field ''buyer'' nft;
     amount \<leftarrow> int_field ''amount'' nft;
     nfts \<leftarrow> arr_field ''nfts'' nft;
     mints \<leftarrow> those (map (str_field ''mint'') nfts);
     coll \<leftarrow> opt_str_field ''collection'' x;
     Some \<lparr>sale_sig = sig, sale_seller = seller, sale_buyer = buyer, sale_amount = amount,
           sale_mints = mints, sale_coll = coll\<rparr>
   }"

subsection \<open>Reference: lookup of own properties only\<close>

text \<open>
  What \<open>find(t => TOKEN_LOOKUP[t.mint])\<close> is meant to compute:
  \<open>find(t => Object.hasOwn(TOKEN_LOOKUP, t.mint))\<close>, where only the table's own
  entries count.
\<close>

definition token_relevant_own :: "jsval \<Rightarrow> bool js" where
  "token_relevant_own t =
     (case js_get t ''mint'' of
        Inl e \<Rightarrow> Inl e
      | Inr m \<Rightarrow> Inr (case js_to_key m of Some k \<Rightarrow> own_field k TOKEN_LOOKUP \<noteq> None | None \<Rightarrow> False))"

definition token_find_own :: "jsval \<Rightarrow> jsval option js" where
  "token_find_own tts =
     (case tts of
        JArr xs \<Rightarrow> js_find token_relevant_own xs
      | _ \<Rightarrow> Inl (not_a_function ''transferData.tokenTransfers.find''))"

subsection \<open>Lemmas: decoding fields\<close>

lemma dec_int_of_int [simp]: "dec_int (JNumber (Num (of_int a))) = Some a"
  by simp

lemma str_field_Some:
  "str_field k v = Some s \<longleftrightarrow> (\<exists>kvs. v = JObj kvs \<and> map_of kvs k = Some (JStr s))"
  by (auto simp: str_field_def own_field_def bind_eq_Some_conv elim!: dec_str.elims split: jsval.splits)

lemma int_field_Some:
  "int_field k v = Some a \<longleftrightarrow> (\<exists>kvs. v = JObj kvs \<and> map_of kvs k = Some (JNumber (Num (of_int a))))"
  by (auto simp: int_field_def own_field_def bind_eq_Some_conv elim!: dec_int.elims
      split: jsval.splits if_splits)

lemma arr_field_Some:
  "arr_field k v = Some xs \<longleftrightarrow> (\<exists>kvs. v = JObj kvs \<and> map_of kvs k = Some (JArr xs))"
  by (auto simp: arr_field_def own_field_def bind_eq_Some_conv elim!: dec_arr.elims split: jsval.splits)

lemmas field_Some = str_field_Some int_field_Some arr_field_Some

lemma dec_native_transfer_enc [simp]: "dec_native_transfer (enc_native_transfer x) = Some x"
  by (cases x) (simp add: dec_native_transfer_def str_field_def int_field_def own_field_def)

lemma dec_native_transfer_Some:
  assumes "dec_native_transfer t = Some (f, to, a)"
  obtains kvs where "t = JObj kvs" and "map_of kvs ''fromUserAccount'' = Some (JStr f)"
    and "map_of kvs ''toUserAccount'' = Some (JStr to)"
    and "map_of kvs ''amount'' = Some (JNumber (Num (of_int a)))"
  using assms by (auto simp: dec_native_transfer_def bind_eq_Some_conv field_Some)

lemma dec_whale_payload_Some:
  assumes "dec_whale_payload v = Some (sig, ts)"
  obtains kvs rest nts where "v = JArr (JObj kvs # rest)"
    and "map_of kvs ''signature'' = Some (JStr sig)"
    and "map_of kvs ''nativeTransfers'' = Some (JArr nts)"
    and "list_all2 (\<lambda>t x. dec_native_transfer t = Some x) nts ts"
  using assms
  by (auto simp: dec_whale_payload_def first_notification_def bind_eq_Some_conv field_Some
      those_map_Some_iff split: jsval.splits list.splits)


lemma whale_with_sol_dec:
  assumes "dec_native_transfer t = Some (f, to, a)"
  shows "\<exists>w. whale_with_sol t = Inr w
           \<and> is_whale w = (WHALE_THRESHOLD_SOL \<le> of_int a / LAMPORTS_PER_SOL)
           \<and> whale_row (JStr sig) w = enc_sol_record (sig, f, to, of_int a / LAMPORTS_PER_SOL)"
proof -
  obtain kvs where t: "t = JObj kvs" and fr: "map_of kvs ''fromUserAccount'' = Some (JStr f)"
    and tt: "map_of kvs ''toUserAccount'' = Some (JStr to)"
    and am: "map_of kvs ''amount'' = Some (JNumber (Num (of_int a)))"
    using assms by (rule dec_native_transfer_Some)
  let ?w = "JObj (AList.update ''amount_sol'' (JNumber (Num (of_int a / LAMPORTS_PER_SOL))) kvs)"
  have "whale_with_sol t = Inr ?w"
    by (simp add: t am whale_with_sol_def js_spread_with_def LAMPORTS_PER_SOL_def)
  moreover have "is_whale ?w = (WHALE_THRESHOLD_SOL \<le> of_int a / LAMPORTS_PER_SOL)"
    by (simp add: is_whale_def update_conv')
  moreover have "whale_row (JStr sig) ?w = enc_sol_record (sig, f, to, of_int a / LAMPORTS_PER_SOL)"
    by (simp add: whale_row_def update_conv' fr tt)
  ultimately show ?thesis by blast
qed

lemma whale_transfers_dec:
  assumes "list_all2 (\<lambda>t x. dec_native_transfer t = Some x) nts ts"
  shows "\<exists>ws. whale_transfers (JArr nts) = Inr ws
           \<and> map (whale_row (JStr sig)) ws = map enc_sol_record (whale_spec sig ts)"
proof -
  have "\<exists>ys. js_map whale_with_sol nts = Inr ys
          \<and> map (whale_row (JStr sig)) (filter is_whale ys) = map enc_sol_record (whale_spec sig ts)"
    using assms
  proof (induction rule: list_all2_induct)
    case Nil
    then show ?case by simp
  next
    case (Cons t nts x ts)
    obtain f to a where x: "x = (f, to, a)" by (cases x)
    from whale_with_sol_dec [of t f to a sig] Cons.hyps(1) x obtain w where
      w: "whale_with_sol t = Inr w"
      and wh: "is_whale w = (WHALE_THRESHOLD_SOL \<le> of_int a / LAMPORTS_PER_SOL)"
      and row: "whale_row (JStr sig) w = enc_sol_record (sig, f, to, of_int a / LAMPORTS_PER_SOL)"
      by blast
    from Cons.IH obtain ys where ys: "js_map whale_with_sol nts = Inr ys"
      and rows: "map (whale_row (JStr sig)) (filter is_whale ys) = map enc_sol_record (whale_spec sig ts)"
      by blast
    show ?case
      by (rule exI [of _ "w # ys"]) (simp add: w ys wh row rows x)
  qed
  then show ?thesis by (auto simp: whale_transfers_def)
qed

text \<open>
  C4. Refinement of the whale watcher for every payload that conforms to
  \<open>HeliusNativeTransferPayload\<close>: whatever other fields the notification and its
  transfers carry, and in whatever order, the handler acts on the decoded transfers as the
  abstract filter \<open>whale_spec\<close> says.
\<close>

theorem whale_handler_refines_decoded:
  assumes "bodyText \<noteq> []" and "parse bodyText = Inr v" and "dec_whale_payload v = Some (sig, ts)"
  shows "whale_handler sink parse bodyText db =
     (if whale_spec sig ts = [] then (Response ''No whale transfers found'' 200, db)
      else (case sink ''sol_transfers'' (JArr (map enc_sol_record (whale_spec sig ts))) db of
              (Some m, db') \<Rightarrow> (Response (fail_message m) 500, db')
            | (None, db') \<Rightarrow> (Response ok_message 200, db')))"
proof -
  obtain kvs rest nts where v: "v = JArr (JObj kvs # rest)"
    and sig: "map_of kvs ''signature'' = Some (JStr sig)"
    and nts: "map_of kvs ''nativeTransfers'' = Some (JArr nts)"
    and dec: "list_all2 (\<lambda>t x. dec_native_transfer t = Some x) nts ts"
    using assms(3) by (rule dec_whale_payload_Some)
  obtain ws where ws: "whale_transfers (JArr nts) = Inr ws"
    and rows: "map (whale_row (JStr sig)) ws = map enc_sol_record (whale_spec sig ts)"
    using whale_transfers_dec [OF dec] by blast
  from rows have "ws = [] \<longleftrightarrow> whale_spec sig ts = []"
    by (metis Nil_is_map_conv)
  with ws rows assms(1,2) v sig nts show ?thesis
    by (simp add: whale_handler_def whale_try_def try_catch_insert)
qed


lemma dec_token_transfer_enc [simp]: "dec_token_transfer (enc_token_transfer x) = Some x"
  by (cases x) (simp add: dec_token_transfer_def str_field_def int_field_def own_field_def)

lemma dec_token_transfer_Some:
  assumes "dec_token_transfer t = Some (m, f, to, a)"
  obtains kvs where "t = JObj kvs" and "map_of kvs ''fromUserAccount'' = Some (JStr f)"
    and "map_of kvs ''toUserAccount'' = Some (JStr to)" and "map_of kvs ''mint'' = Some (JStr m)"
    and "map_of kvs ''tokenAmount'' = Some (JNumber (Num (of_int a)))"
  using assms by (auto simp: dec_token_transfer_def bind_eq_Some_conv field_Some)

lemma dec_token_payload_Some:
  assumes "dec_token_payload v = Some (sig, ts)"
  obtains kvs rest tts where "v = JArr (JObj kvs # rest)"
    and "map_of kvs ''signature'' = Some (JStr sig)"
    and "map_of kvs ''tokenTransfers'' = Some (JArr tts)"
    and "list_all2 (\<lambda>t x. dec_token_transfer t = Some x) tts ts"
  using assms
  by (auto simp: dec_token_payload_def first_notification_def bind_eq_Some_conv field_Some
      those_map_Some_iff split: jsval.splits list.splits)

lemma token_relevant_dec:
  "dec_token_transfer t = Some x \<Longrightarrow>
     token_relevant t = Inr (fst x \<in> fst ` set known_tokens \<or> fst x \<in> set object_proto_keys)"
  by (cases x) (auto simp: token_relevant_def token_info_truthy [symmetric] elim!: dec_token_transfer_Some)

lemma token_find_dec:
  assumes "list_all2 (\<lambda>t x. dec_token_transfer t = Some x) tts ts"
    and "\<forall>x \<in> set ts. fst x \<notin> set object_proto_keys"
  shows "\<exists>r. token_find (JArr tts) = Inr r
           \<and> rel_option (\<lambda>pt x. dec_token_transfer pt = Some x) r
               (find (\<lambda>tr. fst tr \<in> fst ` set known_tokens) ts)"
proof -
  have "\<exists>r. js_find token_relevant tts = Inr r
           \<and> rel_option (\<lambda>pt x. dec_token_transfer pt = Some x) r
               (find (\<lambda>tr. fst tr \<in> fst ` set known_tokens) ts)"
    using assms
  proof (induction rule: list_all2_induct)
    case Nil
    then show ?case by simp
  next
    case (Cons t tts x ts)
    then show ?case by (simp add: token_relevant_dec)
  qed
  then show ?thesis by (simp add: token_find_def)
qed

lemma clean_token_transfer_dec:
  assumes "dec_token_transfer pt = Some (m, f, to, a)" and "map_of known_tokens m = Some (symb, dec)"
    and "js_lookup td ''signature'' = JStr sig"
  shows "clean_token_transfer td pt = enc_token_record (sig, m, symb, f, to, of_int a / 10 ^ dec)"
proof -
  obtain kvs where pt: "pt = JObj kvs" and "map_of kvs ''fromUserAccount'' = Some (JStr f)"
    and "map_of kvs ''toUserAccount'' = Some (JStr to)" and "map_of kvs ''mint'' = Some (JStr m)"
    and "map_of kvs ''tokenAmount'' = Some (JNumber (Num (of_int a)))"
    using assms(1) by (rule dec_token_transfer_Some)
  with token_info_known [OF assms(2)] assms(3) show ?thesis
    by (simp add: clean_token_transfer_def Let_def powr_realpow)
qed

text \<open>
  C5. Refinement of the token transfer handler for every payload that conforms to
  \<open>HeliusTransferPayload\<close>, with at least one transfer and no mint named like a member
  of \<open>Object.prototype\<close>: the handler acts on the decoded transfers as \<open>token_spec\<close>
  says, whatever other fields the payload carries.
\<close>

theorem token_handler_refines_decoded:
  assumes "parse body = Inr v" and "dec_token_payload v = Some (sig, ts)" and "ts \<noteq> []"
    and "\<forall>x \<in> set ts. fst x \<notin> set object_proto_keys"
  shows "token_handler sink parse body db =
     (case token_spec sig ts of
        None \<Rightarrow> (Response ''No relevant token transfer found'' 200, db)
      | Some r \<Rightarrow> (case sink ''token_transfers'' (enc_token_record r) db of
                    (Some m, db') \<Rightarrow> (Response (fail_message m) 500, db')
                  | (None, db') \<Rightarrow> (Response ok_message 200, db')))"
proof -
  obtain kvs rest tts where v: "v = JArr (JObj kvs # rest)"
    and sig: "map_of kvs ''signature'' = Some (JStr sig)"
    and tts: "map_of kvs ''tokenTransfers'' = Some (JArr tts)"
    and dec: "list_all2 (\<lambda>t x. dec_token_transfer t = Some x) tts ts"
    using assms(2) by (rule dec_token_payload_Some)
  from dec assms(3) have len: "tts \<noteq> []" by (cases tts) auto
  obtain r where r: "token_find (JArr tts) = Inr r"
    and rel: "rel_option (\<lambda>pt x. dec_token_transfer pt = Some x) r
               (find (\<lambda>tr. fst tr \<in> fst ` set known_tokens) ts)"
    using token_find_dec [OF dec assms(4)] by blast
  have tt: "token_try sink parse body db =
     (case r of
        None \<Rightarrow> (Inr (Response ''No relevant token transfer found'' 200), db)
      | Some pt \<Rightarrow> insert_then_ok sink ''token_transfers'' (clean_token_transfer (JObj kvs) pt) db)"
    using assms(1) v tts r len by (simp add: token_try_def split: option.split)
  show ?thesis
  proof (cases "find (\<lambda>tr. fst tr \<in> fst ` set known_tokens) ts")
    case None
    with rel have "r = None" by simp
    with tt show ?thesis by (simp add: token_handler_def token_spec_def None)
  next
    case (Some x)
    obtain m f to a where x: "x = (m, f, to, a)" by (cases x)
    from rel Some obtain pt where rpt: "r = Some pt" and dpt: "dec_token_transfer pt = Some x"
      by (cases r) auto
    from find_Some_props [OF Some] x have "m \<in> fst ` set known_tokens" by simp
    then obtain symb dec where k: "map_of known_tokens m = Some (symb, dec)"
      by (cases "map_of known_tokens m") (auto simp: map_of_eq_None_iff)
    have "clean_token_transfer (JObj kvs) pt = enc_token_record (sig, m, symb, f, to, of_int a / 10 ^ dec)"
      using dpt x k sig by (simp add: clean_token_transfer_dec)
    with tt rpt Some x k show ?thesis
      by (simp add: token_handler_def token_spec_def try_catch_insert)
  qed
qed


lemma dec_sale_payload_Some:
  assumes "dec_sale_payload v = Some e"
  obtains kvs rest ekvs nkvs nfts where "v = JArr (JObj kvs # rest)"
    and "map_of kvs ''signature'' = Some (JStr (sale_sig e))"
    and "map_of kvs ''events'' = Some (JObj ekvs)" and "map_of ekvs ''nft'' = Some (JObj nkvs)"
    and "map_of nkvs ''seller'' = Some (JStr (sale_seller e))"
    and "map_of nkvs ''buyer'' = Some (JStr (sale_buyer e))"
    and "map_of nkvs ''amount'' = Some (JNumber (Num (of_int (sale_amount e))))"
    and "map_of nkvs ''nfts'' = Some (JArr nfts)"
    and "list_all2 (\<lambda>n m. str_field ''mint'' n = Some m) nfts (sale_mints e)"
    and "opt_str_field ''collection'' (JObj kvs) = Some (sale_coll e)"
proof -
  from assms obtain x sig events nft seller buyer amount nfts mints coll where
    x: "first_notification v = Some x" and sg: "str_field ''signature'' x = Some sig"
    and ev: "own_field ''events'' x = Some events" and nf: "own_field ''nft'' events = Some nft"
    and se: "str_field ''seller'' nft = Some seller" and bu: "str_field ''buyer'' nft = Some buyer"
    and am: "int_field ''amount'' nft = Some amount" and ns: "arr_field ''nfts'' nft = Some nfts"
    and ms: "those (map (str_field ''mint'') nfts) = Some mints"
    and co: "opt_str_field ''collection'' x = Some coll"
    and e: "e = \<lparr>sale_sig = sig, sale_seller = seller, sale_buyer = buyer, sale_amount = amount,
           sale_mints = mints, sale_coll = coll\<rparr>"
    by (auto simp: dec_sale_payload_def bind_eq_Some_conv)
  from x sg obtain kvs rest where v: "v = JArr (JObj kvs # rest)"
    and "map_of kvs ''signature'' = Some (JStr sig)"
    by (auto simp: first_notification_def str_field_Some split: jsval.splits list.splits)
  moreover from ev v x obtain ekvs where "map_of kvs ''events'' = Some (JObj ekvs)" "events = JObj ekvs"
    using nf by (auto simp: first_notification_def own_field_def split: jsval.splits)
  moreover from nf se obtain nkvs where "map_of ekvs ''nft'' = Some (JObj nkvs)" "nft = JObj nkvs"
    using calculation(4) by (auto simp: own_field_def str_field_Some)
  ultimately show ?thesis
    using that se bu am ns ms co x e
    by (auto simp: field_Some those_map_Some_iff first_notification_def)
qed

lemma sale_mint_dec:
  assumes "list_all2 (\<lambda>n m. str_field ''mint'' n = Some m) nfts mints" and "mints \<noteq> []"
    and "map_of nkvs ''nfts'' = Some (JArr nfts)"
  shows "sale_mint (JObj nkvs) = Inr (JStr (hd mints))"
proof -
  from assms(1,2) obtain n ns m ms where "nfts = n # ns" "mints = m # ms" "str_field ''mint'' n = Some m"
    by (cases nfts; cases mints) auto
  with assms(3) show ?thesis
    by (auto simp: sale_mint_def str_field_Some)
qed

text \<open>
  C6. Refinement of the NFT sale handler for every payload that conforms to
  \<open>HeliusSalePayload\<close>, with a non-empty signature and at least one NFT: the handler
  inserts the record of \<open>sale_spec\<close> for the decoded event, whatever other fields the
  notification carries.
\<close>

theorem sale_handler_refines_decoded:
  assumes "parse body = Inr v" and "dec_sale_payload v = Some e"
    and "sale_sig e \<noteq> []" and "sale_mints e \<noteq> []"
  shows "sale_handler sink parse body db =
     (case sink ''nft_sales'' (enc_sale_record (sale_spec e)) db of
        (Some m, db') \<Rightarrow> (Response (fail_message m) 500, db')
      | (None, db') \<Rightarrow> (Response ok_message 200, db'))"
proof -
  obtain kvs rest ekvs nkvs nfts where v: "v = JArr (JObj kvs # rest)"
    and sg: "map_of kvs ''signature'' = Some (JStr (sale_sig e))"
    and ev: "map_of kvs ''events'' = Some (JObj ekvs)" and nf: "map_of ekvs ''nft'' = Some (JObj nkvs)"
    and se: "map_of nkvs ''seller'' = Some (JStr (sale_seller e))"
    and bu: "map_of nkvs ''buyer'' = Some (JStr (sale_buyer e))"
    and am: "map_of nkvs ''amount'' = Some (JNumber (Num (of_int (sale_amount e))))"
    and ns: "map_of nkvs ''nfts'' = Some (JArr nfts)"
    and ms: "list_all2 (\<lambda>n m. str_field ''mint'' n = Some m) nfts (sale_mints e)"
    and co: "opt_str_field ''collection'' (JObj kvs) = Some (sale_coll e)"
    using assms(2) by (rule dec_sale_payload_Some)
  have mint: "sale_mint (JObj nkvs) = Inr (JStr (hd (sale_mints e)))"
    using sale_mint_dec [OF ms assms(4) ns] .
  have coll: "sale_collection (JObj kvs)
      = JStr (case sale_coll e of Some c \<Rightarrow> (if c = [] then ''Unknown'' else c) | None \<Rightarrow> ''Unknown'')"
    using co by (cases "sale_coll e")
      (auto simp: sale_collection_def opt_str_field_def own_field_def js_or_def js_proto
        elim!: dec_str.elims split: option.splits)
  have "clean_sale (JObj kvs) (JObj nkvs) = Inr (enc_sale_record (sale_spec e))"
    using mint coll sg se bu am
    by (simp add: clean_sale_def sale_price_sol_def sale_spec_def)
  with assms(1,3) v sg ev nf show ?thesis
    by (simp add: sale_handler_def sale_try_def try_catch_insert)
qed


theorem whale_handler_refines_decoded_witness:
  "whale_handler (\<lambda>t v d. (None, v # d))
     (\<lambda>_. Inr (JArr [JObj [(''type'', JStr ''TRANSFER''),
        (''nativeTransfers'', JArr [JObj [(''amount'', JNumber (Num 2000000000000)),
            (''toUserAccount'', JStr ''B''), (''fromUserAccount'', JStr ''A''), (''fee'', JNull)]]),
        (''signature'', JStr ''s1'')]])) ''x'' []
   = (Response ok_message 200, [JArr [enc_sol_record (''s1'', ''A'', ''B'', 2000)]])"
proof -
  let ?v = "JArr [JObj [(''type'', JStr ''TRANSFER''),
        (''nativeTransfers'', JArr [JObj [(''amount'', JNumber (Num 2000000000000)),
            (''toUserAccount'', JStr ''B''), (''fromUserAccount'', JStr ''A''), (''fee'', JNull)]]),
        (''signature'', JStr ''s1'')]]"
  have "''x'' \<noteq> []" "(\<lambda>_. Inr ?v) ''x'' = Inr ?v"
    "dec_whale_payload ?v = Some (''s1'', [(''A'', ''B'', 2000000000000)])"
    by (simp_all add: dec_whale_payload_def first_notification_def dec_native_transfer_def
        str_field_def int_field_def arr_field_def own_field_def)
  from whale_handler_refines_decoded [OF this, of "\<lambda>t v d. (None, v # d)" "[]"] show ?thesis
    by (simp add: WHALE_THRESHOLD_SOL_def LAMPORTS_PER_SOL_def)
qed

theorem token_handler_refines_decoded_witness:
  "token_handler (\<lambda>t v d. (None, v # d))
     (\<lambda>_. Inr (JArr [JObj [(''signature'', JStr ''s2''), (''slot'', JNumber (Num 7)),
        (''tokenTransfers'', JArr [JObj [(''mint'', JStr ''Es9vMFrzaCERmJfrF4H2FYD4KCoNkY11McCe8BenwNYB''),
            (''tokenAmount'', JNumber (Num 1500000)), (''fromUserAccount'', JStr ''A''),
            (''toUserAccount'', JStr ''B''), (''tokenStandard'', JStr ''Fungible'')]])]])) ''x'' []
   = (Response ok_message 200,
      [enc_token_record (''s2'', ''Es9vMFrzaCERmJfrF4H2FYD4KCoNkY11McCe8BenwNYB'', ''USDT'', ''A'', ''B'', 3 / 2)])"
proof -
  let ?v = "JArr [JObj [(''signature'', JStr ''s2''), (''slot'', JNumber (Num 7)),
        (''tokenTransfers'', JArr [JObj [(''mint'', JStr ''Es9vMFrzaCERmJfrF4H2FYD4KCoNkY11McCe8BenwNYB''),
            (''tokenAmount'', JNumber (Num 1500000)), (''fromUserAccount'', JStr ''A''),
            (''toUserAccount'', JStr ''B''), (''tokenStandard'', JStr ''Fungible'')]])]]"
  let ?ts = "[(''Es9vMFrzaCERmJfrF4H2FYD4KCoNkY11McCe8BenwNYB'', ''A'', ''B'', 1500000)] :: token_transfer list"
  have "(\<lambda>_. Inr ?v) ''x'' = Inr ?v" "dec_token_payload ?v = Some (''s2'', ?ts)" "?ts \<noteq> []"
    "\<forall>x \<in> set ?ts. fst x \<notin> set object_proto_keys"
    by (simp_all add: dec_token_payload_def first_notification_def dec_token_transfer_def
        str_field_def int_field_def arr_field_def own_field_def object_proto_keys_def)
  from token_handler_refines_decoded [where parse = "\<lambda>_. Inr ?v" and body = "''x''", OF this, of "\<lambda>t v d. (None, v # d)" "[]"] show ?thesis
    by (simp add: token_spec_def known_tokens_def)
qed

theorem sale_handler_refines_decoded_witness:
  "sale_handler (\<lambda>t v d. (None, v # d))
     (\<lambda>_. Inr (JArr [JObj [(''signature'', JStr ''s3''), (''collection'', JStr ''Apes''),
        (''events'', JObj [(''nft'', JObj [(''nfts'', JArr [JObj [(''mint'', JStr ''M1''), (''tokenStandard'', JStr ''NFT'')]]),
            (''amount'', JNumber (Num 3000000000)), (''buyer'', JStr ''B''), (''seller'', JStr ''S''),
            (''type'', JStr ''NFT_SALE'')])])]])) ''x'' []
   = (Response ok_message 200, [enc_sale_record (''s3'', ''B'', ''S'', 3, ''M1'', ''Apes'')])"
proof -
  let ?v = "JArr [JObj [(''signature'', JStr ''s3''), (''collection'', JStr ''Apes''),
        (''events'', JObj [(''nft'', JObj [(''nfts'', JArr [JObj [(''mint'', JStr ''M1''), (''tokenStandard'', JStr ''NFT'')]]),
            (''amount'', JNumber (Num 3000000000)), (''buyer'', JStr ''B''), (''seller'', JStr ''S''),
            (''type'', JStr ''NFT_SALE'')])])]]"
  let ?e = "\<lparr>sale_sig = ''s3'', sale_seller = ''S'', sale_buyer = ''B'', sale_amount = 3000000000,
            sale_mints = [''M1''], sale_coll = Some ''Apes''\<rparr>"
  have "(\<lambda>_. Inr ?v) ''x'' = Inr ?v" "dec_sale_payload ?v = Some ?e" "sale_sig ?e \<noteq> []" "sale_mints ?e \<noteq> []"
    by (simp_all add: dec_sale_payload_def first_notification_def opt_str_field_def
        str_field_def int_field_def arr_field_def own_field_def)
  from sale_handler_refines_decoded [where parse = "\<lambda>_. Inr ?v" and body = "''x''", OF this, of "\<lambda>t v d. (None, v # d)" "[]"] show ?thesis
    by (simp add: sale_spec_def)
qed

lemma token_relevant_own_eq:
  assumes "\<forall>k. js_to_key (js_lookup t ''mint'') = Some k \<longrightarrow> k \<notin> set object_proto_keys"
  shows "token_relevant t = token_relevant_own t"
proof (cases "js_get t ''mint''")
  case (Inr m)
  then have m: "m = js_lookup t ''mint''"
    by (auto simp: js_get_def split: jsval.splits)
  show ?thesis
  proof (cases "js_to_key m")
    case (Some k)
    with assms m have "k \<notin> set object_proto_keys" by simp
    with Inr Some show ?thesis
      by (auto simp: token_relevant_def token_relevant_own_def token_info_def js_index_def
          TOKEN_LOOKUP_def own_field_def proto_get_def)
  qed (use Inr in \<open>simp add: token_relevant_def token_relevant_own_def token_info_def js_index_def\<close>)
qed (simp add: token_relevant_def token_relevant_own_def)

text \<open>
  C16. Equivalence of the token handler's search with its reference: when no transfer's
  mint, converted to a property key, is the name of a member of \<open>Object.prototype\<close>,
  \<open>find(t => TOKEN_LOOKUP[t.mint])\<close> returns what the own-property search returns (the
  same transfer, or the same exception).
\<close>

theorem token_find_own_equiv:
  assumes "\<forall>t \<in> set xs. \<forall>k. js_to_key (js_lookup t ''mint'') = Some k \<longrightarrow> k \<notin> set object_proto_keys"
  shows "token_find (JArr xs) = token_find_own (JArr xs)"
proof -
  have "js_find token_relevant xs = js_find token_relevant_own xs"
    using assms by (induction xs) (simp_all add: token_relevant_own_eq split: sum.split bool.split)
  then show ?thesis by (simp add: token_find_def token_find_own_def)
qed

theorem token_find_own_equiv_witness:
  "token_find (JArr [JObj [(''mint'', JStr ''So11111111111111111111111111111111111111112'')],
                     JObj [(''mint'', JStr ''EPjFWdd5AufqSSqeM2qN1xzybapC8G4wEGGkZwyTDt1v'')]])
   = token_find_own (JArr [JObj [(''mint'', JStr ''So11111111111111111111111111111111111111112'')],
                     JObj [(''mint'', JStr ''EPjFWdd5AufqSSqeM2qN1xzybapC8G4wEGGkZwyTDt1v'')]])"
  by (rule token_find_own_equiv) (simp add: object_proto_keys_def)

end
