(* ===== verification/Store.thy ===== *)
theory Store
  imports Webhook "HOL-Library.Sublist"
begin

text \<open>
  The database behind \<open>supabase.from(t).insert(v)\<close>: the three tables whose DDL the
  handler sources carry as comments (\<open>sol_transfers\<close> in the whale watcher, lines 70-77,
  \<open>token_transfers\<close> in the token handler, lines 79-88; \<open>nft_sales\<close> has no DDL in
  the repository and is taken from the spec's record, every column nullable).

  \<open>pg_insert\<close> is one PostgREST insert: the value passed to \<open>insert\<close> is one row or
  an array of rows; each row is serialised by \<open>JSON.stringify\<close> (\<open>json_clean\<close>),
  must name only columns of the table, and is converted column by column: a missing or
  \<open>null\<close> value is SQL NULL and violates a NOT NULL column, a NUMERIC(p, s) value is
  rounded half away from zero to s decimals and overflows at 10^(p-s). The statement is
  atomic: the first failing row aborts it and nothing is stored; otherwise the rows are
  appended with consecutive identity values. \<open>pg_sink\<close> is this insert as a
  \<open>db sink\<close> of theory \<open>Webhook\<close>. A text column keeps the JSON value it received
  (for a JSON string this is its text; other values stand for their JSON text).
  \<open>created_at DEFAULT NOW()\<close> is not modelled (no clock).

  The lemmas show that an insert is all-or-nothing (\<open>pg_sink_cases\<close>) and
  append-only, that it preserves well-formedness (\<open>table_wf\<close>: increasing identities
  below the counter, one cell per column, NOT NULL respected, numeric cells rounded and in
  range) and the layout \<open>db_layout\<close>, where each stored row comes from, that a
  successful insert succeeds again on its own result and appends the same cells
  (\<open>table_repeats\<close>), and when a number is stored exactly.
\<close>

datatype coltype = CText | CNumeric nat nat

record column =
  col_name :: string
  col_type :: coltype
  col_notnull :: bool

datatype cell = Null | Txt jsval | Dec real

record table =
  tbl_name :: string
  tbl_schema :: "column list"
  tbl_rows :: "(nat \<times> cell list) list"
  tbl_next_id :: nat

record db =
  sol_transfers :: table
  nft_sales :: table
  token_transfers :: table

definition text_col :: "string \<Rightarrow> bool \<Rightarrow> column" where
  "text_col n nn = \<lparr>col_name = n, col_type = CText, col_notnull = nn\<rparr>"

definition numeric_col :: "string \<Rightarrow> nat \<Rightarrow> nat \<Rightarrow> bool \<Rightarrow> column" where
  "numeric_col n p s nn = \<lparr>col_name = n, col_type = CNumeric p s, col_notnull = nn\<rparr>"

text \<open>\<open>CREATE TABLE sol_transfers\<close> (the data columns; \<open>id\<close> is the identity).\<close>

definition sol_transfers_schema :: "column list" where
  "sol_transfers_schema =
     [text_col ''signature'' True, text_col ''sender'' True, text_col ''receiver'' True,
      numeric_col ''amount_sol'' 20 9 True]"

text \<open>\<open>CREATE TABLE token_transfers\<close>.\<close>

definition token_transfers_schema :: "column list" where
  "token_transfers_schema =
     [text_col ''signature'' True, text_col ''token_mint'' True, text_col ''token_symbol'' True,
      text_col ''sender'' True, text_col ''receiver'' True, numeric_col ''amount'' 20 9 True]"

text \<open>\<open>nft_sales\<close>, from the spec's record (no DDL in the repository).\<close>

definition nft_sales_schema :: "column list" where
  "nft_sales_schema =
     [text_col ''signature'' False, text_col ''buyer'' False, text_col ''seller'' False,
      numeric_col ''price_sol'' 20 9 False, text_col ''mint_address'' False,
      text_col ''collection'' False]"

definition empty_table :: "string \<Rightarrow> column list \<Rightarrow> table" where
  "empty_table n sch = \<lparr>tbl_name = n, tbl_schema = sch, tbl_rows = [], tbl_next_id = 1\<rparr>"

definition init_db :: db where
  "init_db =
     \<lparr>sol_transfers = empty_table ''sol_transfers'' sol_transfers_schema,
      nft_sales = empty_table ''nft_sales'' nft_sales_schema,
      token_transfers = empty_table ''token_transfers'' token_transfers_schema\<rparr>"

subsection \<open>Converting one value\<close>

text \<open>Rounding of \<open>numeric\<close>: half away from zero.\<close>

definition round_half_away :: "real \<Rightarrow> int" where
  "round_half_away x = (if 0 \<le> x then \<lfloor>x + 1 / 2\<rfloor> else - \<lfloor>- x + 1 / 2\<rfloor>)"

definition numeric_round :: "nat \<Rightarrow> real \<Rightarrow> real" where
  "numeric_round s x = of_int (round_half_away (x * 10 ^ s)) / 10 ^ s"

definition pg_quote :: "string \<Rightarrow> string" where
  "pg_quote s = CHR 0x22 # s @ [CHR 0x22]"

definition not_null_violation :: "string \<Rightarrow> string \<Rightarrow> string" where
  "not_null_violation t c =
     ''null value in column '' @ pg_quote c @ '' of relation '' @ pg_quote t @ '' violates not-null constraint''"

definition unknown_column :: "string \<Rightarrow> string \<Rightarrow> string" where
  "unknown_column t k =
     ''Could not find the '' @ js_quote k @ '' column of '' @ js_quote t @ '' in the schema cache''"

definition to_cell :: "coltype \<Rightarrow> jsval \<Rightarrow> cell js" where
  "to_cell ty v =
     (case ty of
        CText \<Rightarrow> Inr (Txt v)
      | CNumeric p s \<Rightarrow>
          (case v of
             JNumber (Num q) \<Rightarrow>
               (let r = numeric_round s q
                in if 10 ^ (p - s) \<le> \<bar>r\<bar> then Inl ''numeric field overflow'' else Inr (Dec r))
           | _ \<Rightarrow> Inl ''invalid input syntax for type numeric''))"

definition convert_column :: "string \<Rightarrow> column \<Rightarrow> jsval option \<Rightarrow> cell js" where
  "convert_column t c v =
     (case v of
        Some x \<Rightarrow> (if x = JNull
                   then (if col_notnull c then Inl (not_null_violation t (col_name c)) else Inr Null)
                   else to_cell (col_type c) x)
      | None \<Rightarrow> (if col_notnull c then Inl (not_null_violation t (col_name c)) else Inr Null))"

definition convert_row :: "string \<Rightarrow> column list \<Rightarrow> jsval \<Rightarrow> cell list js" where
  "convert_row t sch r =
     (case r of
        JObj kvs \<Rightarrow>
          (case find (\<lambda>k. k \<notin> set (map col_name sch)) (map fst kvs) of
             Some k \<Rightarrow> Inl (unknown_column t k)
           | None \<Rightarrow> js_map (\<lambda>c. convert_column t c (map_of kvs (col_name c))) sch)
      | _ \<Rightarrow> Inl ''All object keys must match'')"

subsection \<open>The insert statement\<close>

definition insert_rows_of :: "jsval \<Rightarrow> jsval list" where
  "insert_rows_of v = (case v of JArr xs \<Rightarrow> xs | _ \<Rightarrow> [v])"

definition table_insert :: "jsval list \<Rightarrow> table \<Rightarrow> table js" where
  "table_insert rows tb =
     (case js_map (\<lambda>r. convert_row (tbl_name tb) (tbl_schema tb) (json_clean r)) rows of
        Inl e \<Rightarrow> Inl e
      | Inr cs \<Rightarrow>
          Inr (tb\<lparr>tbl_rows := tbl_rows tb @ zip [tbl_next_id tb..<tbl_next_id tb + length cs] cs,
                  tbl_next_id := tbl_next_id tb + length cs\<rparr>))"

definition pg_insert :: "string \<Rightarrow> jsval \<Rightarrow> db \<Rightarrow> db js" where
  "pg_insert t v d =
     (if t = ''sol_transfers'' then
        map_sum id (\<lambda>tb. d\<lparr>sol_transfers := tb\<rparr>) (table_insert (insert_rows_of v) (sol_transfers d))
      else if t = ''nft_sales'' then
        map_sum id (\<lambda>tb. d\<lparr>nft_sales := tb\<rparr>) (table_insert (insert_rows_of v) (nft_sales d))
      else if t = ''token_transfers'' then
        map_sum id (\<lambda>tb. d\<lparr>token_transfers := tb\<rparr>) (table_insert (insert_rows_of v) (token_transfers d))
      else Inl (''relation '' @ pg_quote (''public.'' @ t) @ '' does not exist''))"

definition pg_sink :: "db sink" where
  "pg_sink t v d = (case pg_insert t v d of Inl m \<Rightarrow> (Some m, d) | Inr d' \<Rightarrow> (None, d'))"

subsection \<open>Well-formed tables\<close>

definition cell_ok :: "column \<Rightarrow> cell \<Rightarrow> bool" where
  "cell_ok c x =
     (case x of
        Null \<Rightarrow> \<not> col_notnull c
      | Txt v \<Rightarrow> col_type c = CText
      | Dec r \<Rightarrow> (case col_type c of
                   CNumeric p s \<Rightarrow> numeric_round s r = r \<and> \<bar>r\<bar> < 10 ^ (p - s)
                 | CText \<Rightarrow> False))"

definition row_ok :: "column list \<Rightarrow> cell list \<Rightarrow> bool" where
  "row_ok sch cs \<longleftrightarrow> list_all2 cell_ok sch cs"

definition table_wf :: "table \<Rightarrow> bool" where
  "table_wf tb \<longleftrightarrow>
     sorted_wrt (<) (map fst (tbl_rows tb))
     \<and> (\<forall>(i, cs) \<in> set (tbl_rows tb). i < tbl_next_id tb \<and> row_ok (tbl_schema tb) cs)"

definition db_wf :: "db \<Rightarrow> bool" where
  "db_wf d \<longleftrightarrow> table_wf (sol_transfers d) \<and> table_wf (nft_sales d) \<and> table_wf (token_transfers d)"

text \<open>The three tables carry the names and schemas of their DDL.\<close>

definition db_layout :: "db \<Rightarrow> bool" where
  "db_layout d \<longleftrightarrow>
     tbl_name (sol_transfers d) = ''sol_transfers'' \<and> tbl_schema (sol_transfers d) = sol_transfers_schema
     \<and> tbl_name (nft_sales d) = ''nft_sales'' \<and> tbl_schema (nft_sales d) = nft_sales_schema
     \<and> tbl_name (token_transfers d) = ''token_transfers'' \<and> tbl_schema (token_transfers d) = token_transfers_schema"

text \<open>The rows \<open>tb1\<close> gained over \<open>tb\<close> were appended once more in \<open>tb2\<close>.\<close>

definition table_repeats :: "table \<Rightarrow> table \<Rightarrow> table \<Rightarrow> bool" where
  "table_repeats tb tb1 tb2 \<longleftrightarrow>
     map snd (tbl_rows tb2) = map snd (tbl_rows tb1) @ drop (length (tbl_rows tb)) (map snd (tbl_rows tb1))"

subsection \<open>Lemmas\<close>

lemma round_half_away_int [simp]: "round_half_away (of_int k) = k"
  by (simp add: round_half_away_def)

lemma numeric_round_exact:
  assumes "x * 10 ^ s = of_int k"
  shows "numeric_round s x = x"
proof -
  have "x = of_int k / 10 ^ s" using assms by (simp add: field_simps)
  then show ?thesis by (simp add: numeric_round_def)
qed

lemma numeric_round_idem [simp]:
  "numeric_round s (numeric_round s x) = numeric_round s x"
  by (rule numeric_round_exact [of _ _ "round_half_away (x * 10 ^ s)"]) (simp add: numeric_round_def)

lemma to_cell_ok:
  "to_cell (col_type c) v = Inr x \<Longrightarrow> cell_ok c x"
  by (auto simp: to_cell_def cell_ok_def Let_def split: coltype.splits jsval.splits jsnum.splits if_splits)

lemma convert_column_ok:
  "convert_column t c v = Inr x \<Longrightarrow> cell_ok c x"
  using to_cell_ok [of c] by (auto simp: convert_column_def cell_ok_def split: option.splits if_splits)

lemma convert_row_ok:
  assumes "convert_row t sch r = Inr cs"
  shows "row_ok sch cs"
proof -
  obtain kvs where r: "r = JObj kvs"
    and m: "js_map (\<lambda>c. convert_column t c (map_of kvs (col_name c))) sch = Inr cs"
    using assms by (auto simp: convert_row_def split: jsval.splits option.splits)
  then have "length cs = length sch" by (simp add: js_map_Inr_length)
  moreover have "\<forall>i < length sch. cell_ok (sch ! i) (cs ! i)"
    using js_map_Inr_nth [OF m] convert_column_ok by blast
  ultimately show ?thesis by (simp add: row_ok_def list_all2_conv_all_nth)
qed

lemma table_insert_Inr:
  assumes "table_insert rows tb = Inr tb'"
  obtains cs where "js_map (\<lambda>r. convert_row (tbl_name tb) (tbl_schema tb) (json_clean r)) rows = Inr cs"
    and "tb' = tb\<lparr>tbl_rows := tbl_rows tb @ zip [tbl_next_id tb..<tbl_next_id tb + length cs] cs,
                  tbl_next_id := tbl_next_id tb + length cs\<rparr>"
  using assms by (auto simp: table_insert_def split: sum.splits)

lemma table_insert_wf:
  assumes "table_wf tb" and "table_insert rows tb = Inr tb'"
  shows "table_wf tb'"
proof -
  obtain cs where m: "js_map (\<lambda>r. convert_row (tbl_name tb) (tbl_schema tb) (json_clean r)) rows = Inr cs"
    and tb': "tb' = tb\<lparr>tbl_rows := tbl_rows tb @ zip [tbl_next_id tb..<tbl_next_id tb + length cs] cs,
                  tbl_next_id := tbl_next_id tb + length cs\<rparr>"
    using assms(2) by (rule table_insert_Inr)
  have ok: "\<forall>c \<in> set cs. row_ok (tbl_schema tb) c"
    using m by (rule js_map_Inr_all) (rule convert_row_ok)
  have ids: "map fst (zip [tbl_next_id tb..<tbl_next_id tb + length cs] cs) = [tbl_next_id tb..<tbl_next_id tb + length cs]"
    by simp
  have "sorted_wrt (<) (map fst (tbl_rows tb'))"
    using assms(1) unfolding tb' table_wf_def
    by (auto simp: sorted_wrt_append ids)
  moreover have "\<forall>(i, c) \<in> set (tbl_rows tb'). i < tbl_next_id tb' \<and> row_ok (tbl_schema tb') c"
    using assms(1) ok unfolding tb' table_wf_def
    by (fastforce dest: set_zip_leftD set_zip_rightD)
  ultimately show ?thesis by (simp add: table_wf_def)
qed

lemma table_insert_prefix:
  "table_insert rows tb = Inr tb' \<Longrightarrow> prefix (tbl_rows tb) (tbl_rows tb')
     \<and> tbl_name tb' = tbl_name tb \<and> tbl_schema tb' = tbl_schema tb"
  by (erule table_insert_Inr) simp

lemma table_insert_length:
  "table_insert rows tb = Inr tb' \<Longrightarrow> length (tbl_rows tb') = length (tbl_rows tb) + length rows"
  by (erule table_insert_Inr) (simp add: js_map_Inr_length)

lemma numeric_round_lower:
  assumes "b * 10 ^ s = of_int k" and "0 \<le> b" and "b \<le> x"
  shows "b \<le> numeric_round s x"
proof -
  have x0: "0 \<le> x * 10 ^ s" using assms(2,3) by simp
  have "of_int k \<le> x * 10 ^ s" using assms by (simp flip: assms(1))
  then have "k \<le> \<lfloor>x * 10 ^ s + 1 / 2\<rfloor>" by (simp add: le_floor_iff)
  then have "of_int k \<le> (of_int (round_half_away (x * 10 ^ s)) :: real)"
    using x0 by (simp add: round_half_away_def)
  then have "of_int k / 10 ^ s \<le> numeric_round s x"
    by (simp add: numeric_round_def divide_right_mono)
  moreover have "b = of_int k / 10 ^ s" using assms(1) by (simp add: field_simps)
  ultimately show ?thesis by simp
qed

lemma convert_row_nth:
  assumes "convert_row t sch (JObj kvs) = Inr c" and "i < length sch"
  shows "convert_column t (sch ! i) (map_of kvs (col_name (sch ! i))) = Inr (c ! i)"
proof -
  have "js_map (\<lambda>c. convert_column t c (map_of kvs (col_name c))) sch = Inr c"
    using assms(1) by (auto simp: convert_row_def split: option.splits)
  from js_map_Inr_nth [OF this assms(2)] show ?thesis .
qed

lemma table_insert_rows:
  assumes "table_insert rows tb = Inr tb'" and "(i, c) \<in> set (tbl_rows tb')"
  shows "(i, c) \<in> set (tbl_rows tb) \<or> (\<exists>r \<in> set rows. convert_row (tbl_name tb) (tbl_schema tb) (json_clean r) = Inr c)"
proof -
  obtain cs where m: "js_map (\<lambda>r. convert_row (tbl_name tb) (tbl_schema tb) (json_clean r)) rows = Inr cs"
    and tb': "tb' = tb\<lparr>tbl_rows := tbl_rows tb @ zip [tbl_next_id tb..<tbl_next_id tb + length cs] cs,
                  tbl_next_id := tbl_next_id tb + length cs\<rparr>"
    using assms(1) by (rule table_insert_Inr)
  from assms(2) tb' have "(i, c) \<in> set (tbl_rows tb) \<or> c \<in> set cs"
    by (auto dest: set_zip_rightD)
  with js_map_Inr_src [OF m] show ?thesis by blast
qed

lemma pg_insert_Inr:
  assumes "pg_insert t v d = Inr d'"
  shows "(t = ''sol_transfers'' \<and> (\<exists>tb. table_insert (insert_rows_of v) (sol_transfers d) = Inr tb \<and> d' = d\<lparr>sol_transfers := tb\<rparr>))
       \<or> (t = ''nft_sales'' \<and> (\<exists>tb. table_insert (insert_rows_of v) (nft_sales d) = Inr tb \<and> d' = d\<lparr>nft_sales := tb\<rparr>))
       \<or> (t = ''token_transfers'' \<and> (\<exists>tb. table_insert (insert_rows_of v) (token_transfers d) = Inr tb \<and> d' = d\<lparr>token_transfers := tb\<rparr>))"
  using assms by (auto simp: pg_insert_def map_sum_Inr_iff split: if_splits)

lemma pg_sink_cases:
  "pg_sink t v d = (r, d') \<Longrightarrow> (r \<noteq> None \<and> d' = d) \<or> (r = None \<and> pg_insert t v d = Inr d')"
  by (auto simp: pg_sink_def split: sum.splits)

lemma pg_sink_of_insert: "pg_insert t v d = Inr d' \<Longrightarrow> pg_sink t v d = (None, d')"
  by (simp add: pg_sink_def)

lemma convert_column_text [simp]:
  "convert_column t (text_col n nn) (Some (JStr x)) = Inr (Txt (JStr x))"
  by (simp add: convert_column_def text_col_def to_cell_def)

lemma col_name_simps [simp]:
  "col_name (text_col n nn) = n" "col_name (numeric_col n p s nn) = n"
  by (simp_all add: text_col_def numeric_col_def)

lemma table_insert_cells:
  assumes "js_map (\<lambda>r. convert_row (tbl_name tb) (tbl_schema tb) (json_clean r)) rows = Inr cs"
  shows "\<exists>tb'. table_insert rows tb = Inr tb' \<and> drop (length (tbl_rows tb)) (map snd (tbl_rows tb')) = cs
           \<and> tbl_name tb' = tbl_name tb \<and> tbl_schema tb' = tbl_schema tb"
  using assms by (simp add: table_insert_def)

lemma pg_sink_wf:
  assumes "db_wf d" and "pg_sink t v d = (r, d')"
  shows "db_wf d'"
  using pg_sink_cases [OF assms(2)]
proof
  assume "r \<noteq> None \<and> d' = d"
  with assms(1) show ?thesis by simp
next
  assume "r = None \<and> pg_insert t v d = Inr d'"
  then have "pg_insert t v d = Inr d'" by simp
  from pg_insert_Inr [OF this] assms(1) show ?thesis
    by (auto simp: db_wf_def dest: table_insert_wf)
qed

lemma pg_insert_sol_transfers:
  "pg_insert ''sol_transfers'' v d = Inr d' \<longleftrightarrow>
     (\<exists>tb. table_insert (insert_rows_of v) (sol_transfers d) = Inr tb \<and> d' = d\<lparr>sol_transfers := tb\<rparr>)"
  by (auto simp: pg_insert_def map_sum_Inr_iff)

lemma pg_insert_nft_sales:
  "pg_insert ''nft_sales'' v d = Inr d' \<longleftrightarrow>
     (\<exists>tb. table_insert (insert_rows_of v) (nft_sales d) = Inr tb \<and> d' = d\<lparr>nft_sales := tb\<rparr>)"
  by (auto simp: pg_insert_def map_sum_Inr_iff)

lemma pg_insert_token_transfers:
  "pg_insert ''token_transfers'' v d = Inr d' \<longleftrightarrow>
     (\<exists>tb. table_insert (insert_rows_of v) (token_transfers d) = Inr tb \<and> d' = d\<lparr>token_transfers := tb\<rparr>)"
  by (auto simp: pg_insert_def map_sum_Inr_iff)

lemma pg_sink_layout:
  assumes "db_layout d" and "pg_sink t v d = (r, d')"
  shows "db_layout d'"
  using pg_sink_cases [OF assms(2)]
proof
  assume "r = None \<and> pg_insert t v d = Inr d'"
  then have "pg_insert t v d = Inr d'" by simp
  from pg_insert_Inr [OF this] assms(1) show ?thesis
    by (auto simp: db_layout_def dest: table_insert_prefix)
qed (use assms(1) in auto)

lemma pg_sink_sol_rows:
  assumes "pg_sink t v d = (r, d')" and "(i, c) \<in> set (tbl_rows (sol_transfers d'))"
  shows "(i, c) \<in> set (tbl_rows (sol_transfers d))
       \<or> (t = ''sol_transfers'' \<and> (\<exists>x \<in> set (insert_rows_of v).
            convert_row (tbl_name (sol_transfers d)) (tbl_schema (sol_transfers d)) (json_clean x) = Inr c))"
  using pg_sink_cases [OF assms(1)]
proof
  assume "r = None \<and> pg_insert t v d = Inr d'"
  then have "pg_insert t v d = Inr d'" by simp
  from pg_insert_Inr [OF this] assms(2) show ?thesis
    by (auto dest: table_insert_rows)
qed (use assms(2) in auto)

lemma pg_sink_token_rows:
  assumes "pg_sink t v d = (r, d')" and "(i, c) \<in> set (tbl_rows (token_transfers d'))"
  shows "(i, c) \<in> set (tbl_rows (token_transfers d))
       \<or> (t = ''token_transfers'' \<and> (\<exists>x \<in> set (insert_rows_of v).
            convert_row (tbl_name (token_transfers d)) (tbl_schema (token_transfers d)) (json_clean x) = Inr c))"
  using pg_sink_cases [OF assms(1)]
proof
  assume "r = None \<and> pg_insert t v d = Inr d'"
  then have "pg_insert t v d = Inr d'" by simp
  from pg_insert_Inr [OF this] assms(2) show ?thesis
    by (auto dest: table_insert_rows)
qed (use assms(2) in auto)

lemma to_cell_numeric_20_9:
  assumes "d \<le> 9"
  shows "to_cell (CNumeric 20 9) (JNumber (Num (of_int a / 10 ^ d))) =
     (if \<bar>a\<bar> < 10 ^ (11 + d) then Inr (Dec (of_int a / 10 ^ d)) else Inl ''numeric field overflow'')"
proof -
  let ?x = "of_int a / 10 ^ d :: real"
  have e: "(10::real) ^ 9 = 10 ^ (9 - d) * 10 ^ d"
    using assms by (simp flip: power_add)
  have "?x * 10 ^ 9 = ?x * (10 ^ (9 - d) * 10 ^ d)"
    by (simp only: e)
  also have "\<dots> = of_int (a * 10 ^ (9 - d))"
    by simp
  finally have r: "numeric_round 9 ?x = ?x" by (rule numeric_round_exact)
  have "\<bar>?x\<bar> < 10 ^ 11 \<longleftrightarrow> of_int \<bar>a\<bar> < (10 ^ 11 * 10 ^ d :: real)"
    by (simp add: divide_less_eq abs_divide)
  also have "(10 ^ 11 * 10 ^ d :: real) = of_int (10 ^ (11 + d))"
    by (simp add: power_add)
  also have "of_int \<bar>a\<bar> < (of_int (10 ^ (11 + d)) :: real) \<longleftrightarrow> \<bar>a\<bar> < 10 ^ (11 + d)"
    by (rule of_int_less_iff)
  finally have b: "\<bar>?x\<bar> < 10 ^ 11 \<longleftrightarrow> \<bar>a\<bar> < 10 ^ (11 + d)" .
  show ?thesis
  proof (cases "\<bar>a\<bar> < 10 ^ (11 + d)")
    case True
    with b r show ?thesis by (simp add: to_cell_def Let_def)
  next
    case False
    with b have "\<not> \<bar>?x\<bar> < 10 ^ 11" by blast
    with False r show ?thesis by (simp add: to_cell_def Let_def)
  qed
qed

lemma to_cell_scaled:
  assumes "d \<le> 9" and "\<bar>a\<bar> < 10 ^ (11 + d)"
  shows "to_cell (CNumeric 20 9) (JNumber (Num (of_int a / 10 ^ d))) = Inr (Dec (of_int a / 10 ^ d))"
  using to_cell_numeric_20_9 [OF assms(1), of a] assms(2) by simp

end
