(* ===== verification/Delivery.thy ===== *)
theory Delivery
  imports Helius Store
begin

text \<open>
  What a well-formed delivery leaves in the database. A stored row is read back
  (\<open>read_sol_row\<close>, \<open>read_token_row\<close>, \<open>read_sale_row\<close>) as a record of the
  abstract specifications; the claims compose each handler's refinement for payloads that
  decode (theory \<open>Helius\<close>) with the insert of theory \<open>Store\<close>: within the NUMERIC(20,9)
  bound the insert is accepted and the new rows read back as exactly the records the
  specification promises, without rounding.
\<close>

fun cell_text :: "cell \<Rightarrow> string option" where
  "cell_text (Txt (JStr s)) = Some s"
| "cell_text _ = None"

fun cell_dec :: "cell \<Rightarrow> real option" where
  "cell_dec (Dec q) = Some q"
| "cell_dec _ = None"

definition read_sol_row :: "cell list \<Rightarrow> sol_record option" where
  "read_sol_row cs = (if length cs \<noteq> 4 then None else do {
     s \<leftarrow> cell_text (cs ! 0); f \<leftarrow> cell_text (cs ! 1); t \<leftarrow> cell_text (cs ! 2); q \<leftarrow> cell_dec (cs ! 3);
     Some (s, f, t, q) })"

definition read_token_row :: "cell list \<Rightarrow> token_record option" where
  "read_token_row cs = (if length cs \<noteq> 6 then None else do {
     s \<leftarrow> cell_text (cs ! 0); m \<leftarrow> cell_text (cs ! 1); y \<leftarrow> cell_text (cs ! 2);
     f \<leftarrow> cell_text (cs ! 3); t \<leftarrow> cell_text (cs ! 4); q \<leftarrow> cell_dec (cs ! 5);
     Some (s, m, y, f, t, q) })"

definition read_sale_row :: "cell list \<Rightarrow> sale_record option" where
  "read_sale_row cs = (if length cs \<noteq> 6 then None else do {
     s \<leftarrow> cell_text (cs ! 0); b \<leftarrow> cell_text (cs ! 1); sl \<leftarrow> cell_text (cs ! 2);
     p \<leftarrow> cell_dec (cs ! 3); m \<leftarrow> cell_text (cs ! 4); c \<leftarrow> cell_text (cs ! 5);
     Some (s, b, sl, p, m, c) })"

subsection \<open>Lemmas\<close>

lemma read_sol_row_cells [simp]:
  "read_sol_row [Txt (JStr s), Txt (JStr f), Txt (JStr t), Dec q] = Some (s, f, t, q)"
  by (simp add: read_sol_row_def)

lemma convert_sol_record:
  assumes "to_cell (CNumeric 20 9) (JNumber (Num q)) = Inr (Dec q)"
  shows "convert_row ''sol_transfers'' sol_transfers_schema (json_clean (enc_sol_record (s, f, t, q)))
           = Inr [Txt (JStr s), Txt (JStr f), Txt (JStr t), Dec q]"
proof -
  have "convert_column ''sol_transfers'' (numeric_col ''amount_sol'' 20 9 True) (Some (JNumber (Num q))) = Inr (Dec q)"
    using assms by (simp add: convert_column_def numeric_col_def)
  then show ?thesis
    by (simp add: convert_row_def sol_transfers_schema_def json_omitted_def)
qed

lemma convert_token_record:
  assumes "to_cell (CNumeric 20 9) (JNumber (Num q)) = Inr (Dec q)"
  shows "convert_row ''token_transfers'' token_transfers_schema (json_clean (enc_token_record (s, m, y, f, t, q)))
           = Inr [Txt (JStr s), Txt (JStr m), Txt (JStr y), Txt (JStr f), Txt (JStr t), Dec q]"
proof -
  have "convert_column ''token_transfers'' (numeric_col ''amount'' 20 9 True) (Some (JNumber (Num q))) = Inr (Dec q)"
    using assms by (simp add: convert_column_def numeric_col_def)
  then show ?thesis
    by (simp add: convert_row_def token_transfers_schema_def json_omitted_def)
qed

lemma convert_sale_record:
  assumes "to_cell (CNumeric 20 9) (JNumber (Num p)) = Inr (Dec p)"
  shows "convert_row ''nft_sales'' nft_sales_schema (json_clean (enc_sale_record (s, b, sl, p, m, c)))
           = Inr [Txt (JStr s), Txt (JStr b), Txt (JStr sl), Dec p, Txt (JStr m), Txt (JStr c)]"
proof -
  have "convert_column ''nft_sales'' (numeric_col ''price_sol'' 20 9 False) (Some (JNumber (Num p))) = Inr (Dec p)"
    using assms by (simp add: convert_column_def numeric_col_def)
  then show ?thesis
    by (simp add: convert_row_def nft_sales_schema_def json_omitted_def)
qed

lemma whale_spec_cells:
  assumes "\<forall>(f, t, a) \<in> set ts. \<bar>a\<bar> < 10 ^ 20"
  shows "\<exists>cs. js_map (\<lambda>r. convert_row ''sol_transfers'' sol_transfers_schema (json_clean r))
                 (map enc_sol_record (whale_spec sig ts)) = Inr cs
           \<and> map read_sol_row cs = map Some (whale_spec sig ts)"
  using assms
proof (induction sig ts rule: whale_spec.induct)
  case (2 sig f t a ts)
  have "to_cell (CNumeric 20 9) (JNumber (Num (of_int a / LAMPORTS_PER_SOL))) = Inr (Dec (of_int a / LAMPORTS_PER_SOL))"
    using to_cell_scaled [of 9 a] 2(3) by (simp add: LAMPORTS_PER_SOL_def)
  with 2 show ?case by (auto simp: convert_sol_record simp del: enc_sol_record.simps)
qed simp

lemma token_spec_Some:
  assumes "token_spec sig ts = Some r"
  obtains m f t a symb where "(m, f, t, a) \<in> set ts" and "r = (sig, m, symb, f, t, of_int a / 10 ^ 6)"
proof -
  from assms obtain m f t a symb dec where fd: "find (\<lambda>tr. fst tr \<in> fst ` set known_tokens) ts = Some (m, f, t, a)"
    and k: "map_of known_tokens m = Some (symb, dec)" and r: "r = (sig, m, symb, f, t, of_int a / 10 ^ dec)"
    by (auto simp: token_spec_def split: option.splits)
  from map_of_SomeD [OF k] have "dec = 6" by (auto simp: known_tokens_def)
  with fd r that show ?thesis by (auto dest: find_Some_props)
qed


text \<open>
  C7. A well-formed whale notification is stored: for every payload that conforms to
  \<open>HeliusNativeTransferPayload\<close> with at least one whale and amounts below 4 * 10^15
  lamports (4 million SOL), delivered to a database with the DDL's layout, the whale watcher
  answers 200 and the rows it appends to \<open>sol_transfers\<close> read back as exactly the
  abstract records \<open>whale_spec\<close>, in order. The bound is where the exact-real division
  of the model is what the program stores: a quotient \<open>a / 1e9\<close> below 2^22 is a double
  within 2^-32 of it, \<open>JSON.stringify\<close> prints a decimal within another 2^-32 of that
  double, and NUMERIC(20,9), rounding to nine decimals, recovers the quotient, a multiple of
  10^-9, since 2^-31 < 5 * 10^-10. Above the bound the program stores the double-rounded
  value (for instance 9000000.000000002 for 9000000000000001 lamports).
\<close>

theorem whale_delivery_stored:
  assumes "db_layout d" and "b \<noteq> []" and "parse b = Inr v" and "dec_whale_payload v = Some (sig, ts)"
    and "whale_spec sig ts \<noteq> []" and "\<forall>(f, t, a) \<in> set ts. \<bar>a\<bar> < 4 * 10 ^ 15"
  shows "\<exists>d'. whale_handler pg_sink parse b d = (Response ok_message 200, d')
           \<and> map read_sol_row (drop (length (tbl_rows (sol_transfers d))) (map snd (tbl_rows (sol_transfers d'))))
               = map Some (whale_spec sig ts)"
proof -
  have "\<forall>(f, t, a) \<in> set ts. \<bar>a\<bar> < 10 ^ 20" using assms(6) by fastforce
  then obtain cs where cs: "js_map (\<lambda>r. convert_row ''sol_transfers'' sol_transfers_schema (json_clean r))
                 (map enc_sol_record (whale_spec sig ts)) = Inr cs"
    and rd: "map read_sol_row cs = map Some (whale_spec sig ts)"
    using whale_spec_cells by blast
  from assms(1) cs obtain tb' where
    ti: "table_insert (map enc_sol_record (whale_spec sig ts)) (sol_transfers d) = Inr tb'"
    and new: "drop (length (tbl_rows (sol_transfers d))) (map snd (tbl_rows tb')) = cs"
    using table_insert_cells [of "sol_transfers d"] by (auto simp: db_layout_def)
  have "pg_sink ''sol_transfers'' (JArr (map enc_sol_record (whale_spec sig ts))) d = (None, d\<lparr>sol_transfers := tb'\<rparr>)"
    using ti by (simp add: pg_sink_def pg_insert_def insert_rows_of_def)
  with whale_handler_refines_decoded [where parse = parse and bodyText = b, OF assms(2,3,4), of pg_sink d] assms(5) new rd show ?thesis
    by simp
qed

text \<open>
  C8. A well-formed token notification with a known mint is stored: for a payload that
  conforms to \<open>HeliusTransferPayload\<close>, without mints named like members of
  \<open>Object.prototype\<close> and with raw amounts below 4 * 10^12 (4 million units of the
  six-decimal tokens), the handler answers 200 and appends to \<open>token_transfers\<close> one row
  that reads back as the record \<open>token_spec\<close>. As for C7, the quotient \<open>a / 10^6\<close> is
  then below 2^22, and the double the program computes, printed and rounded by
  NUMERIC(20,9), is the exact quotient.
\<close>

theorem token_delivery_stored:
  assumes "db_layout d" and "parse b = Inr v" and "dec_token_payload v = Some (sig, ts)" and "ts \<noteq> []"
    and "\<forall>x \<in> set ts. fst x \<notin> set object_proto_keys" and "token_spec sig ts = Some r"
    and "\<forall>(m, f, t, a) \<in> set ts. \<bar>a\<bar> < 4 * 10 ^ 12"
  shows "\<exists>d'. token_handler pg_sink parse b d = (Response ok_message 200, d')
           \<and> map read_token_row (drop (length (tbl_rows (token_transfers d))) (map snd (tbl_rows (token_transfers d'))))
               = [Some r]"
proof -
  obtain m f t a symb where mem: "(m, f, t, a) \<in> set ts" and r: "r = (sig, m, symb, f, t, of_int a / 10 ^ 6)"
    using assms(6) by (rule token_spec_Some)
  have "to_cell (CNumeric 20 9) (JNumber (Num (of_int a / 10 ^ 6))) = Inr (Dec (of_int a / 10 ^ 6))"
    using to_cell_scaled [of 6 a] assms(7) mem by fastforce
  then have cv: "convert_row ''token_transfers'' token_transfers_schema (json_clean (enc_token_record r))
      = Inr [Txt (JStr sig), Txt (JStr m), Txt (JStr symb), Txt (JStr f), Txt (JStr t), Dec (of_int a / 10 ^ 6)]"
    unfolding r by (rule convert_token_record)
  from assms(1) cv obtain tb' where
    ti: "table_insert [enc_token_record r] (token_transfers d) = Inr tb'"
    and new: "drop (length (tbl_rows (token_transfers d))) (map snd (tbl_rows tb'))
       = [[Txt (JStr sig), Txt (JStr m), Txt (JStr symb), Txt (JStr f), Txt (JStr t), Dec (of_int a / 10 ^ 6)]]"
    using table_insert_cells [of "token_transfers d" "[enc_token_record r]"] by (auto simp: db_layout_def)
  have "pg_sink ''token_transfers'' (enc_token_record r) d = (None, d\<lparr>token_transfers := tb'\<rparr>)"
    using ti r by (simp add: pg_sink_def pg_insert_def insert_rows_of_def)
  with token_handler_refines_decoded [where parse = parse and body = b, OF assms(2-5), of pg_sink d]
    assms(6) new r show ?thesis
    by (simp add: read_token_row_def)
qed

text \<open>
  C9. A well-formed sale notification is stored: for a payload that conforms to
  \<open>HeliusSalePayload\<close> with a signature, at least one NFT and a price below 4 * 10^15
  lamports, the handler answers 200 and appends to \<open>nft_sales\<close> one row that reads back
  as the record \<open>sale_spec\<close>; the bound is the one of C7, for \<open>amount / 1_000_000_000\<close>.
\<close>

theorem sale_delivery_stored:
  assumes "db_layout d" and "parse b = Inr v" and "dec_sale_payload v = Some e"
    and "sale_sig e \<noteq> []" and "sale_mints e \<noteq> []" and "\<bar>sale_amount e\<bar> < 4 * 10 ^ 15"
  shows "\<exists>d'. sale_handler pg_sink parse b d = (Response ok_message 200, d')
           \<and> map read_sale_row (drop (length (tbl_rows (nft_sales d))) (map snd (tbl_rows (nft_sales d'))))
               = [Some (sale_spec e)]"
proof -
  obtain s bu sl p m c where r: "sale_spec e = (s, bu, sl, p, m, c)" by (cases "sale_spec e")
  have p: "p = of_int (sale_amount e) / 10 ^ 9" using r by (simp add: sale_spec_def)
  have "to_cell (CNumeric 20 9) (JNumber (Num p)) = Inr (Dec p)"
    using to_cell_scaled [of 9 "sale_amount e"] assms(6) unfolding p by fastforce
  then have cv: "convert_row ''nft_sales'' nft_sales_schema (json_clean (enc_sale_record (sale_spec e)))
      = Inr [Txt (JStr s), Txt (JStr bu), Txt (JStr sl), Dec p, Txt (JStr m), Txt (JStr c)]"
    unfolding r by (rule convert_sale_record)
  from assms(1) cv obtain tb' where
    ti: "table_insert [enc_sale_record (sale_spec e)] (nft_sales d) = Inr tb'"
    and new: "drop (length (tbl_rows (nft_sales d))) (map snd (tbl_rows tb'))
       = [[Txt (JStr s), Txt (JStr bu), Txt (JStr sl), Dec p, Txt (JStr m), Txt (JStr c)]]"
    using table_insert_cells [of "nft_sales d" "[enc_sale_record (sale_spec e)]"] by (auto simp: db_layout_def)
  have "pg_sink ''nft_sales'' (enc_sale_record (sale_spec e)) d = (None, d\<lparr>nft_sales := tb'\<rparr>)"
    using ti r by (simp add: pg_sink_def pg_insert_def insert_rows_of_def)
  with sale_handler_refines_decoded [where parse = parse and body = b, OF assms(2-5), of pg_sink d]
    new r show ?thesis
    by (simp add: read_sale_row_def)
qed

theorem whale_delivery_stored_witness:
  "\<exists>d'. whale_handler pg_sink (\<lambda>_. Inr (enc_whale_payload ''s1'' [(''A'', ''B'', 2000000000000), (''C'', ''D'', 5)])) ''x'' init_db
          = (Response ok_message 200, d')
     \<and> map read_sol_row (drop (length (tbl_rows (sol_transfers init_db))) (map snd (tbl_rows (sol_transfers d'))))
         = [Some (''s1'', ''A'', ''B'', 2000)]"
proof -
  let ?ts = "[(''A'', ''B'', 2000000000000), (''C'', ''D'', 5)] :: native_transfer list"
  have "db_layout init_db" "''x'' \<noteq> []"
    "(\<lambda>_. Inr (enc_whale_payload ''s1'' ?ts)) ''x'' = Inr (enc_whale_payload ''s1'' ?ts)"
    "dec_whale_payload (enc_whale_payload ''s1'' ?ts) = Some (''s1'', ?ts)"
    "whale_spec ''s1'' ?ts \<noteq> []" "\<forall>(f, t, a) \<in> set ?ts. \<bar>a\<bar> < 4 * 10 ^ 15"
    by (simp_all add: db_layout_def init_db_def empty_table_def dec_whale_payload_def
        enc_whale_payload_def first_notification_def dec_native_transfer_def str_field_def
        int_field_def arr_field_def own_field_def WHALE_THRESHOLD_SOL_def LAMPORTS_PER_SOL_def)
  from whale_delivery_stored [where parse = "\<lambda>_. Inr (enc_whale_payload ''s1'' ?ts)" and b = "''x''", OF this]
  show ?thesis by (simp add: WHALE_THRESHOLD_SOL_def LAMPORTS_PER_SOL_def)
qed

theorem token_delivery_stored_witness:
  "\<exists>d'. token_handler pg_sink (\<lambda>_. Inr (enc_token_payload ''s2''
            [(''EPjFWdd5AufqSSqeM2qN1xzybapC8G4wEGGkZwyTDt1v'', ''A'', ''B'', 2500000)])) ''x'' init_db
          = (Response ok_message 200, d')
     \<and> map read_token_row (drop (length (tbl_rows (token_transfers init_db))) (map snd (tbl_rows (token_transfers d'))))
         = [Some (''s2'', ''EPjFWdd5AufqSSqeM2qN1xzybapC8G4wEGGkZwyTDt1v'', ''USDC'', ''A'', ''B'', 5 / 2)]"
proof -
  let ?ts = "[(''EPjFWdd5AufqSSqeM2qN1xzybapC8G4wEGGkZwyTDt1v'', ''A'', ''B'', 2500000)] :: token_transfer list"
  have "db_layout init_db"
    "(\<lambda>_. Inr (enc_token_payload ''s2'' ?ts)) ''x'' = Inr (enc_token_payload ''s2'' ?ts)"
    "dec_token_payload (enc_token_payload ''s2'' ?ts) = Some (''s2'', ?ts)" "?ts \<noteq> []"
    "\<forall>x \<in> set ?ts. fst x \<notin> set object_proto_keys"
    "token_spec ''s2'' ?ts = Some (''s2'', ''EPjFWdd5AufqSSqeM2qN1xzybapC8G4wEGGkZwyTDt1v'', ''USDC'', ''A'', ''B'', 5 / 2)"
    "\<forall>(m, f, t, a) \<in> set ?ts. \<bar>a\<bar> < 4 * 10 ^ 12"
    by (simp_all add: db_layout_def init_db_def empty_table_def dec_token_payload_def
        enc_token_payload_def first_notification_def dec_token_transfer_def str_field_def
        int_field_def arr_field_def own_field_def object_proto_keys_def token_spec_def known_tokens_def)
  from token_delivery_stored [where parse = "\<lambda>_. Inr (enc_token_payload ''s2'' ?ts)" and b = "''x''", OF this]
  show ?thesis .
qed

theorem sale_delivery_stored_witness:
  "\<exists>d'. sale_handler pg_sink (\<lambda>_. Inr (enc_sale_payload \<lparr>sale_sig = ''s3'', sale_seller = ''S'', sale_buyer = ''B'',
            sale_amount = 3000000000, sale_mints = [''M1''], sale_coll = None\<rparr>)) ''x'' init_db
          = (Response ok_message 200, d')
     \<and> map read_sale_row (drop (length (tbl_rows (nft_sales init_db))) (map snd (tbl_rows (nft_sales d'))))
         = [Some (''s3'', ''B'', ''S'', 3, ''M1'', ''Unknown'')]"
proof -
  let ?e = "\<lparr>sale_sig = ''s3'', sale_seller = ''S'', sale_buyer = ''B'',
            sale_amount = 3000000000, sale_mints = [''M1''], sale_coll = None\<rparr>"
  have "db_layout init_db" "(\<lambda>_. Inr (enc_sale_payload ?e)) ''x'' = Inr (enc_sale_payload ?e)"
    "dec_sale_payload (enc_sale_payload ?e) = Some ?e" "sale_sig ?e \<noteq> []" "sale_mints ?e \<noteq> []"
    "\<bar>sale_amount ?e\<bar> < 4 * 10 ^ 15"
    by (simp_all add: db_layout_def init_db_def empty_table_def dec_sale_payload_def
        enc_sale_payload_def first_notification_def opt_str_field_def str_field_def
        int_field_def arr_field_def own_field_def)
  from sale_delivery_stored [where parse = "\<lambda>_. Inr (enc_sale_payload ?e)" and b = "''x''", OF this]
  show ?thesis by (simp add: sale_spec_def)
qed

end
