(* ===== verification/Json.thy ===== *)
theory Json
  imports JsValue
begin

text \<open>
  \<open>JSON.parse\<close>, which the whale watcher calls on the body text and which \<open>req.json()\<close>
  calls in the two other handlers, as a parser of RFC 8259 JSON text into the values of
  theory \<open>JsValue\<close>. It departs from V8 where the value model does:
  \<^item> the body is a byte string, read as UTF-8: raw bytes pass into strings unchanged, and
    an escape \<open>\u\<close> is stored as the UTF-8 encoding of its code point (a surrogate pair
    as one supplementary code point, a lone surrogate as its three-byte form), so that
    equal JavaScript strings are equal byte strings;
  \<^item> numbers are exact reals, not IEEE doubles: no rounding, no overflow to
    \<open>Infinity\<close>, no \<open>-0\<close>;
  \<^item> a repeated key keeps its first position and takes the last value, as
    \<open>CreateDataProperty\<close> does (\<open>AList.update\<close>); integer-like keys are not moved to
    the front (no handler depends on key order);
  \<^item> the message of a \<open>SyntaxError\<close> is V8's \<open>"Unexpected end of JSON input"\<close> when
    the text ends too early and names the offending character otherwise.

  The parser is structurally recursive on a fuel argument. The lemmas show that every
  successful step consumes input, that \<open>2 * length s + 1\<close> units of fuel always suffice
  (so \<open>json_parse\<close> is total and never reports lack of fuel), and that what it returns is
  a JSON value: finite numbers, no \<open>undefined\<close> or functions, objects without repeated
  keys.
\<close>

subsection \<open>Lexical level\<close>

definition json_ws :: "char \<Rightarrow> bool" where
  "json_ws c \<longleftrightarrow> c \<in> set [CHR '' '', CHR 0x09, CHR 0x0A, CHR 0x0D]"

definition skip_ws :: "string \<Rightarrow> string" where
  "skip_ws s = dropWhile json_ws s"

definition eoi_error :: string where
  "eoi_error = ''Unexpected end of JSON input''"

definition token_error :: "char \<Rightarrow> string" where
  "token_error c = ''Unexpected token '' @ js_quote [c] @ '' in JSON''"

text \<open>The error reported when parsing stops in front of \<open>r\<close>.\<close>

definition syntax_error :: "string \<Rightarrow> string" where
  "syntax_error r = (case r of [] \<Rightarrow> eoi_error | c # _ \<Rightarrow> token_error c)"

text \<open>A keyword \<open>true\<close>, \<open>false\<close>, \<open>null\<close> whose first letter has been read.\<close>

definition p_literal :: "string \<Rightarrow> jsval \<Rightarrow> string \<Rightarrow> (jsval \<times> string) js" where
  "p_literal w v r =
     (if take (length w) r = w then Inr (v, drop (length w) r)
      else Inl (syntax_error (drop (length (takeWhile (\<lambda>(a, b). a = b) (zip w r))) r)))"

subsection \<open>Numbers\<close>

text \<open>\<open>int = zero / (digit1-9 *DIGIT)\<close>\<close>

definition lex_int :: "string \<Rightarrow> (string \<times> string) js" where
  "lex_int s =
     (case s of
        [] \<Rightarrow> Inl eoi_error
      | c # r \<Rightarrow> (if c = CHR ''0'' then Inr (''0'', r)
                 else if is_digit c then Inr (takeWhile is_digit s, dropWhile is_digit s)
                 else Inl (token_error c)))"

text \<open>\<open>[ frac ]\<close> with \<open>frac = "." 1*DIGIT\<close>\<close>

definition lex_frac :: "string \<Rightarrow> (string \<times> string) js" where
  "lex_frac s =
     (case s of
        c # r \<Rightarrow> (if c = CHR ''.'' then
                   (if takeWhile is_digit r = [] then Inl (syntax_error r)
                    else Inr (takeWhile is_digit r, dropWhile is_digit r))
                 else Inr ([], s))
      | [] \<Rightarrow> Inr ([], []))"

text \<open>\<open>[ exp ]\<close> with \<open>exp = ("e" / "E") [ "-" / "+" ] 1*DIGIT\<close>\<close>

definition lex_exp :: "string \<Rightarrow> (int \<times> string) js" where
  "lex_exp s =
     (case s of
        c # r \<Rightarrow>
          (if c = CHR ''e'' \<or> c = CHR ''E'' then
             (let (neg, ds) = (case r of
                                 d # r' \<Rightarrow> (if d = CHR ''-'' then (True, r')
                                            else if d = CHR ''+'' then (False, r') else (False, r))
                               | [] \<Rightarrow> (False, r))
              in if takeWhile is_digit ds = [] then Inl (syntax_error ds)
                 else Inr ((if neg then - int (digits_value 0 (takeWhile is_digit ds))
                            else int (digits_value 0 (takeWhile is_digit ds))),
                           dropWhile is_digit ds))
           else Inr (0, s))
      | [] \<Rightarrow> Inr (0, []))"

text \<open>\<open>number = [ minus ] int [ frac ] [ exp ]\<close>\<close>

definition p_number :: "string \<Rightarrow> (jsval \<times> string) js" where
  "p_number s =
     (let (neg, s1) = (case s of c # r \<Rightarrow> (if c = CHR ''-'' then (True, r) else (False, s))
                               | [] \<Rightarrow> (False, s))
      in (case lex_int s1 of
            Inl e \<Rightarrow> Inl e
          | Inr (ip, r1) \<Rightarrow>
              (case lex_frac r1 of
                 Inl e \<Rightarrow> Inl e
               | Inr (fp, r2) \<Rightarrow>
                   (case lex_exp r2 of
                      Inl e \<Rightarrow> Inl e
                    | Inr (ex, r3) \<Rightarrow>
                        Inr (JNumber (Num ((if neg then -1 else 1) * decimal_value ip fp ex)), r3)))))"

subsection \<open>Strings\<close>

definition simple_escape :: "char \<Rightarrow> char option" where
  "simple_escape e =
     map_of [(CHR 0x22, CHR 0x22), (CHR 0x5C, CHR 0x5C), (CHR ''/'', CHR ''/''),
             (CHR ''b'', CHR 0x08), (CHR ''f'', CHR 0x0C), (CHR ''n'', CHR 0x0A),
             (CHR ''r'', CHR 0x0D), (CHR ''t'', CHR 0x09)] e"

definition hex_value :: "char \<Rightarrow> nat option" where
  "hex_value c =
     (let n = (of_char c :: nat) in
      if 48 \<le> n \<and> n \<le> 57 then Some (n - 48)
      else if 65 \<le> n \<and> n \<le> 70 then Some (n - 55)
      else if 97 \<le> n \<and> n \<le> 102 then Some (n - 87)
      else None)"

definition hex4 :: "string \<Rightarrow> nat option" where
  "hex4 s =
     (if length s = 4
      then foldl (\<lambda>acc c. case acc of None \<Rightarrow> None
                                    | Some a \<Rightarrow> map_option (\<lambda>h. 16 * a + h) (hex_value c)) (Some 0) s
      else None)"

text \<open>UTF-8 (generalised to surrogates) of a code point below \<open>0x110000\<close>.\<close>

definition utf8 :: "nat \<Rightarrow> string" where
  "utf8 cp =
     (if cp < 0x80 then [char_of cp]
      else if cp < 0x800 then [char_of (0xC0 + cp div 64), char_of (0x80 + cp mod 64)]
      else if cp < 0x10000 then
        [char_of (0xE0 + cp div 4096), char_of (0x80 + (cp div 64) mod 64), char_of (0x80 + cp mod 64)]
      else [char_of (0xF0 + cp div 262144), char_of (0x80 + (cp div 4096) mod 64),
            char_of (0x80 + (cp div 64) mod 64), char_of (0x80 + cp mod 64)])"

text \<open>A low surrogate escape right after the high surrogate \<open>u\<close>.\<close>

definition low_surrogate_after :: "nat \<Rightarrow> string \<Rightarrow> nat option" where
  "low_surrogate_after u r =
     (if 0xD800 \<le> u \<and> u < 0xDC00 \<and> take 2 r = [CHR 0x5C, CHR ''u''] then
        (case hex4 (take 4 (drop 2 r)) of
           Some l \<Rightarrow> (if 0xDC00 \<le> l \<and> l < 0xE000 then Some l else None)
         | None \<Rightarrow> None)
      else None)"

text \<open>The characters of a string literal after its opening quote, accumulated in reverse.\<close>

function p_string :: "string \<Rightarrow> string \<Rightarrow> (string \<times> string) js" where
  "p_string acc [] = Inl eoi_error"
| "p_string acc (c # cs) =
     (if c = CHR 0x22 then Inr (rev acc, cs)
      else if c = CHR 0x5C then
        (case cs of
           [] \<Rightarrow> Inl eoi_error
         | e # r \<Rightarrow>
             (case simple_escape e of
                Some d \<Rightarrow> p_string (d # acc) r
              | None \<Rightarrow>
                  (if e \<noteq> CHR ''u'' then Inl (token_error e)
                   else (case hex4 (take 4 r) of
                           None \<Rightarrow> Inl (syntax_error (drop 4 r))
                         | Some u \<Rightarrow>
                             (case low_surrogate_after u (drop 4 r) of
                                Some l \<Rightarrow> p_string (rev (utf8 (0x10000 + (u - 0xD800) * 1024 + (l - 0xDC00))) @ acc)
                                                   (drop 10 r)
                              | None \<Rightarrow> p_string (rev (utf8 u) @ acc) (drop 4 r))))))
      else if (of_char c :: nat) < 32 then Inl (token_error c)
      else p_string (c # acc) cs)"
  by pat_completeness auto
termination by (relation "measure (\<lambda>(acc, s). length s)") auto

subsection \<open>Values\<close>

text \<open>
  \<open>p_value\<close> reads one value after optional white space; \<open>p_elems\<close> reads the elements
  of an array from its first one on, \<open>p_members\<close> the members of an object from its first
  key on. Each call spends one unit of fuel; \<open>None\<close> is running out of it.
\<close>

fun p_value :: "nat \<Rightarrow> string \<Rightarrow> (jsval \<times> string) js option"
and p_elems :: "nat \<Rightarrow> jsval list \<Rightarrow> string \<Rightarrow> (jsval \<times> string) js option"
and p_members :: "nat \<Rightarrow> (string \<times> jsval) list \<Rightarrow> string \<Rightarrow> (jsval \<times> string) js option" where
  "p_value 0 s = None"
| "p_value (Suc n) s =
     (case skip_ws s of
        [] \<Rightarrow> Some (Inl eoi_error)
      | c # r \<Rightarrow>
          (if c = CHR ''{'' then
             (case skip_ws r of
                [] \<Rightarrow> Some (Inl eoi_error)
              | d # r' \<Rightarrow> (if d = CHR ''}'' then Some (Inr (JObj [], r')) else p_members n [] r))
           else if c = CHR ''['' then
             (case skip_ws r of
                [] \<Rightarrow> Some (Inl eoi_error)
              | d # r' \<Rightarrow> (if d = CHR '']'' then Some (Inr (JArr [], r')) else p_elems n [] r))
           else if c = CHR 0x22 then
             Some (case p_string [] r of Inl e \<Rightarrow> Inl e | Inr (str, r') \<Rightarrow> Inr (JStr str, r'))
           else if c = CHR ''t'' then Some (p_literal ''rue'' (JBool True) r)
           else if c = CHR ''f'' then Some (p_literal ''alse'' (JBool False) r)
           else if c = CHR ''n'' then Some (p_literal ''ull'' JNull r)
           else if c = CHR ''-'' \<or> is_digit c then Some (p_number (c # r))
           else Some (Inl (token_error c))))"
| "p_elems 0 acc s = None"
| "p_elems (Suc n) acc s =
     (case p_value n s of
        None \<Rightarrow> None
      | Some (Inl e) \<Rightarrow> Some (Inl e)
      | Some (Inr (v, r)) \<Rightarrow>
          (case skip_ws r of
             [] \<Rightarrow> Some (Inl eoi_error)
           | d # r' \<Rightarrow>
               (if d = CHR '','' then p_elems n (acc @ [v]) r'
                else if d = CHR '']'' then Some (Inr (JArr (acc @ [v]), r'))
                else Some (Inl (token_error d)))))"
| "p_members 0 acc s = None"
| "p_members (Suc n) acc s =
     (case skip_ws s of
        [] \<Rightarrow> Some (Inl eoi_error)
      | c # r \<Rightarrow>
          (if c \<noteq> CHR 0x22 then Some (Inl (token_error c))
           else (case p_string [] r of
                   Inl e \<Rightarrow> Some (Inl e)
                 | Inr (k, r1) \<Rightarrow>
                     (case skip_ws r1 of
                        [] \<Rightarrow> Some (Inl eoi_error)
                      | d # r2 \<Rightarrow>
                          (if d \<noteq> CHR '':'' then Some (Inl (token_error d))
                           else (case p_value n r2 of
                                   None \<Rightarrow> None
                                 | Some (Inl e) \<Rightarrow> Some (Inl e)
                                 | Some (Inr (v, r3)) \<Rightarrow>
                                     (case skip_ws r3 of
                                        [] \<Rightarrow> Some (Inl eoi_error)
                                      | e # r4 \<Rightarrow>
                                          (if e = CHR '','' then p_members n (AList.update k v acc) r4
                                           else if e = CHR ''}'' then Some (Inr (JObj (AList.update k v acc), r4))
                                           else Some (Inl (token_error e))))))))))"

text \<open>
  \<open>JSON.parse(text)\<close>: one value, then only white space. \<open>json_parse_fuel n\<close> is the
  parse with \<open>n\<close> units of fuel (running out is reported as the end of the input);
  \<open>json_parse\<close> supplies \<open>2 * length s + 1\<close> units, which is enough
  (\<open>p_value_fuel_enough\<close>), so the branch \<open>None\<close> is never taken.
\<close>

definition json_parse_fuel :: "nat \<Rightarrow> string \<Rightarrow> jsval js" where
  "json_parse_fuel n s =
     (case p_value n s of
        None \<Rightarrow> Inl eoi_error
      | Some (Inl e) \<Rightarrow> Inl e
      | Some (Inr (v, r)) \<Rightarrow> (if skip_ws r = [] then Inr v else Inl (syntax_error (skip_ws r))))"

definition json_parse :: "string \<Rightarrow> jsval js" where
  "json_parse s = json_parse_fuel (2 * length s + 1) s"

subsection \<open>JSON values\<close>

text \<open>What \<open>JSON.parse\<close> can return: finite numbers, no \<open>undefined\<close> or functions, objects without repeated keys.\<close>

fun json_value :: "jsval \<Rightarrow> bool"
and json_values :: "jsval list \<Rightarrow> bool"
and json_members :: "(string \<times> jsval) list \<Rightarrow> bool" where
  "json_value JUndef = False"
| "json_value JNull = True"
| "json_value (JBool b) = True"
| "json_value (JNumber n) = (case n of Num q \<Rightarrow> True | _ \<Rightarrow> False)"
| "json_value (JStr s) = True"
| "json_value (JArr xs) = json_values xs"
| "json_value (JObj kvs) = (distinct (map fst kvs) \<and> json_members kvs)"
| "json_value (JBuiltin n) = False"
| "json_values [] = True"
| "json_values (x # xs) = (json_value x \<and> json_values xs)"
| "json_members [] = True"
| "json_members (kv # kvs) = (json_value (snd kv) \<and> json_members kvs)"


subsection \<open>Consumption, fuel and the shape of the result\<close>

lemma skip_ws_length: "length (skip_ws s) \<le> length s"
  by (simp add: skip_ws_def length_dropWhile_le)

lemma skip_ws_Cons_length: "skip_ws s = c # r \<Longrightarrow> length r < length s"
  using skip_ws_length [of s] by simp

lemma lex_int_consumes: "lex_int s = Inr (ip, r) \<Longrightarrow> length r < length s"
  by (auto simp: lex_int_def length_dropWhile_le le_imp_less_Suc split: list.splits if_splits)

lemma lex_frac_consumes: "lex_frac s = Inr (fp, r) \<Longrightarrow> length r \<le> length s"
  by (auto simp: lex_frac_def length_dropWhile_le le_SucI split: list.splits if_splits)

lemma dropWhile_le_trans: "length xs \<le> n \<Longrightarrow> length (dropWhile P xs) \<le> n"
  using length_dropWhile_le order.trans by blast

lemma lex_exp_consumes:
  assumes "lex_exp s = Inr (e, r)" shows "length r \<le> length s"
proof (cases s)
  case (Cons c t)
  show ?thesis using Cons assms
    by (auto simp: lex_exp_def Let_def intro: le_SucI dropWhile_le_trans split: list.splits if_splits)
qed (use assms in \<open>simp add: lex_exp_def\<close>)

lemma length_drop_le: "length (drop n xs) \<le> length xs"
  by simp

lemma p_string_consumes: "p_string acc s = Inr (x, r) \<Longrightarrow> length r < length s"
proof (induction acc s rule: p_string.induct)
  case (1 acc)
  then show ?case by simp
next
  case (2 acc c cs)
  show ?case
  proof (cases "c = CHR 0x22 \<or> c \<noteq> CHR 0x5C")
    case True
    with "2.prems" "2.IH"(4) show ?thesis by (auto split: if_splits)
  next
    case False
    then obtain e t where cs: "cs = e # t" and bs: "c = CHR 0x5C"
      using "2.prems" by (cases cs) auto
    show ?thesis
      using "2.prems" "2.IH"(1-3) [OF _ bs cs] bs cs
      by (auto split: option.splits if_splits dest!: less_le_trans [OF _ length_drop_le]) fastforce
  qed
qed
lemma p_number_consumes: "p_number s = Inr (v, r) \<Longrightarrow> length r < length s"
  by (fastforce simp: p_number_def dest!: lex_int_consumes lex_frac_consumes lex_exp_consumes
                split: list.splits if_splits sum.splits prod.splits)

lemma p_literal_result: "p_literal w v s = Inr (v', r) \<Longrightarrow> length r \<le> length s \<and> v' = v"
  by (auto simp: p_literal_def split: if_splits)

lemma p_number_Num: "p_number s = Inr (v, r) \<Longrightarrow> json_value v"
  by (auto simp: p_number_def split: list.splits if_splits sum.splits prod.splits)

lemma p_number_result: "p_number s = Inr (v, r) \<Longrightarrow> length r < length s \<and> json_value v"
  by (simp add: p_number_consumes p_number_Num)

lemma json_values_append [simp]: "json_values (xs @ ys) \<longleftrightarrow> json_values xs \<and> json_values ys"
  by (induction xs) auto

lemma json_members_update:
  "json_value v \<Longrightarrow> json_members kvs \<Longrightarrow> json_members (AList.update k v kvs)"
  by (induction kvs) auto

lemma p_value_result:
  "p_value n s = Some (Inr (v, r)) \<Longrightarrow> length r < length s \<and> json_value v"
  "p_elems n acc s = Some (Inr (v, r)) \<Longrightarrow>
     length r < length s \<and> (json_values acc \<longrightarrow> json_value v)"
  "p_members n kvs s = Some (Inr (v, r)) \<Longrightarrow>
     length r < length s \<and> (distinct (map fst kvs) \<and> json_members kvs \<longrightarrow> json_value v)"
proof (induction n s and n acc s and n kvs s arbitrary: v r and v r and v r
       rule: p_value_p_elems_p_members.induct)
  case (2 n s)
  then obtain c t where sw: "skip_ws s = c # t" by (cases "skip_ws s") auto
  have lt: "length t < length s" using sw by (rule skip_ws_Cons_length)
  have lt2: "length t' < length s" if "skip_ws t = d # t'" for d t'
    using skip_ws_Cons_length [OF that] lt by simp
  show ?case
  proof (cases "c = CHR ''{'' \<or> c = CHR ''[''")
    case True
    then consider (obj) "c = CHR ''{''" | (arr) "c = CHR ''[''" "c \<noteq> CHR ''{''" by blast
    then show ?thesis
    proof cases
      case obj
      then obtain d t' where sw2: "skip_ws t = d # t'"
        using "2.prems" sw by (cases "skip_ws t") auto
      show ?thesis
      proof (cases "d = CHR ''}''")
        case True
        with "2.prems" sw sw2 obj lt2 show ?thesis by auto
      next
        case False
        with "2.prems" sw sw2 obj have "p_members n [] t = Some (Inr (v, r))" by simp
        with "2.IH" sw sw2 obj False lt show ?thesis by fastforce
      qed
    next
      case arr
      then obtain d t' where sw2: "skip_ws t = d # t'"
        using "2.prems" sw by (cases "skip_ws t") auto
      show ?thesis
      proof (cases "d = CHR '']''")
        case True
        with "2.prems" sw sw2 arr lt2 show ?thesis by auto
      next
        case False
        with "2.prems" sw sw2 arr have "p_elems n [] t = Some (Inr (v, r))" by simp
        with "2.IH" sw sw2 arr False lt show ?thesis by fastforce
      qed
    qed
  next
    case False
    then have "(if c = CHR 0x22 then
             Some (case p_string [] t of Inl e \<Rightarrow> Inl e | Inr (str, r') \<Rightarrow> Inr (JStr str, r'))
           else if c = CHR ''t'' then Some (p_literal ''rue'' (JBool True) t)
           else if c = CHR ''f'' then Some (p_literal ''alse'' (JBool False) t)
           else if c = CHR ''n'' then Some (p_literal ''ull'' JNull t)
           else if c = CHR ''-'' \<or> is_digit c then Some (p_number (c # t))
           else Some (Inl (token_error c))) = Some (Inr (v, r))"
      using "2.prems" sw by simp
    then show ?thesis using lt
      by (auto split: if_splits sum.splits
               dest!: p_string_consumes p_number_result p_literal_result)
  qed
next
  case (4 n acc s)
  then obtain v1 r1 where pv: "p_value n s = Some (Inr (v1, r1))"
    by (auto split: option.splits sum.splits)
  have l1: "length r1 < length s" and j1: "json_value v1" using "4.IH"(1) [OF pv] by auto
  obtain d r' where sw: "skip_ws r1 = d # r'"
    using "4.prems" pv by (cases "skip_ws r1") auto
  have l2: "length r' < length s" using skip_ws_Cons_length [OF sw] l1 by simp
  show ?case
  proof (cases "d = CHR '',''")
    case True
    with "4.prems" pv sw have "p_elems n (acc @ [v1]) r' = Some (Inr (v, r))" by simp
    with "4.IH"(2) pv sw True l2 j1 show ?thesis by fastforce
  next
    case False
    with "4.prems" pv sw l2 j1 show ?thesis by (auto split: if_splits)
  qed
next
  case (6 n kvs s)
  then obtain t where sw: "skip_ws s = CHR 0x22 # t"
    by (auto split: list.splits if_splits)
  with "6.prems" obtain k r1 where ps: "p_string [] t = Inr (k, r1)"
    by (auto split: sum.splits)
  with "6.prems" sw obtain r2 where sw2: "skip_ws r1 = CHR '':'' # r2"
    by (auto split: list.splits if_splits)
  with "6.prems" sw ps obtain v1 r3 where pv: "p_value n r2 = Some (Inr (v1, r3))"
    by (auto split: option.splits sum.splits)
  with "6.prems" sw ps sw2 obtain e r4 where sw3: "skip_ws r3 = e # r4"
    by (cases "skip_ws r3") auto
  have j1: "json_value v1" using "6.IH"(1) [OF sw _ ps _ sw2 _ pv] by simp
  have l: "length r4 < length s"
    using skip_ws_Cons_length [OF sw] p_string_consumes [OF ps] skip_ws_Cons_length [OF sw2]
          "6.IH"(1) [OF sw _ ps _ sw2 _ pv] skip_ws_Cons_length [OF sw3]
    by fastforce
  show ?case
  proof (cases "e = CHR '',''")
    case True
    with "6.prems" sw ps sw2 pv sw3
    have "p_members n (AList.update k v1 kvs) r4 = Some (Inr (v, r))" by simp
    with "6.IH"(2) sw ps sw2 pv sw3 True l j1 show ?thesis
      by (fastforce simp: distinct_update json_members_update)
  next
    case False
    with "6.prems" sw ps sw2 pv sw3 l j1 show ?thesis
      by (auto simp: distinct_update json_members_update split: if_splits)
  qed
qed simp_all

lemma p_value_fuel:
  "2 * length s < n \<Longrightarrow> p_value n s \<noteq> None"
  "2 * length s + 1 < n \<Longrightarrow> p_elems n acc s \<noteq> None"
  "2 * length s + 1 < n \<Longrightarrow> p_members n kvs s \<noteq> None"
proof (induction n s and n acc s and n kvs s rule: p_value_p_elems_p_members.induct)
  case (2 n s)
  show ?case
  proof (cases "skip_ws s")
    case (Cons c t)
    have "2 * length t + 1 < n" using skip_ws_Cons_length [OF Cons] "2.prems" by simp
    with "2.IH" Cons show ?thesis by (auto split: list.splits)
  qed simp
next
  case (4 n acc s)
  then have pv: "p_value n s \<noteq> None" by simp
  show ?case
  proof (cases "p_value n s")
    case (Some res)
    show ?thesis
    proof (cases res)
      case (Inr vr)
      obtain v1 r1 where vr: "vr = (v1, r1)" by fastforce
      have l1: "length r1 < length s"
        using p_value_result(1) Some Inr vr by blast
      show ?thesis
      proof (cases "skip_ws r1")
        case (Cons d r')
        have "2 * length r' + 1 < n"
          using skip_ws_Cons_length [OF Cons] l1 "4.prems" by simp
        with "4.IH"(2) Some Inr vr Cons show ?thesis by auto
      qed (simp add: Some Inr vr)
    qed (simp add: Some)
  qed (use pv in simp)
next
  case (6 n kvs s)
  show ?case
  proof (cases "\<exists>t k r1 r2 v1 r3 e r4. skip_ws s = CHR 0x22 # t \<and> p_string [] t = Inr (k, r1)
                  \<and> skip_ws r1 = CHR '':'' # r2 \<and> p_value n r2 = Some (Inr (v1, r3))
                  \<and> skip_ws r3 = e # r4")
    case True
    then obtain t k r1 r2 v1 r3 e r4 where sw: "skip_ws s = CHR 0x22 # t"
      and ps: "p_string [] t = Inr (k, r1)" and sw2: "skip_ws r1 = CHR '':'' # r2"
      and pv: "p_value n r2 = Some (Inr (v1, r3))" and sw3: "skip_ws r3 = e # r4" by blast
    have bound: "2 * length r4 + 1 < n"
      using skip_ws_Cons_length [OF sw] p_string_consumes [OF ps] skip_ws_Cons_length [OF sw2]
            conjunct1 [OF p_value_result(1) [OF pv]] skip_ws_Cons_length [OF sw3] "6.prems"
      by simp
    show ?thesis
    proof (cases "e = CHR '',''")
      case True
      with "6.IH"(2) [OF sw _ ps refl sw2 _ pv refl refl sw3 True bound] sw ps sw2 pv sw3
      show ?thesis by simp
    qed (use sw ps sw2 pv sw3 in simp)
  next
    case False
    have "2 * length r2 < n" if "skip_ws s = CHR 0x22 # t" "p_string [] t = Inr (k, r1)"
         "skip_ws r1 = CHR '':'' # r2" for t k r1 r2
      using skip_ws_Cons_length [OF that(1)] p_string_consumes [OF that(2)]
            skip_ws_Cons_length [OF that(3)] "6.prems" by simp
    with "6.IH"(1) False show ?thesis
      by (auto split: list.splits if_splits sum.splits option.splits) fastforce
  qed
qed simp_all

lemma p_value_mono:
  "p_value n s \<noteq> None \<Longrightarrow> n \<le> m \<Longrightarrow> p_value m s = p_value n s"
  "p_elems n acc s \<noteq> None \<Longrightarrow> n \<le> m \<Longrightarrow> p_elems m acc s = p_elems n acc s"
  "p_members n kvs s \<noteq> None \<Longrightarrow> n \<le> m \<Longrightarrow> p_members m kvs s = p_members n kvs s"
proof (induction n s and n acc s and n kvs s arbitrary: m and m and m
       rule: p_value_p_elems_p_members.induct)
  case (2 n s)
  obtain m' where m: "m = Suc m'" and nm: "n \<le> m'" using "2.prems"(2) by (cases m) auto
  show ?case
  proof (cases "skip_ws s")
    case (Cons c t)
    show ?thesis
    proof (cases "c = CHR ''{'' \<or> c = CHR ''[''")
      case True
      show ?thesis
      proof (cases "skip_ws t")
        case sw2: (Cons d t')
        show ?thesis
        proof (cases "c = CHR ''{''")
          case obj: True
          show ?thesis
          proof (cases "d = CHR ''}''")
            case False
            have pm: "p_members n [] t \<noteq> None" using "2.prems"(1) Cons sw2 obj False by simp
            show ?thesis using "2.IH"(1) [OF Cons _ sw2 False pm nm] Cons sw2 obj False
              unfolding m by simp
          qed (simp add: m Cons sw2 obj)
        next
          case arr: False
          with True have arr': "c = CHR ''[''" by simp
          show ?thesis
          proof (cases "d = CHR '']''")
            case False
            have pe: "p_elems n [] t \<noteq> None" using "2.prems"(1) Cons sw2 arr arr' False by simp
            show ?thesis using "2.IH"(2) [OF Cons arr arr' sw2 False pe nm] Cons sw2 arr arr' False
              unfolding m by simp
          qed (simp add: m Cons sw2 arr arr')
        qed
      qed (use True in \<open>auto simp: m Cons\<close>)
    qed (simp add: m Cons)
  qed (simp add: m)
next
  case (4 n acc s)
  obtain m' where m: "m = Suc m'" and nm: "n \<le> m'" using "4.prems"(2) by (cases m) auto
  have pv: "p_value n s \<noteq> None" using "4.prems"(1) by (auto split: option.splits)
  have eq: "p_value m' s = p_value n s" using "4.IH"(1) [OF pv nm] .
  show ?case
  proof (cases "\<exists>v1 r1 r'. p_value n s = Some (Inr (v1, r1)) \<and> skip_ws r1 = CHR '','' # r'")
    case True
    then obtain v1 r1 r' where pv1: "p_value n s = Some (Inr (v1, r1))"
      and sw: "skip_ws r1 = CHR '','' # r'" by blast
    have pe: "p_elems n (acc @ [v1]) r' \<noteq> None" using "4.prems"(1) pv1 sw by simp
    show ?thesis using "4.IH"(2) [OF pv1 refl refl sw refl pe nm] pv1 sw
      unfolding m by (simp add: eq)
  next
    case False
    then show ?thesis unfolding m
      by (simp add: eq split: option.split sum.split list.split) blast
  qed
next
  case (6 n kvs s)
  obtain m' where m: "m = Suc m'" and nm: "n \<le> m'" using "6.prems"(2) by (cases m) auto
  show ?case
  proof (cases "\<exists>t k r1 r2 v1 r3 r4. skip_ws s = CHR 0x22 # t \<and> p_string [] t = Inr (k, r1)
                  \<and> skip_ws r1 = CHR '':'' # r2 \<and> p_value n r2 = Some (Inr (v1, r3))
                  \<and> skip_ws r3 = CHR '','' # r4")
    case True
    then obtain t k r1 r2 v1 r3 r4 where sw: "skip_ws s = CHR 0x22 # t"
      and ps: "p_string [] t = Inr (k, r1)" and sw2: "skip_ws r1 = CHR '':'' # r2"
      and pv: "p_value n r2 = Some (Inr (v1, r3))" and sw3: "skip_ws r3 = CHR '','' # r4" by blast
    have eq: "p_value m' r2 = p_value n r2" using "6.IH"(1) [OF sw _ ps refl sw2 _ _ nm] pv by simp
    have pm: "p_members n (AList.update k v1 kvs) r4 \<noteq> None"
      using "6.prems"(1) sw ps sw2 pv sw3 by simp
    show ?thesis using "6.IH"(2) [OF sw _ ps refl sw2 _ pv refl refl sw3 refl pm nm] sw ps sw2 pv sw3
      unfolding m by (simp add: eq)
  next
    case False
    have eq: "p_value m' r2 = p_value n r2" if "skip_ws s = CHR 0x22 # t"
      "p_string [] t = Inr (k, r1)" "skip_ws r1 = CHR '':'' # r2" for t k r1 r2
    proof -
      have "p_value n r2 \<noteq> None" using "6.prems"(1) that by (auto split: option.splits)
      then show ?thesis using "6.IH"(1) [OF that(1) _ that(2) refl that(3) _ _ nm] by simp
    qed
    show ?thesis using False unfolding m
      by (auto simp: eq split: option.split sum.split list.split)
  qed
qed simp_all

text \<open>
  Termination of the parser: with \<open>2 * length s + 1\<close> units of fuel \<open>p_value\<close> always
  returns (a value or a \<open>SyntaxError\<close>), and any larger amount of fuel gives the same
  result.
\<close>

lemma p_value_fuel_enough:
  "2 * length s < n \<Longrightarrow> p_value n s \<noteq> None \<and> p_value n s = p_value (2 * length s + 1) s"
proof -
  assume n: "2 * length s < n"
  have f: "p_value (2 * length s + 1) s \<noteq> None" by (rule p_value_fuel(1)) simp
  have "p_value n s = p_value (2 * length s + 1) s" using p_value_mono(1) [OF f] n by simp
  with f show ?thesis by simp
qed

lemma json_parse_fuel_eq: "2 * length s < n \<Longrightarrow> json_parse_fuel n s = json_parse s"
  by (simp add: json_parse_def json_parse_fuel_def p_value_fuel_enough)

text \<open>
  What \<open>JSON.parse\<close> returns is a JSON value: \<open>null\<close>, a boolean, a finite number, a
  string, or an array or object of JSON values, objects without repeated keys.
\<close>

lemma json_parse_json_value: "json_parse s = Inr v \<Longrightarrow> json_value v"
  by (auto simp del: p_value.simps simp: json_parse_def json_parse_fuel_def
           split: option.splits sum.splits if_splits dest!: p_value_result(1))

lemma json_parse_Nil: "json_parse [] = Inl eoi_error"
  by code_simp

text \<open>A text of white space only, the empty text included, is a truncated JSON text.\<close>

lemma json_parse_blank: "list_all json_ws s \<Longrightarrow> json_parse s = Inl eoi_error"
proof -
  assume "list_all json_ws s"
  then have "skip_ws s = []" by (simp add: skip_ws_def dropWhile_eq_Nil_conv list_all_iff)
  then show ?thesis by (simp add: json_parse_def json_parse_fuel_def)
qed

end
