(* ===== verification/Logging.thy ===== *)
theory Logging
  imports Whale Sale Token
begin

text \<open>
  The console output of the three handlers (\<open>console.log\<close>, \<open>console.warn\<close>,
  \<open>console.error\<close>). A call is recorded as its level and its argument values, in the order
  of the calls: \<open>console.warn("Received incomplete payload:", saleData)\<close> is the entry
  \<open>(ConsoleWarn, [JStr ''Received incomplete payload:'', saleData])\<close>; Deno's rendering
  of the arguments as text is not modelled. The client's error object, which the sale and
  token handlers log, is represented by its message, the only part of it the model of the
  client has.

  Every console call of a handler sits right before one of its exits: the \<open>catch\<close>
  block, the success response after the insert, the incomplete-payload response, and in
  the sale and token handlers the rethrow of an insert error. What a delivery logs is
  therefore a function of the branch it takes, which theory \<open>Webhook\<close> splits into
  what the \<open>try\<close> block computes on the probing sink (its answer or exception, and the
  insert it asks for) and the real sink's answer to that insert (\<open>*_try_replay\<close>).
  \<open>console_of\<close> reads the log off these two; \<open>whale_console\<close>, \<open>sale_console\<close>
  and \<open>token_console\<close> instantiate it with each handler's messages.
\<close>

datatype level = ConsoleLog | ConsoleWarn | ConsoleError

type_synonym log_entry = "level \<times> jsval list"

text \<open>
  A template literal \<open>`${v}`\<close> converts \<open>v\<close> with \<open>ToString\<close>, which for the values
  printed here (array lengths, token symbols or \<open>undefined\<close>) is the property-key
  conversion \<open>js_to_key\<close>. The text of a function or of a fractional number, which no
  template literal of the handlers receives, is not modelled (the empty string).
\<close>

definition js_template :: "jsval \<Rightarrow> string" where
  "js_template v = (case js_to_key v of Some s \<Rightarrow> s | None \<Rightarrow> [])"

text \<open>\<^verbatim>\<open>console.error("Failed to process webhook:", err.message);\<close> in every \<open>catch\<close> block.\<close>

definition catch_log :: "string \<Rightarrow> log_entry" where
  "catch_log m = (ConsoleError, [JStr ''Failed to process webhook:'', JStr m])"

text \<open>\<^verbatim>\<open>console.error("Error inserting into Supabase:", error);\<close> (sale and token handlers).\<close>

definition insert_error_log :: "string \<Rightarrow> log_entry" where
  "insert_error_log m = (ConsoleError, [JStr ''Error inserting into Supabase:'', JStr m])"

text \<open>\<^verbatim>\<open>console.warn("Received incomplete payload:", saleData);\<close> (and \<open>transferData\<close>).\<close>

definition incomplete_log :: "jsval \<Rightarrow> log_entry" where
  "incomplete_log x = (ConsoleWarn, [JStr ''Received incomplete payload:'', x])"

text \<open>\<^verbatim>\<open>console.log(`Successfully processed ${cleanTransfers.length} SOL whale transfer(s).`);\<close>\<close>

definition whale_success_log :: "jsval \<Rightarrow> log_entry" where
  "whale_success_log cleanTransfers =
     (ConsoleLog, [JStr (''Successfully processed '' @ js_template (js_lookup cleanTransfers ''length'')
                         @ '' SOL whale transfer(s).'')])"

text \<open>\<^verbatim>\<open>console.log("Successfully processed sale for signature:", cleanSale.signature);\<close>\<close>

definition sale_success_log :: "jsval \<Rightarrow> log_entry" where
  "sale_success_log cleanSale =
     (ConsoleLog, [JStr ''Successfully processed sale for signature:'', js_lookup cleanSale ''signature''])"

text \<open>\<^verbatim>\<open>console.log(`Successfully processed ${cleanTransfer.token_symbol} transfer:`, cleanTransfer.signature);\<close>\<close>

definition token_success_log :: "jsval \<Rightarrow> log_entry" where
  "token_success_log cleanTransfer =
     (ConsoleLog, [JStr (''Successfully processed '' @ js_template (js_lookup cleanTransfer ''token_symbol'')
                         @ '' transfer:''), js_lookup cleanTransfer ''signature''])"

text \<open>
  The log of a delivery from the branch it takes: \<open>p\<close> is what its \<open>try\<close> block computes
  on the probing sink, \<open>sink\<close> and \<open>db\<close> answer the insert. \<open>answered\<close> is what a
  handler logs before an answer of its own (400 or 200 without insert), \<open>succeeded\<close> its
  success line, and \<open>log_insert_error\<close> whether it logs an insert error before rethrowing.
\<close>

definition console_of ::
  "(response \<Rightarrow> log_entry list) \<Rightarrow> (jsval \<Rightarrow> log_entry) \<Rightarrow> bool \<Rightarrow> 'd sink
   \<Rightarrow> response js \<times> (string \<times> jsval) option \<Rightarrow> 'd \<Rightarrow> log_entry list" where
  "console_of answered succeeded log_insert_error sink p db =
     (case p of
        (Inl m, _) \<Rightarrow> [catch_log m]
      | (Inr r, None) \<Rightarrow> answered r
      | (Inr r, Some (t, v)) \<Rightarrow>
          (case fst (sink t v db) of
             Some m \<Rightarrow> (if log_insert_error then [insert_error_log m] else []) @ [catch_log m]
           | None \<Rightarrow> [succeeded v]))"

text \<open>\<open>payloadArray[0]\<close>, where it is read without throwing.\<close>

definition payload_first :: "json_parser \<Rightarrow> string \<Rightarrow> jsval" where
  "payload_first parse b = (case parse b of Inr p \<Rightarrow> js_lookup p ''0'' | Inl _ \<Rightarrow> JUndef)"

text \<open>The warning logged with the answer \<open>"Incomplete payload"\<close> (sale and token handlers).\<close>

definition incomplete_warn :: "jsval \<Rightarrow> response \<Rightarrow> log_entry list" where
  "incomplete_warn x r = (if r = Response ''Incomplete payload'' 400 then [incomplete_log x] else [])"

text \<open>
  The whale watcher logs nothing before its 400 and 200 answers and does not log an insert
  error before rethrowing it (\<open>Whale-watcher-handler/index.ts\<close>, lines 54-65).
\<close>

definition whale_console :: "'d sink \<Rightarrow> json_parser \<Rightarrow> string \<Rightarrow> 'd \<Rightarrow> log_entry list" where
  "whale_console sink parse b db =
     console_of (\<lambda>r. []) whale_success_log False sink (whale_try probe parse b None) db"

definition sale_console :: "'d sink \<Rightarrow> json_parser \<Rightarrow> string \<Rightarrow> 'd \<Rightarrow> log_entry list" where
  "sale_console sink parse b db =
     console_of (incomplete_warn (payload_first parse b)) sale_success_log True sink
       (sale_try probe parse b None) db"

definition token_console :: "'d sink \<Rightarrow> json_parser \<Rightarrow> string \<Rightarrow> 'd \<Rightarrow> log_entry list" where
  "token_console sink parse b db =
     console_of (incomplete_warn (payload_first parse b)) token_success_log True sink
       (token_try probe parse b None) db"

end
