(* ===== verification/Spec2Isabelle.thy ===== *)
theory Spec2Isabelle
  imports Delivery Json Logging
begin

text \<open>
  \<^bold>\<open>A verification library for the serverless Solana indexer.\<close>

  \<^emph>\<open>The program.\<close> Three Supabase edge functions (Deno, TypeScript) receive Helius webhook
  deliveries, each a JSON array of transaction notifications, and store normalised rows
  through the Supabase client:
  \<^item> \<open>src/supabase/functions/Whale-watcher-handler/index.ts\<close>: native SOL transfers of at
    least 1000 SOL go to table \<open>sol_transfers\<close>;
  \<^item> \<open>src/supabase/functions/nft-sale-handler/index.ts\<close>: the NFT sale event of the first
    notification goes to table \<open>nft_sales\<close>;
  \<^item> \<open>src/supabase/functions/token-transfer-handler/index.ts\<close>: the first token transfer
    whose mint is in the static \<open>TOKEN_LOOKUP\<close> table goes to table \<open>token_transfers\<close>.
  Each handler is one \<open>try\<close> block ending in one \<open>insert\<close> call and one \<open>catch\<close>
  block; the handlers share no state, only the database. The DDL of \<open>sol_transfers\<close> and
  \<open>token_transfers\<close> is in comments at the end of the whale and token handlers.

  \<^emph>\<open>The theories.\<close>
  \<^item> \<open>Prelude\<close>: the result type \<open>'a js\<close> of computations that may throw
    (\<open>Inl\<close> the message), the throwing array callbacks \<open>js_map\<close>
    (\<open>Array.prototype.map\<close>) and \<open>js_find\<close> (\<open>Array.prototype.find\<close>), decimal
    digit strings, shared list lemmas.
  \<^item> \<open>JsValue\<close>: the JavaScript values \<open>JSON.parse\<close> yields (\<open>jsval\<close>), truthiness,
    property reads with V8's \<open>TypeError\<close> messages, the members inherited from
    \<open>Object.prototype\<close>, numeric coercion, division, comparison, \<open>Math.pow\<close>, computed
    keys, spread and what \<open>JSON.stringify\<close> keeps of a value.
  \<^item> \<open>Json\<close>: \<open>JSON.parse\<close> (called by the whale watcher, and by \<open>req.json()\<close>
    in the two others) as a parser of RFC 8259 text into \<open>jsval\<close>, with V8's
    \<open>SyntaxError\<close> for a truncated text; structurally recursive on fuel.
  \<^item> \<open>Webhook\<close>: what the handlers share: \<open>response\<close>, the parser \<open>json_parser\<close>
    and the database client \<open>'d sink\<close> as parameters, the \<open>catch\<close> block
    \<open>try_catch\<close>, the insert tail \<open>insert_then_ok\<close>, and \<open>probe\<close>/\<open>replay\<close>
    which separate what a handler computes from the insert it makes.
  \<^item> \<open>Whale\<close>, \<open>Sale\<close>, \<open>Token\<close>: the three handlers (\<open>whale_handler\<close>,
    \<open>sale_handler\<close>, \<open>token_handler\<close>), one definition per callback and per
    \<open>try\<close> block, with the abstract specifications \<open>whale_spec\<close>, \<open>sale_spec\<close>,
    \<open>token_spec\<close> over the spec's events.
  \<^item> \<open>Store\<close>: the database as a concrete sink \<open>pg_sink\<close>: the three tables with the
    DDL's columns, PostgREST's insert (JSON serialisation, unknown columns, NOT NULL,
    NUMERIC(20,9) rounding half away from zero and overflow, atomic append with identities).
  \<^item> \<open>Helius\<close>: the payload interfaces the handlers declare
    (\<open>HeliusNativeTransferPayload\<close>, \<open>HeliusSalePayload\<close>,
    \<open>HeliusTransferPayload\<close>) as decoders in the option monad that read the declared
    fields as own properties and ignore the rest, and a reference for the token search
    that looks up own properties only.
  \<^item> \<open>Delivery\<close>: readers of stored rows, and what a conforming delivery leaves in the
    database.
  \<^item> \<open>Logging\<close>: the console calls of the handlers as a list of entries (level and
    argument values) a delivery writes, read off the exit it takes (\<open>console_of\<close>,
    \<open>whale_console\<close>, \<open>sale_console\<close>, \<open>token_console\<close>).
  \<^item> this theory: routing of a delivery to its endpoint (\<open>handle\<close>, \<open>console\<close>), the reachable
    databases as an inductive relation \<open>reachable\<close> over sequences of deliveries, and
    the properties that span handlers and database.
  Every handler is a function \<open>sink \<Rightarrow> parser \<Rightarrow> body \<Rightarrow> db \<Rightarrow> response \<times> db\<close>:
  the database is passed explicitly and changes only through the sink.

  \<^emph>\<open>What is proved.\<close>
  \<^item> Refinement: on well-formed notifications each handler inserts exactly the encoding of
    its abstract specification, for every sink (\<open>Whale.whale_handler_refines\<close>,
    \<open>Token.token_handler_refines\<close>, \<open>Sale.sale_handler_refines\<close>), and the
    token handler's first-match policy. The refinements hold for every payload that decodes, with any extra fields in any order
    (\<open>Helius.*_refines_decoded\<close>).
  \<^item> End to end: a conforming delivery with amounts below 4 * 10^15 lamports (4 * 10^12
    raw units of the six-decimal tokens) is answered 200, and the rows it appends read back
    as exactly the abstract records (\<open>Delivery.*_delivery_stored\<close>). In that range the
    double the program computes, printed by \<open>JSON.stringify\<close> and rounded by
    NUMERIC(20,9), is the exact quotient the model computes.
  \<^item> Answers: every delivery gets one response, and it is one of its endpoint's 200, 400
    or 500 answers (\<open>handle_answers\<close>). A missing \<open>SUPABASE_URL\<close> or key only
    shows once there is something to store (\<open>handle_missing_env\<close>).
  \<^item> Error behaviour: the answer on every error branch (empty body, unparsable body, missing
    first element, throwing reads and callbacks, incomplete payloads), several of which
    differ from the spec's taxonomy (500 where the spec asks for 400).
  \<^item> Database: every reachable database keeps the DDL's layout; every stored SOL transfer
    is at least 1000 SOL and every stored token transfer has a known symbol, whatever the
    sequence of deliveries.
  \<^item> Deliveries: a handler reads nothing from the database and makes at most one insert
    (\<open>handle_replay\<close>); a delivery only appends to its own table; it answers
    "Webhook processed successfully!" exactly when it changed the database.
  \<^item> A defect: a mint named like an \<open>Object.prototype\<close> member (\<open>"constructor"\<close>)
    passes the \<open>TOKEN_LOOKUP\<close> test, and the delivery fails with a NOT NULL violation,
    losing a later known transfer (\<open>token_proto_mint_rejected\<close>). Apart from such
    mints the search is equivalent to the own-property reference
    (\<open>Helius.token_find_own_equiv\<close>).
  \<^item> Parsing: the library lemmas of theory \<open>Json\<close> show that \<open>JSON.parse\<close>
    terminates (\<open>Json.p_value_fuel_enough\<close>) and returns JSON values only
    (\<open>Json.json_parse_json_value\<close>). Composed with the handlers: a blank body is
    answered 500 "Unexpected end of JSON input" (\<open>handle_blank_body\<close>), and an object
    with key \<open>"0"\<close> is accepted as if it were the array the spec requires
    (\<open>handle_object_envelope\<close>).
  \<^item> Logging: the whale watcher's success line counts the rows the insert appended
    (\<open>whale_success_logged_rows\<close>).
  Every loop of the handlers is a \<open>map\<close>, \<open>filter\<close> or \<open>find\<close> over a finite
  array, modelled by structural recursion. Only the parser uses fuel: each call of
  \<open>p_value\<close>, \<open>p_elems\<close>, \<open>p_members\<close> spends one unit, every successful call
  consumes at least one character, and an array element or object member costs two calls,
  so \<open>2 * length s + 1\<close> units suffice; more fuel gives the same result.

  \<^emph>\<open>Not modelled.\<close> IEEE rounding of JavaScript numbers (numbers are exact reals: the
  storage theorems are stated below the bound where the program's double division,
  serialised and rounded by NUMERIC(20,9), stores the exact quotient; above it the program
  stores the double-rounded value, which the model does not compute), the HTTP server
  (a request is its body text; the method and headers are never read), Deno's text
  rendering of logged values (the console model keeps the argument values; a client error
  object is its message, and the console model reads a sink's failure as an insert error, so
  it does not cover the construction failure of \<open>Webhook.with_client\<close>, which the code
  logs only in the \<open>catch\<close> block), the client beyond its construction
  check (\<open>Webhook.with_client\<close>: the environment is a parameter, and the theorems of
  the running system assume a configured client, \<open>pg_sink\<close>), the details of
  \<open>JSON.parse\<close> the value model does not express (IEEE rounding and overflow, \<open>-0\<close>,
  the order of integer-like keys, the replacement of invalid UTF-8, the position in
  \<open>SyntaxError\<close> messages; the single-endpoint theorems keep the parser a parameter),
  \<open>created_at\<close> defaults,
  and concurrency between deliveries (they are modelled as a sequence: PostgreSQL
  serialises the single-statement inserts).
\<close>

subsection \<open>Deliveries to the three endpoints\<close>

text \<open>
  The three functions are deployed as separate endpoints; \<open>handle\<close> routes a delivery
  to the handler of its endpoint. \<open>plan\<close> is what a handler asks of the probing sink
  of theory \<open>Webhook\<close> (its answer and the one insert it makes, if any), and
  \<open>target\<close> the table each endpoint writes.
\<close>

datatype endpoint = WhaleWatcher | NftSale | TokenTransfer

fun handle :: "endpoint \<Rightarrow> 'd sink \<Rightarrow> json_parser \<Rightarrow> string \<Rightarrow> 'd \<Rightarrow> response \<times> 'd" where
  "handle WhaleWatcher = whale_handler"
| "handle NftSale = sale_handler"
| "handle TokenTransfer = token_handler"

fun plan :: "endpoint \<Rightarrow> json_parser \<Rightarrow> string \<Rightarrow> response js \<times> (string \<times> jsval) option" where
  "plan WhaleWatcher parse b = whale_try probe parse b None"
| "plan NftSale parse b = sale_try probe parse b None"
| "plan TokenTransfer parse b = token_try probe parse b None"

fun target :: "endpoint \<Rightarrow> db \<Rightarrow> table" where
  "target WhaleWatcher = sol_transfers"
| "target NftSale = nft_sales"
| "target TokenTransfer = token_transfers"

text \<open>
  What a delivery writes to the console, routed like \<open>handle\<close> (theory \<open>Logging\<close>).
\<close>

fun console :: "endpoint \<Rightarrow> 'd sink \<Rightarrow> json_parser \<Rightarrow> string \<Rightarrow> 'd \<Rightarrow> log_entry list" where
  "console WhaleWatcher = whale_console"
| "console NftSale = sale_console"
| "console TokenTransfer = token_console"

text \<open>
  The databases reachable from the empty tables by any sequence of deliveries, each to any
  endpoint with any body, all parsed by the same \<open>JSON.parse\<close>.
\<close>

inductive reachable :: "json_parser \<Rightarrow> db \<Rightarrow> bool" for parse where
  start: "reachable parse init_db"
| deliver: "reachable parse d \<Longrightarrow> handle e pg_sink parse b d = (r, d') \<Longrightarrow> reachable parse d'"

text \<open>Every stored SOL transfer is a whale; every stored token transfer has a known symbol.\<close>

definition sol_rows_whales :: "db \<Rightarrow> bool" where
  "sol_rows_whales d \<longleftrightarrow>
     (\<forall>(i, c) \<in> set (tbl_rows (sol_transfers d)).
        case c ! 3 of Dec q \<Rightarrow> WHALE_THRESHOLD_SOL \<le> q | _ \<Rightarrow> False)"

definition token_rows_known :: "db \<Rightarrow> bool" where
  "token_rows_known d \<longleftrightarrow>
     (\<forall>(i, c) \<in> set (tbl_rows (token_transfers d)).
        c ! 2 \<in> (\<lambda>(m, s, dec). Txt (JStr s)) ` set known_tokens)"

text \<open>
  The answers each endpoint can give: its 200 and 400 messages, and the 500 of the
  \<open>catch\<close> block with any message.
\<close>

fun answers_200 :: "endpoint \<Rightarrow> string list" where
  "answers_200 WhaleWatcher = [ok_message, ''No whale transfers found'']"
| "answers_200 NftSale = [ok_message]"
| "answers_200 TokenTransfer = [ok_message, ''No relevant token transfer found'']"

fun answers_400 :: "endpoint \<Rightarrow> string list" where
  "answers_400 WhaleWatcher = [''Request body is empty'', ''Invalid payload'']"
| "answers_400 NftSale = [''Incomplete payload'']"
| "answers_400 TokenTransfer = [''Incomplete payload'']"

definition is_answer :: "endpoint \<Rightarrow> response \<Rightarrow> bool" where
  "is_answer e r =
     (case r of Response b s \<Rightarrow>
        (s = 200 \<and> b \<in> set (answers_200 e)) \<or> (s = 400 \<and> b \<in> set (answers_400 e))
        \<or> (s = 500 \<and> fail_message (drop (length (fail_message [])) b) = b))"

text \<open>A notification of one NFT sale of 2 SOL, without a collection.\<close>

definition sample_sale :: json_parser where
  "sample_sale b = Inr (JArr [JObj [(''signature'', JStr ''s1''),
      (''events'', JObj [(''nft'', JObj [(''buyer'', JStr ''B''), (''seller'', JStr ''S''),
          (''amount'', JNumber (Num 2000000000)), (''nfts'', JArr [JObj [(''mint'', JStr ''M'')]])])])]])"

text \<open>A token notification whose first mint is \<open>"constructor"\<close>, the second USDC.\<close>

definition sample_proto_token :: json_parser where
  "sample_proto_token b = Inr (enc_token_payload ''s2''
      [(''constructor'', ''A'', ''B'', 1000000),
       (''EPjFWdd5AufqSSqeM2qN1xzybapC8G4wEGGkZwyTDt1v'', ''A'', ''B'', 2500000)])"


subsection \<open>Lemmas: one insert per delivery\<close>

lemma handle_replay:
  "handle e sink parse b d = try_catch (replay sink (plan e parse b) d)"
proof (cases e)
  case WhaleWatcher
  then show ?thesis using whale_try_replay [of sink parse b d] by (simp add: whale_handler_def)
next
  case NftSale
  then show ?thesis using sale_try_replay [of sink parse b d] by (simp add: sale_handler_def)
next
  case TokenTransfer
  then show ?thesis using token_try_replay [of sink parse b d] by (simp add: token_handler_def)
qed

lemma plan_None:
  "plan e parse b = (x, None) \<Longrightarrow> x \<noteq> Inr (Response ok_message 200)"
  by (cases e) (auto dest: whale_try_probe sale_try_probe token_try_probe)

lemma plan_Some:
  assumes "plan e parse b = (x, Some (t, v))"
  shows "x = Inr (Response ok_message 200) \<and> t = tbl_name (target e init_db) \<and> insert_rows_of v \<noteq> []"
proof (cases e)
  case WhaleWatcher
  with assms show ?thesis
    by (auto simp: init_db_def empty_table_def insert_rows_of_def dest!: whale_try_probe)
next
  case NftSale
  with assms show ?thesis
    by (auto simp: init_db_def empty_table_def insert_rows_of_def clean_sale_def
        split: sum.splits dest!: sale_try_probe)
next
  case TokenTransfer
  with assms show ?thesis
    by (auto simp: init_db_def empty_table_def insert_rows_of_def clean_token_transfer_def Let_def
        dest!: token_try_probe)
qed

lemma handle_pg_cases:
  assumes "handle e pg_sink parse b d = (r, d')"
  shows "(d' = d \<and> r \<noteq> Response ok_message 200)
       \<or> (\<exists>t v. plan e parse b = (Inr (Response ok_message 200), Some (t, v))
            \<and> pg_insert t v d = Inr d' \<and> r = Response ok_message 200)"
proof (cases "plan e parse b")
  case (Pair x p)
  show ?thesis
  proof (cases p)
    case None
    with Pair assms plan_None [of e parse b x] show ?thesis
      by (auto simp: handle_replay try_catch_def split: sum.splits)
  next
    case (Some tv)
    then obtain t v where tv: "p = Some (t, v)" by (cases tv) auto
    with Pair plan_Some have x: "x = Inr (Response ok_message 200)" by blast
    from assms Pair tv show ?thesis
      by (auto simp: handle_replay x insert_then_ok_def pg_sink_def split: sum.splits)
  qed
qed

lemma pg_insert_target:
  assumes "pg_insert (tbl_name (target e init_db)) v d = Inr d'"
  shows "table_insert (insert_rows_of v) (target e d) = Inr (target e d')
       \<and> (\<forall>e'. e' \<noteq> e \<longrightarrow> target e' d' = target e' d)"
proof -
  have "\<forall>e'. e' \<noteq> e \<longrightarrow> target e' d' = target e' d" if
    "\<forall>e'. e' \<noteq> e \<longrightarrow> e' = WhaleWatcher \<or> e' = NftSale \<or> e' = TokenTransfer \<longrightarrow> target e' d' = target e' d"
    using that endpoint.exhaust by metis
  with assms show ?thesis
    by (cases e) (auto simp: init_db_def empty_table_def pg_insert_sol_transfers pg_insert_nft_sales
        pg_insert_token_transfers)
qed

lemma pg_insert_target_intro:
  assumes "table_insert (insert_rows_of v) (target e d) = Inr tb"
  shows "\<exists>d'. pg_insert (tbl_name (target e init_db)) v d = Inr d' \<and> target e d' = tb"
  using assms
  by (cases e) (auto simp: init_db_def empty_table_def pg_insert_sol_transfers pg_insert_nft_sales
      pg_insert_token_transfers)

lemma handle_pg_insert:
  assumes "handle e pg_sink parse b d = (r, d')"
  shows "(d' = d \<and> r \<noteq> Response ok_message 200)
       \<or> (\<exists>v. plan e parse b = (Inr (Response ok_message 200), Some (tbl_name (target e init_db), v))
            \<and> insert_rows_of v \<noteq> [] \<and> table_insert (insert_rows_of v) (target e d) = Inr (target e d')
            \<and> (\<forall>e'. e' \<noteq> e \<longrightarrow> target e' d' = target e' d) \<and> r = Response ok_message 200)"
  using handle_pg_cases [OF assms]
proof (elim disjE exE conjE)
  fix t v assume p: "plan e parse b = (Inr (Response ok_message 200), Some (t, v))"
    and i: "pg_insert t v d = Inr d'" and r: "r = Response ok_message 200"
  from plan_Some [OF p] have t: "t = tbl_name (target e init_db)" and ne: "insert_rows_of v \<noteq> []" by simp_all
  from pg_insert_target [of e v d d'] i t p ne r show ?thesis by auto
qed simp

subsection \<open>Lemmas: what the stored rows hold\<close>

lemma whale_row_cell:
  assumes "convert_row ''sol_transfers'' sol_transfers_schema (json_clean (whale_row sig w)) = Inr c"
    and "is_whale w" and "w = js_spread_with t ''amount_sol'' (JNumber n)"
  shows "\<exists>q. c ! 3 = Dec q \<and> WHALE_THRESHOLD_SOL \<le> q"
proof -
  have amt: "js_lookup w ''amount_sol'' = JNumber n"
    using assms(3) by (simp add: js_spread_with_def update_conv')
  obtain kvs where kvs: "json_clean (whale_row sig w) = JObj kvs"
    and look: "map_of kvs ''amount_sol'' = Some (json_clean (JNumber n))"
    by (simp add: whale_row_def amt json_omitted_def)
  have col: "sol_transfers_schema ! 3 = numeric_col ''amount_sol'' 20 9 True" "3 < length sol_transfers_schema"
    by (simp_all add: sol_transfers_schema_def)
  from convert_row_nth [OF assms(1)[unfolded kvs] col(2)] col(1) look
  have cc: "convert_column ''sol_transfers'' (numeric_col ''amount_sol'' 20 9 True) (Some (json_clean (JNumber n))) = Inr (c ! 3)"
    by (simp add: numeric_col_def)
  from assms(2) amt have "n = PosInf \<or> (\<exists>q. n = Num q \<and> WHALE_THRESHOLD_SOL \<le> q)"
    by (simp add: is_whale_def js_ge_num_iff)
  then show ?thesis
  proof
    assume "n = PosInf"
    with cc show ?thesis by (simp add: convert_column_def numeric_col_def)
  next
    assume "\<exists>q. n = Num q \<and> WHALE_THRESHOLD_SOL \<le> q"
    then obtain q where n: "n = Num q" and q: "WHALE_THRESHOLD_SOL \<le> q" by blast
    from cc n have c3: "c ! 3 = Dec (numeric_round 9 q)"
      by (auto simp: convert_column_def numeric_col_def to_cell_def Let_def split: if_splits)
    have "WHALE_THRESHOLD_SOL \<le> numeric_round 9 q"
      by (rule numeric_round_lower [where k = 1000000000000]) (use q in \<open>simp_all add: WHALE_THRESHOLD_SOL_def\<close>)
    with c3 show ?thesis by blast
  qed
qed

lemma token_row_cell:
  assumes "convert_row ''token_transfers'' token_transfers_schema (json_clean (clean_token_transfer td pt)) = Inr c"
  shows "c ! 2 \<in> (\<lambda>(m, s, dec). Txt (JStr s)) ` set known_tokens"
proof -
  let ?sy = "js_lookup (token_info (js_lookup pt ''mint'')) ''symbol''"
  obtain kvs where kvs: "json_clean (clean_token_transfer td pt) = JObj kvs"
    and look: "map_of kvs ''token_symbol'' = (if json_omitted ?sy then None else Some (json_clean ?sy))"
    by (simp add: clean_token_transfer_def Let_def map_of_json_clean)
  have col: "token_transfers_schema ! 2 = text_col ''token_symbol'' True" "2 < length token_transfers_schema"
    by (simp_all add: token_transfers_schema_def)
  from convert_row_nth [OF assms[unfolded kvs] col(2)] col(1) look
  have cc: "convert_column ''token_transfers'' (text_col ''token_symbol'' True)
              (if json_omitted ?sy then None else Some (json_clean ?sy)) = Inr (c ! 2)"
    by (simp add: text_col_def)
  have "c ! 2 = Txt (JStr ''USDC'') \<or> c ! 2 = Txt (JStr ''USDT'')"
    using token_symbol_cases [of "js_lookup pt ''mint''"] cc
    by (auto simp: convert_column_def text_col_def to_cell_def json_omitted_def)
  then show ?thesis
    unfolding known_tokens_def by force
qed

lemma plan_sol_row:
  assumes "plan e parse b = (x, Some (''sol_transfers'', v))" and "row \<in> set (insert_rows_of v)"
    and "convert_row ''sol_transfers'' sol_transfers_schema (json_clean row) = Inr c"
  shows "case c ! 3 of Dec q \<Rightarrow> WHALE_THRESHOLD_SOL \<le> q | _ \<Rightarrow> False"
proof -
  have e: "e = WhaleWatcher"
    using plan_Some [OF assms(1)] by (cases e) (simp_all add: init_db_def empty_table_def)
  obtain sig nts ws where ws: "whale_transfers nts = Inr ws" and v: "v = JArr (map (whale_row sig) ws)"
    using whale_try_probe [of parse b x "Some (''sol_transfers'', v)"] assms(1) e by auto
  from assms(2) v obtain w where w: "w \<in> set ws" and row: "row = whale_row sig w"
    by (auto simp: insert_rows_of_def)
  from whale_transfers_shape [OF ws] w obtain t n where
    "is_whale w" "w = js_spread_with t ''amount_sol'' (JNumber n)" by blast
  from whale_row_cell [OF assms(3)[unfolded row] this] show ?thesis by auto
qed

lemma plan_token_row:
  assumes "plan e parse b = (x, Some (''token_transfers'', v))" and "row \<in> set (insert_rows_of v)"
    and "convert_row ''token_transfers'' token_transfers_schema (json_clean row) = Inr c"
  shows "c ! 2 \<in> (\<lambda>(m, s, dec). Txt (JStr s)) ` set known_tokens"
proof -
  have e: "e = TokenTransfer"
    using plan_Some [OF assms(1)] by (cases e) (simp_all add: init_db_def empty_table_def)
  obtain td pt where v: "v = clean_token_transfer td pt"
    using token_try_probe [of parse b x "Some (''token_transfers'', v)"] assms(1) e by auto
  from assms(2) v have row: "row = clean_token_transfer td pt"
    by (simp add: insert_rows_of_def clean_token_transfer_def Let_def)
  from token_row_cell [OF assms(3)[unfolded row]] show ?thesis .
qed

lemma reachable_layout: "reachable parse d \<Longrightarrow> db_layout d"
proof (induction rule: reachable.induct)
  case start
  then show ?case by (simp add: db_layout_def init_db_def empty_table_def)
next
  case (deliver d e b r d')
  from handle_pg_cases [OF deliver.hyps(2)] show ?case
  proof (elim disjE exE conjE)
    fix t v assume "pg_insert t v d = Inr d'"
    then have "pg_sink t v d = (None, d')" by (rule pg_sink_of_insert)
    with deliver.IH show ?case by (rule pg_sink_layout)
  qed (use deliver.IH in simp)
qed

lemma is_answer_fail [simp]: "is_answer e (Response (fail_message m) 500)"
  by (simp add: is_answer_def fail_message_def)

lemma is_answer_ok [simp]: "is_answer e (Response ok_message 200)"
  by (cases e) (simp_all add: is_answer_def)

lemma plan_answer:
  assumes "plan e parse b = (x, None)"
  shows "(\<exists>m. x = Inl m) \<or> (\<exists>r. x = Inr r \<and> is_answer e r)"
  using assms
  by (cases e) (auto simp: whale_try_def sale_try_def token_try_def is_answer_def split: sum.splits if_splits option.splits)

lemmas whale_sample_eval = whale_handler_def whale_try_def enc_whale_payload_def whale_transfers_def
  whale_with_sol_def is_whale_def whale_row_def js_get_def WHALE_THRESHOLD_SOL_def
  LAMPORTS_PER_SOL_def js_spread_with_def pg_sink_def pg_insert_def table_insert_def
  insert_rows_of_def init_db_def empty_table_def sol_transfers_schema_def convert_row_def
  convert_column_def text_col_def numeric_col_def to_cell_def numeric_round_def
  round_half_away_def json_omitted_def insert_then_ok_def Let_def

lemmas sample_sale_eval = sample_sale_def sale_handler_def sale_try_def clean_sale_def sale_mint_def
  sale_price_sol_def sale_collection_def js_or_def js_proto pg_sink_def pg_insert_def table_insert_def
  insert_rows_of_def init_db_def empty_table_def nft_sales_schema_def convert_row_def
  convert_column_def text_col_def numeric_col_def to_cell_def numeric_round_def round_half_away_def
  json_omitted_def Let_def

subsection \<open>Properties of the running system\<close>

text \<open>
  C10. Every row of \<open>sol_transfers\<close> in a reachable database has an \<open>amount_sol\<close>
  of at least \<open>WHALE_THRESHOLD_SOL\<close> (1000 SOL), whatever sequence of deliveries to the
  three endpoints produced it: only the whale watcher writes the table, it passes only
  whales, and NUMERIC(20,9) rounding cannot take an amount below 1000.
\<close>

theorem reachable_sol_rows_whales: "reachable parse d \<Longrightarrow> sol_rows_whales d"
proof (induction rule: reachable.induct)
  case start
  then show ?case by (simp add: sol_rows_whales_def init_db_def empty_table_def)
next
  case (deliver d e b r d')
  have lay: "db_layout d" using deliver.hyps(1) by (rule reachable_layout)
  from handle_pg_cases [OF deliver.hyps(2)] show ?case
  proof (elim disjE exE conjE)
    fix t v assume p: "plan e parse b = (Inr (Response ok_message 200), Some (t, v))"
      and "pg_insert t v d = Inr d'"
    then have sink: "pg_sink t v d = (None, d')" by (simp add: pg_sink_of_insert)
    show ?case unfolding sol_rows_whales_def
    proof clarify
      fix i c assume ic: "(i, c) \<in> set (tbl_rows (sol_transfers d'))"
      from pg_sink_sol_rows [OF sink ic] deliver.IH lay p
      show "case c ! 3 of Dec q \<Rightarrow> WHALE_THRESHOLD_SOL \<le> q | _ \<Rightarrow> False"
        by (auto simp: sol_rows_whales_def db_layout_def intro: plan_sol_row)
    qed
  qed (use deliver.IH in simp)
qed


text \<open>
  C11. Every row of \<open>token_transfers\<close> in a reachable database has as
  \<open>token_symbol\<close> the symbol of a mint of \<open>TOKEN_LOOKUP\<close> (USDC or USDT), even when a
  delivery names a mint such as \<open>"constructor"\<close>: its row has no symbol and the NOT NULL
  constraint rejects it.
\<close>

theorem reachable_token_rows_known: "reachable parse d \<Longrightarrow> token_rows_known d"
proof (induction rule: reachable.induct)
  case start
  then show ?case by (simp add: token_rows_known_def init_db_def empty_table_def)
next
  case (deliver d e b r d')
  have lay: "db_layout d" using deliver.hyps(1) by (rule reachable_layout)
  from handle_pg_cases [OF deliver.hyps(2)] show ?case
  proof (elim disjE exE conjE)
    fix t v assume p: "plan e parse b = (Inr (Response ok_message 200), Some (t, v))"
      and "pg_insert t v d = Inr d'"
    then have sink: "pg_sink t v d = (None, d')" by (simp add: pg_sink_of_insert)
    show ?case unfolding token_rows_known_def
    proof clarify
      fix i c assume ic: "(i, c) \<in> set (tbl_rows (token_transfers d'))"
      from pg_sink_token_rows [OF sink ic] deliver.IH lay p
      show "c ! 2 \<in> (\<lambda>(m, s, dec). Txt (JStr s)) ` set known_tokens"
        by (auto simp: token_rows_known_def db_layout_def intro: plan_token_row)
    qed
  qed (use deliver.IH in simp)
qed


text \<open>
  C12. A delivery to an endpoint, whatever its outcome, only appends rows to the
  endpoint's own table (\<open>sol_transfers\<close>, \<open>nft_sales\<close> or
  \<open>token_transfers\<close>): the old rows are a prefix of the new ones, and the other two
  tables are unchanged.
\<close>

theorem handle_appends_own_table:
  assumes "handle e pg_sink parse b d = (r, d')"
  shows "prefix (tbl_rows (target e d)) (tbl_rows (target e d'))
       \<and> (\<forall>e'. e' \<noteq> e \<longrightarrow> target e' d' = target e' d)"
  using handle_pg_insert [OF assms] by (auto dest: table_insert_prefix)


text \<open>
  C13. A delivery answers 200 "Webhook processed successfully!" exactly when it
  changed the database: every other answer (400, 500, or the 200s that report nothing to
  store) leaves the database as it was, and a successful insert always adds a row.
\<close>

theorem handle_ok_iff_changed:
  assumes "handle e pg_sink parse b d = (r, d')"
  shows "r = Response ok_message 200 \<longleftrightarrow> d' \<noteq> d"
  using handle_pg_insert [OF assms]
proof (elim disjE exE conjE)
  fix v assume ne: "insert_rows_of v \<noteq> []"
    and ti: "table_insert (insert_rows_of v) (target e d) = Inr (target e d')"
    and r: "r = Response ok_message 200"
  from table_insert_length [OF ti] ne have "target e d' \<noteq> target e d" by auto
  with r show ?thesis by auto
qed simp


text \<open>
  C14. \<open>TOKEN_LOOKUP[t.mint]\<close> reads through \<open>Object.prototype\<close>: when the first token
  transfer names a mint such as \<open>"constructor"\<close>, \<open>find\<close> selects it, its row has no
  \<open>token_symbol\<close>, and the insert fails with the NOT NULL violation (500), even if a
  later transfer is of USDC and should have been stored.
\<close>

theorem token_proto_mint_rejected:
  assumes "parse body = Inr (enc_token_payload sig ((m, f, t, a) # ts))"
    and "m \<in> set object_proto_keys" and "db_layout d"
  shows "handle TokenTransfer pg_sink parse body d =
           (Response (fail_message (not_null_violation ''token_transfers'' ''token_symbol'')) 500, d)"
proof -
  let ?td = "JObj [(''signature'', JStr sig), (''tokenTransfers'', JArr (map enc_token_transfer ((m, f, t, a) # ts)))]"
  have "token_relevant (enc_token_transfer (m, f, t, a)) = Inr True"
    using assms(2) token_relevant_enc [of "(m, f, t, a)"] by simp
  then have find: "token_find (JArr (map enc_token_transfer ((m, f, t, a) # ts)))
                     = Inr (Some (enc_token_transfer (m, f, t, a)))"
    by (simp add: token_find_def del: enc_token_transfer.simps)
  have row: "convert_row ''token_transfers'' token_transfers_schema
               (json_clean (clean_token_transfer ?td (enc_token_transfer (m, f, t, a))))
             = Inl (not_null_violation ''token_transfers'' ''token_symbol'')"
    using assms(2)
    by (simp add: clean_token_transfer_def token_info_proto convert_row_def token_transfers_schema_def
        text_col_def numeric_col_def convert_column_def to_cell_def json_omitted_def js_proto)
  have "pg_sink ''token_transfers'' (clean_token_transfer ?td (enc_token_transfer (m, f, t, a))) d
          = (Some (not_null_violation ''token_transfers'' ''token_symbol''), d)"
    using assms(3) row
    by (simp add: pg_sink_def pg_insert_def table_insert_def db_layout_def insert_rows_of_def
        clean_token_transfer_def Let_def)
  with assms(1) find show ?thesis
    by (simp add: token_handler_def token_try_def enc_token_payload_def)
qed


text \<open>
  C15. Every delivery to an endpoint, for every parser and every database client, gets
  exactly one response, and it is one of the endpoint's answers: a 200 with
  "Webhook processed successfully!" or the endpoint's "nothing to store" message, a 400
  with one of its validation messages, or a 500 "Webhook processing failed: ..." from the
  \<open>catch\<close> block. No other status is ever sent.
\<close>

theorem handle_answers: "is_answer e (fst (handle e sink parse b d))"
proof (cases "plan e parse b")
  case (Pair x p)
  show ?thesis
  proof (cases p)
    case None
    with Pair plan_answer [of e parse b x] show ?thesis
      by (auto simp: handle_replay)
  next
    case (Some tv)
    with Pair show ?thesis
      by (cases tv) (auto simp: handle_replay insert_then_ok_def split: prod.split option.split)
  qed
qed

text \<open>
  C17. With \<open>SUPABASE_URL\<close> (or the key) missing from the environment, every delivery
  that would insert answers 500 with the client's message and stores nothing, while every
  delivery that inserts nothing answers as if the deployment were configured: the
  misconfiguration is only visible once there is something to store.
\<close>

theorem handle_missing_env:
  assumes "create_client env = Inl m"
  shows "handle e (with_client env sink) parse b d =
     (case plan e parse b of
        (x, None) \<Rightarrow> try_catch (x, d)
      | (x, Some _) \<Rightarrow> (Response (fail_message m) 500, d))"
  using assms
  by (auto simp: handle_replay with_client_def insert_then_ok_def split: prod.split option.split)

text \<open>
  C18. The handlers do not check that the payload is an array: an object whose key
  \<open>"0"\<close> holds a notification is handled exactly like the one-element array holding it,
  on every endpoint, whatever the sink and the database.
\<close>

theorem handle_object_envelope:
  assumes "json_parse b = Inr (JObj [(''0'', v)])" and "json_parse b' = Inr (JArr [v])"
  shows "handle e sink json_parse b d = handle e sink json_parse b' d"
proof -
  have "b \<noteq> []" "b' \<noteq> []" using assms by (auto simp: json_parse_Nil)
  then show ?thesis using assms
    by (cases e) (simp_all add: whale_handler_def whale_try_def sale_handler_def
      sale_try_def token_handler_def token_try_def js_get_def)
qed

text \<open>
  C19. A body of white space only (spaces, tabs, line breaks) is not rejected as empty:
  the whale watcher's \<open>!bodyText\<close> test passes it and \<open>JSON.parse\<close> throws, so every
  endpoint answers 500 "Webhook processing failed: Unexpected end of JSON input" and the
  database is unchanged. Only the whale watcher answers the empty body with 400; the two
  handlers that call \<open>req.json()\<close> answer it with the same 500. The spec asks for 400.
\<close>

theorem handle_blank_body:
  "list_all json_ws b \<Longrightarrow>
     handle e sink json_parse b d =
       (if e = WhaleWatcher \<and> b = [] then (Response ''Request body is empty'' 400, d)
        else (Response (fail_message eoi_error) 500, d))"
proof -
  assume "list_all json_ws b"
  then have p: "json_parse b = Inl eoi_error" by (rule json_parse_blank)
  show ?thesis
    by (cases e) (simp_all add: p whale_handler_def whale_try_def sale_handler_def
        sale_try_def token_handler_def token_try_def try_catch_def)
qed

text \<open>
  C20. The success line of the whale watcher counts the stored rows: when a delivery to the
  whale endpoint is answered 200 "Webhook processed successfully!", it logs exactly one line,
  "Successfully processed N SOL whale transfer(s).", where N is the number of rows the
  insert appended to \<open>sol_transfers\<close>.
\<close>

theorem whale_success_logged_rows:
  assumes "handle WhaleWatcher pg_sink parse b d = (Response ok_message 200, d')"
  shows "console WhaleWatcher pg_sink parse b d =
           [(ConsoleLog, [JStr (''Successfully processed ''
              @ js_template (JNumber (Num (of_nat (length (tbl_rows (sol_transfers d'))
                                                   - length (tbl_rows (sol_transfers d))))))
              @ '' SOL whale transfer(s).'')])]"
proof -
  from handle_pg_cases [OF assms] obtain t v where
    p: "plan WhaleWatcher parse b = (Inr (Response ok_message 200), Some (t, v))"
    and i: "pg_insert t v d = Inr d'" by auto
  from p whale_try_probe [of parse b "Inr (Response ok_message 200)" "Some (t, v)"]
  obtain xs where t: "t = ''sol_transfers''" and v: "v = JArr xs" by auto
  from i t v obtain tb where ti: "table_insert xs (sol_transfers d) = Inr tb"
    and d': "d' = d\<lparr>sol_transfers := tb\<rparr>"
    by (auto simp: pg_insert_sol_transfers insert_rows_of_def)
  have n: "length (tbl_rows (sol_transfers d')) - length (tbl_rows (sol_transfers d)) = length xs"
    using table_insert_length [OF ti] d' by simp
  have "fst (pg_sink t v d) = None" using i by (simp add: pg_sink_def)
  with p v n show ?thesis
    by (simp add: whale_console_def console_of_def whale_success_log_def)
qed

theorem reachable_sol_rows_whales_witness:
  "sol_rows_whales (snd (handle WhaleWatcher pg_sink sample_sale ''x'' init_db))"
proof -
  have "reachable sample_sale (snd (handle WhaleWatcher pg_sink sample_sale ''x'' init_db))"
    by (rule reachable.deliver [OF reachable.start, where e = WhaleWatcher and b = "''x''"
        and r = "fst (handle WhaleWatcher pg_sink sample_sale ''x'' init_db)"]) simp
  from reachable_sol_rows_whales [OF this] show ?thesis .
qed

theorem reachable_token_rows_known_witness:
  "token_rows_known (snd (handle TokenTransfer pg_sink sample_proto_token ''x'' init_db))"
proof -
  have "reachable sample_proto_token (snd (handle TokenTransfer pg_sink sample_proto_token ''x'' init_db))"
    by (rule reachable.deliver [OF reachable.start, where e = TokenTransfer and b = "''x''"
        and r = "fst (handle TokenTransfer pg_sink sample_proto_token ''x'' init_db)"]) simp
  from reachable_token_rows_known [OF this] show ?thesis .
qed

theorem handle_appends_own_table_witness:
  "prefix (tbl_rows (target NftSale init_db)) (tbl_rows (target NftSale (snd (handle NftSale pg_sink sample_sale ''x'' init_db))))
   \<and> sol_transfers (snd (handle NftSale pg_sink sample_sale ''x'' init_db)) = sol_transfers init_db
   \<and> token_transfers (snd (handle NftSale pg_sink sample_sale ''x'' init_db)) = token_transfers init_db"
proof -
  have h: "handle NftSale pg_sink sample_sale ''x'' init_db
          = (fst (handle NftSale pg_sink sample_sale ''x'' init_db), snd (handle NftSale pg_sink sample_sale ''x'' init_db))"
    by simp
  from handle_appends_own_table [OF h] have p: "prefix (tbl_rows (target NftSale init_db))
      (tbl_rows (target NftSale (snd (handle NftSale pg_sink sample_sale ''x'' init_db))))"
    and o: "\<forall>e'. e' \<noteq> NftSale \<longrightarrow> target e' (snd (handle NftSale pg_sink sample_sale ''x'' init_db)) = target e' init_db"
    by blast+
  from p o [rule_format, of WhaleWatcher] o [rule_format, of TokenTransfer] show ?thesis by simp
qed

theorem handle_ok_iff_changed_witness:
  "fst (handle NftSale pg_sink sample_sale ''x'' init_db) = Response ok_message 200
   \<and> snd (handle NftSale pg_sink sample_sale ''x'' init_db) \<noteq> init_db"
proof -
  have h: "handle NftSale pg_sink sample_sale ''x'' init_db
          = (fst (handle NftSale pg_sink sample_sale ''x'' init_db), snd (handle NftSale pg_sink sample_sale ''x'' init_db))"
    by simp
  have ne: "snd (handle NftSale pg_sink sample_sale ''x'' init_db) \<noteq> init_db"
    by (simp add: sample_sale_eval)
  with handle_ok_iff_changed [OF h] show ?thesis by blast
qed

theorem token_proto_mint_rejected_witness:
  "handle TokenTransfer pg_sink sample_proto_token ''x'' init_db =
     (Response (fail_message (not_null_violation ''token_transfers'' ''token_symbol'')) 500, init_db)"
proof -
  have "sample_proto_token ''x'' = Inr (enc_token_payload ''s2'' ((''constructor'', ''A'', ''B'', 1000000)
          # [(''EPjFWdd5AufqSSqeM2qN1xzybapC8G4wEGGkZwyTDt1v'', ''A'', ''B'', 2500000)]))"
    "''constructor'' \<in> set object_proto_keys" "db_layout init_db"
    by (simp_all add: sample_proto_token_def js_proto db_layout_def init_db_def empty_table_def)
  from token_proto_mint_rejected [where parse = sample_proto_token and body = "''x''" and sig = "''s2''"
      and m = "''constructor''" and f = "''A''" and t = "''B''" and a = 1000000
      and ts = "[(''EPjFWdd5AufqSSqeM2qN1xzybapC8G4wEGGkZwyTDt1v'', ''A'', ''B'', 2500000)]"
      and d = init_db, OF this] show ?thesis .
qed

theorem handle_missing_env_witness:
  "handle NftSale (with_client (\<lambda>_. None) pg_sink) sample_sale ''x'' init_db =
     (Response (fail_message ''supabaseUrl is required.'') 500, init_db)
   \<and> handle WhaleWatcher (with_client (\<lambda>_. None) pg_sink) sample_sale ''x'' init_db =
     (Response ''Invalid payload'' 400, init_db)"
proof -
  have c: "create_client (\<lambda>_. None) = Inl ''supabaseUrl is required.''" by (simp add: create_client_def)
  from handle_missing_env [OF c, of NftSale pg_sink sample_sale "''x''" init_db]
    handle_missing_env [OF c, of WhaleWatcher pg_sink sample_sale "''x''" init_db]
  show ?thesis
    by (simp add: sample_sale_def whale_try_def sale_try_def clean_sale_def sale_mint_def js_proto)
qed

theorem handle_object_envelope_witness:
  "handle TokenTransfer pg_sink json_parse ''{\"0\":{\"tokenTransfers\":[]}}'' init_db
   = handle TokenTransfer pg_sink json_parse ''[{\"tokenTransfers\":[]}]'' init_db"
proof -
  have o: "json_parse ''{\"0\":{\"tokenTransfers\":[]}}'' = Inr (JObj [(''0'', JObj [(''tokenTransfers'', JArr [])])])"
    by code_simp
  have a: "json_parse ''[{\"tokenTransfers\":[]}]'' = Inr (JArr [JObj [(''tokenTransfers'', JArr [])]])"
    by code_simp
  show ?thesis by (rule handle_object_envelope [OF o a])
qed

theorem handle_blank_body_witness:
  "handle TokenTransfer pg_sink json_parse [CHR '' '', CHR 0x09, CHR 0x0A] init_db
     = (Response ''Webhook processing failed: Unexpected end of JSON input'' 500, init_db)"
  using handle_blank_body [of "[CHR '' '', CHR 0x09, CHR 0x0A]" TokenTransfer pg_sink init_db]
  by (simp add: json_ws_def fail_message_def eoi_error_def)

theorem whale_success_logged_rows_witness:
  "console WhaleWatcher pg_sink (\<lambda>_. Inr (enc_whale_payload ''s1'' [(''A'', ''B'', 2000000000000)])) ''x'' init_db
     = [(ConsoleLog, [JStr ''Successfully processed 1 SOL whale transfer(s).''])]"
proof -
  let ?P = "\<lambda>_::string. Inr (enc_whale_payload ''s1'' [(''A'', ''B'', 2000000000000)]) :: jsval js"
  have h: "handle WhaleWatcher pg_sink ?P ''x'' init_db
            = (Response ok_message 200, snd (handle WhaleWatcher pg_sink ?P ''x'' init_db))"
    by (simp add: whale_sample_eval)
  have c: "char_of (49::nat) = CHR ''1''" by code_simp
  show ?thesis using whale_success_logged_rows [OF h]
    by (simp add: whale_sample_eval js_template_def string_of_int_def string_of_nat.simps c)
qed

end
